theory Spec2Isabelle
  imports Main "HOL-Library.Word" "HOL-Library.List_Lexorder"
begin

unbundle bit_operations_syntax

section \<open>Bytes, identifiers and heights\<close>

text \<open>
  The consensus database of \<^verbatim>\<open>modules/consensus/database.go\<close> is a bolt transaction:
  named buckets of byte-string keys and byte-string values. A Go \<^verbatim>\<open>byte\<close> is an 8-bit
  word, \<^verbatim>\<open>types.BlockHeight\<close> is a \<^verbatim>\<open>uint64\<close>, and every identifier of the file
  (\<^verbatim>\<open>types.BlockID\<close>, \<^verbatim>\<open>types.SiacoinOutputID\<close>, \<^verbatim>\<open>types.FileContractID\<close>,
  \<^verbatim>\<open>types.SiafundOutputID\<close>, \<^verbatim>\<open>types.UnlockHash\<close>) is a \<^verbatim>\<open>[32]byte\<close>:
  exactly the byte lists of length 32. \<^verbatim>\<open>types.Currency\<close> is an arbitrary-precision
  non-negative integer.
\<close>

type_synonym byte = "8 word"
type_synonym BlockHeight = "64 word"
type_synonym Currency = nat

typedef hash32 = "{bs :: byte list. length bs = 32}"
  by (rule exI [of _ "replicate 32 0"]) simp

type_synonym BlockID = hash32
type_synonym SiacoinOutputID = hash32
type_synonym SiafundOutputID = hash32
type_synonym FileContractID = hash32
type_synonym UnlockHash = hash32

text \<open>The zero value of a \<^verbatim>\<open>[32]byte\<close>, as in \<^verbatim>\<open>types.UnlockHash{}\<close>.\<close>

definition zero_hash32 :: hash32 where
  "zero_hash32 = Abs_hash32 (replicate 32 0)"

text \<open>A nil slice is used as the empty one where only its bytes matter.\<close>

definition nilBytes :: "byte list option \<Rightarrow> byte list" where
  "nilBytes b = (case b of None \<Rightarrow> [] | Some bs \<Rightarrow> bs)"

text \<open>
  The slice expression \<^verbatim>\<open>b[lo:hi]\<close>; out of range, and on a nil slice, the Go runtime
  panics, which is \<open>None\<close> here.
\<close>

definition sliceBytes :: "byte list option \<Rightarrow> nat \<Rightarrow> nat \<Rightarrow> byte list option" where
  "sliceBytes b lo hi =
     (if lo \<le> hi \<and> hi \<le> length (nilBytes b) then Some (take (hi - lo) (drop lo (nilBytes b)))
      else None)"

text \<open>A Go string literal converted with \<^verbatim>\<open>[]byte("...")\<close>.\<close>

definition bytes_of :: "string \<Rightarrow> byte list" where
  "bytes_of s = map of_char s"

section \<open>Errors and panics\<close>

text \<open>
  The error values of the file (\<^verbatim>\<open>errRepeatInsert\<close> ... \<^verbatim>\<open>errNonEmptyBucket\<close>), the
  errors bolt's bucket operations return, and the error of \<^verbatim>\<open>encoding.Unmarshal\<close>
  on input it cannot decode.
\<close>

datatype error =
    errRepeatInsert | errNilBucket | errNilItem | errDBInconsistent | errNonEmptyBucket
  | ErrBucketExists | ErrBucketNotFound | ErrBucketNameRequired
  | ErrKeyRequired | ErrKeyTooLarge | ErrValueTooLarge
  | ErrDecode

text \<open>
  What a Go \<^verbatim>\<open>panic\<close> carries: an error value, a string, an integer
  (\<^verbatim>\<open>panic(height)\<close>), and the two runtime panics the file can run into, a method
  call on a nil \<^verbatim>\<open>*bolt.Bucket\<close> and a slice expression out of range.
\<close>

datatype panic =
    PanicErr error | PanicStr string | PanicInt int | NilDereference | SliceOutOfRange

section \<open>The bolt transaction\<close>

type_synonym bucket = "byte list \<rightharpoonup> byte list"
type_synonym Tx = "byte list \<rightharpoonup> bucket"

text \<open>
  A call either panics, and then the transaction as it stood at the panic is kept for
  inspection (bolt never commits it), or returns.
\<close>

type_synonym 'a result = "(panic \<times> Tx) + 'a"

definition bindR :: "'a result \<Rightarrow> ('a \<Rightarrow> 'b result) \<Rightarrow> 'b result" where
  "bindR r f = (case r of Inl p \<Rightarrow> Inl p | Inr x \<Rightarrow> f x)"

text \<open>The recurring statement \<^verbatim>\<open>if build.DEBUG && err != nil { panic(err) }\<close>.\<close>

definition panicIfDebug :: "bool \<Rightarrow> error option \<Rightarrow> Tx \<Rightarrow> unit result" where
  "panicIfDebug debug err tx =
     (case err of
        None \<Rightarrow> Inr ()
      | Some e \<Rightarrow> if debug then Inl (PanicErr e, tx) else Inr ())"

definition MaxKeySize :: nat where
  "MaxKeySize = 32768"

definition MaxValueSize :: nat where
  "MaxValueSize = 2147483646"

text \<open>
  bolt's operations, in a writable transaction. \<^verbatim>\<open>tx.Bucket(name)\<close> is \<open>tx name\<close>,
  nil when there is no such bucket; a method called on a nil bucket dereferences it.
  \<^verbatim>\<open>Get\<close> returns nil for a missing key, and the stored value, which may be empty but
  is not nil, for a present one. \<^verbatim>\<open>Put\<close> overwrites, and refuses a blank key, a key
  longer than \<^verbatim>\<open>MaxKeySize\<close> and a value longer than \<^verbatim>\<open>MaxValueSize\<close>.
  \<^verbatim>\<open>Delete\<close> of a missing key does nothing and returns no error.
\<close>

definition Bucket_Get :: "Tx \<Rightarrow> byte list \<Rightarrow> byte list \<Rightarrow> (byte list option) result" where
  "Bucket_Get tx name key =
     (case tx name of
        None \<Rightarrow> Inl (NilDereference, tx)
      | Some b \<Rightarrow> Inr (b key))"

definition Bucket_Put ::
  "Tx \<Rightarrow> byte list \<Rightarrow> byte list \<Rightarrow> byte list \<Rightarrow> (error option \<times> Tx) result" where
  "Bucket_Put tx name key val =
     (case tx name of
        None \<Rightarrow> Inl (NilDereference, tx)
      | Some b \<Rightarrow>
          if key = [] then Inr (Some ErrKeyRequired, tx)
          else if MaxKeySize < length key then Inr (Some ErrKeyTooLarge, tx)
          else if MaxValueSize < length val then Inr (Some ErrValueTooLarge, tx)
          else Inr (None, tx(name \<mapsto> b(key \<mapsto> val))))"

definition Bucket_Delete :: "Tx \<Rightarrow> byte list \<Rightarrow> byte list \<Rightarrow> (error option \<times> Tx) result" where
  "Bucket_Delete tx name key =
     (case tx name of
        None \<Rightarrow> Inl (NilDereference, tx)
      | Some b \<Rightarrow> Inr (None, tx(name \<mapsto> b(key := None))))"

text \<open>
  \<^verbatim>\<open>ForEach\<close> visits the pairs of a bucket, which holds finitely many, in the byte
  order of their keys, and stops at the first error the visiting function returns.
\<close>

definition Bucket_pairs :: "bucket \<Rightarrow> (byte list \<times> byte list) list" where
  "Bucket_pairs b = map (\<lambda>k. (k, nilBytes (b k))) (sorted_list_of_set (dom b))"

fun forEachPair ::
  "(byte list \<Rightarrow> byte list \<Rightarrow> error option) \<Rightarrow> (byte list \<times> byte list) list \<Rightarrow> error option" where
  "forEachPair fn [] = None"
| "forEachPair fn ((k, v) # rest) =
     (case fn k v of Some err \<Rightarrow> Some err | None \<Rightarrow> forEachPair fn rest)"

definition Bucket_ForEach ::
  "Tx \<Rightarrow> byte list \<Rightarrow> (byte list \<Rightarrow> byte list \<Rightarrow> error option) \<Rightarrow> (error option) result" where
  "Bucket_ForEach tx name fn =
     (case tx name of
        None \<Rightarrow> Inl (NilDereference, tx)
      | Some b \<Rightarrow> Inr (forEachPair fn (Bucket_pairs b)))"

text \<open>
  \<^verbatim>\<open>tx.CreateBucket\<close> refuses a blank name and an existing bucket;
  \<^verbatim>\<open>tx.CreateBucketIfNotExists\<close> returns the existing bucket instead;
  \<^verbatim>\<open>tx.DeleteBucket\<close> removes a bucket with everything in it and refuses a missing one.
\<close>

definition CreateBucket :: "Tx \<Rightarrow> byte list \<Rightarrow> error option \<times> Tx" where
  "CreateBucket tx name =
     (if name = [] then (Some ErrBucketNameRequired, tx)
      else if tx name \<noteq> None then (Some ErrBucketExists, tx)
      else (None, tx(name \<mapsto> Map.empty)))"

definition CreateBucketIfNotExists :: "Tx \<Rightarrow> byte list \<Rightarrow> error option \<times> Tx" where
  "CreateBucketIfNotExists tx name =
     (case CreateBucket tx name of
        (Some e, tx') \<Rightarrow> if e = ErrBucketExists then (None, tx') else (Some e, tx')
      | (None, tx') \<Rightarrow> (None, tx'))"

definition DeleteBucket :: "Tx \<Rightarrow> byte list \<Rightarrow> error option \<times> Tx" where
  "DeleteBucket tx name =
     (if tx name = None then (Some ErrBucketNotFound, tx)
      else (None, tx(name := None)))"

section \<open>The encoding of integers and identifiers\<close>

text \<open>
  Modelled from the spec: \<^verbatim>\<open>encoding.EncUint64\<close>, which is not part of the file.
  The spec (section 6) fixes a deterministic fixed-width binary encoding of integers,
  and the file's own comment places a height at bytes 48-56 of an encoded contract:
  eight bytes, least significant first.
\<close>

definition EncUint64 :: "64 word \<Rightarrow> byte list" where
  "EncUint64 i = map (\<lambda>k. ucast (drop_bit (8 * k) i)) [0..<8]"

fun DecUint64 :: "byte list \<Rightarrow> 64 word" where
  "DecUint64 (b0 # b1 # b2 # b3 # b4 # b5 # b6 # b7 # _) =
     ucast b0 OR push_bit 8 (ucast b1) OR push_bit 16 (ucast b2) OR push_bit 24 (ucast b3)
     OR push_bit 32 (ucast b4) OR push_bit 40 (ucast b5) OR push_bit 48 (ucast b6)
     OR push_bit 56 (ucast b7)"
| "DecUint64 _ = 0"

text \<open>
  Modelled from the spec: \<^verbatim>\<open>encoding.Marshal\<close> and \<^verbatim>\<open>encoding.Unmarshal\<close> at the
  types the file uses them with directly. An unsigned integer (a
  \<^verbatim>\<open>types.BlockHeight\<close>) is a fixed-width field: the encoder writes eight bytes,
  each the low byte of what is left of the value, from the least significant on
  (\<open>Marshal_uint\<close>). An \<^verbatim>\<open>int\<close> is read from eight bytes as a two's complement number; a \<^verbatim>\<open>[32]byte\<close> is its 32 bytes. Decoding
  reads a prefix of the input and fails on input that is nil or too short, leaving the
  target at its zero value, which is what the pair (error, value) returns.
\<close>

fun Marshal_uint :: "nat \<Rightarrow> 64 word \<Rightarrow> byte list" where
  "Marshal_uint 0 v = []"
| "Marshal_uint (Suc n) v = ucast v # Marshal_uint n (drop_bit 8 v)"

definition Marshal_BlockHeight :: "BlockHeight \<Rightarrow> byte list" where
  "Marshal_BlockHeight h = Marshal_uint 8 h"

definition Unmarshal_BlockHeight :: "byte list option \<Rightarrow> error option \<times> BlockHeight" where
  "Unmarshal_BlockHeight b =
     (case b of
        None \<Rightarrow> (Some ErrDecode, 0)
      | Some bs \<Rightarrow> if length bs < 8 then (Some ErrDecode, 0) else (None, DecUint64 bs))"

definition Unmarshal_int :: "byte list option \<Rightarrow> error option \<times> int" where
  "Unmarshal_int b =
     (case b of
        None \<Rightarrow> (Some ErrDecode, 0)
      | Some bs \<Rightarrow> if length bs < 8 then (Some ErrDecode, 0) else (None, sint (DecUint64 bs)))"

definition Unmarshal_hash32 :: "byte list option \<Rightarrow> error option \<times> hash32" where
  "Unmarshal_hash32 b =
     (case b of
        None \<Rightarrow> (Some ErrDecode, zero_hash32)
      | Some bs \<Rightarrow>
          if length bs < 32 then (Some ErrDecode, zero_hash32)
          else (None, Abs_hash32 (take 32 bs)))"

section \<open>What the file imports\<close>

text \<open>
  The records of package \<^verbatim>\<open>types\<close> and \<^verbatim>\<open>modules\<close>, with the fields the file reads.
  A block, a file contract and a siafund output are opaque here: the file only hashes,
  encodes or stores them.
\<close>

record SiacoinOutput =
  Value :: Currency
  UnlockHash :: UnlockHash

record 'sfo SiafundOutputDiff =
  ID :: SiafundOutputID
  SiafundOutput :: 'sfo

record ('blk, 'sfo) processedBlock =
  Block :: 'blk
  SiafundOutputDiffs :: "'sfo SiafundOutputDiff list"
  ConsensusSetHash :: hash32

text \<open>
  The constants and functions of other packages enter as parameters: the flag
  \<^verbatim>\<open>build.DEBUG\<close>, the methods \<^verbatim>\<open>Block.ID\<close> and \<^verbatim>\<open>Block.MinerPayoutID\<close>,
  \<^verbatim>\<open>types.CalculateCoinbase\<close>, the field \<^verbatim>\<open>FileContract.WindowEnd\<close>,
  \<^verbatim>\<open>encoding.Marshal\<close> and \<^verbatim>\<open>encoding.Unmarshal\<close> at each record type, and
  \<^verbatim>\<open>consensusChecksum\<close>.
\<close>

record ('blk, 'fc, 'sfo) env =
  DEBUG :: bool
  Block_ID :: "'blk \<Rightarrow> BlockID"
  Block_MinerPayoutID :: "'blk \<Rightarrow> nat \<Rightarrow> SiacoinOutputID"
  CalculateCoinbase :: "BlockHeight \<Rightarrow> Currency"
  FileContract_WindowEnd :: "'fc \<Rightarrow> BlockHeight"
  Marshal_processedBlock :: "('blk, 'sfo) processedBlock \<Rightarrow> byte list"
  Marshal_SiacoinOutput :: "SiacoinOutput \<Rightarrow> byte list"
  Unmarshal_SiacoinOutput :: "byte list \<Rightarrow> error + SiacoinOutput"
  Marshal_SiafundOutput :: "'sfo \<Rightarrow> byte list"
  Marshal_FileContract :: "'fc \<Rightarrow> byte list"
  Marshal_Currency :: "Currency \<Rightarrow> byte list"
  Unmarshal_Currency :: "byte list \<Rightarrow> error + Currency"
  consensusChecksum :: "Tx \<Rightarrow> hash32"

section \<open>Bucket names\<close>

definition prefix_dsco :: "byte list" where
  "prefix_dsco = bytes_of ''dsco_''"

definition prefix_fcex :: "byte list" where
  "prefix_fcex = bytes_of ''fcex_''"

definition BlockHeight :: "byte list" where
  "BlockHeight = bytes_of ''BlockHeight''"

definition BlockPath :: "byte list" where
  "BlockPath = bytes_of ''BlockPath''"

definition BlockMap :: "byte list" where
  "BlockMap = bytes_of ''BlockMap''"

definition SiacoinOutputs :: "byte list" where
  "SiacoinOutputs = bytes_of ''SiacoinOutputs''"

definition FileContracts :: "byte list" where
  "FileContracts = bytes_of ''FileContracts''"

definition FileContractExpirations :: "byte list" where
  "FileContractExpirations = bytes_of ''FileContractExpirations''"

definition SiafundOutputs :: "byte list" where
  "SiafundOutputs = bytes_of ''SiafundOutputs''"

definition SiafundPool :: "byte list" where
  "SiafundPool = bytes_of ''SiafundPool''"

section \<open>The chain index and the block map\<close>

definition blockHeight :: "('blk, 'fc, 'sfo) env \<Rightarrow> Tx \<Rightarrow> BlockHeight result" where
  "blockHeight env tx =
     bindR (Bucket_Get tx BlockHeight BlockHeight) (\<lambda>bytes.
       let (err, height) = Unmarshal_int bytes in
       bindR (panicIfDebug (DEBUG env) err tx) (\<lambda>_.
         if height < 0 then Inl (PanicInt height, tx)
         else Inr (word_of_int height)))"

definition addBlockMap ::
  "('blk, 'fc, 'sfo) env \<Rightarrow> Tx \<Rightarrow> ('blk, 'sfo) processedBlock \<Rightarrow> Tx result" where
  "addBlockMap env tx pb =
     (let id' = Block_ID env (Block pb) in
      bindR (Bucket_Put tx BlockMap (Rep_hash32 id') (Marshal_processedBlock env pb)) (\<lambda>(err, tx).
        bindR (panicIfDebug (DEBUG env) err tx) (\<lambda>_. Inr tx)))"

definition getPath :: "('blk, 'fc, 'sfo) env \<Rightarrow> Tx \<Rightarrow> BlockHeight \<Rightarrow> BlockID result" where
  "getPath env tx height =
     bindR (Bucket_Get tx BlockPath (Marshal_BlockHeight height)) (\<lambda>idBytes.
       let (err, id') = Unmarshal_hash32 idBytes in
       bindR (panicIfDebug (DEBUG env) err tx) (\<lambda>_. Inr id'))"

definition pushPath :: "('blk, 'fc, 'sfo) env \<Rightarrow> Tx \<Rightarrow> BlockID \<Rightarrow> Tx result" where
  "pushPath env tx bid =
     bindR (Bucket_Get tx BlockHeight BlockHeight) (\<lambda>heightBytes.
       let (err, oldHeight) = Unmarshal_BlockHeight heightBytes in
       bindR (panicIfDebug (DEBUG env) err tx) (\<lambda>_.
         let newHeightBytes = Marshal_BlockHeight (oldHeight + 1) in
         bindR (Bucket_Put tx BlockHeight BlockHeight newHeightBytes) (\<lambda>(err, tx).
           bindR (panicIfDebug (DEBUG env) err tx) (\<lambda>_.
             bindR (Bucket_Put tx BlockPath newHeightBytes (Rep_hash32 bid)) (\<lambda>(err, tx).
               bindR (panicIfDebug (DEBUG env) err tx) (\<lambda>_. Inr tx))))))"

definition popPath :: "('blk, 'fc, 'sfo) env \<Rightarrow> Tx \<Rightarrow> Tx result" where
  "popPath env tx =
     bindR (Bucket_Get tx BlockHeight BlockHeight) (\<lambda>oldHeightBytes.
       let (err, oldHeight) = Unmarshal_BlockHeight oldHeightBytes in
       bindR (panicIfDebug (DEBUG env) err tx) (\<lambda>_.
         let newHeightBytes = Marshal_BlockHeight (oldHeight - 1) in
         bindR (Bucket_Put tx BlockHeight BlockHeight newHeightBytes) (\<lambda>(err, tx).
           bindR (panicIfDebug (DEBUG env) err tx) (\<lambda>_.
             bindR (Bucket_Delete tx BlockPath (nilBytes oldHeightBytes)) (\<lambda>(err, tx).
               bindR (panicIfDebug (DEBUG env) err tx) (\<lambda>_. Inr tx))))))"

section \<open>Siacoin outputs\<close>

definition isSiacoinOutput :: "Tx \<Rightarrow> SiacoinOutputID \<Rightarrow> bool result" where
  "isSiacoinOutput tx id' =
     bindR (Bucket_Get tx SiacoinOutputs (Rep_hash32 id')) (\<lambda>sco. Inr (sco \<noteq> None))"

definition getSiacoinOutput ::
  "('blk, 'fc, 'sfo) env \<Rightarrow> Tx \<Rightarrow> SiacoinOutputID \<Rightarrow> (error + SiacoinOutput) result" where
  "getSiacoinOutput env tx id' =
     bindR (Bucket_Get tx SiacoinOutputs (Rep_hash32 id')) (\<lambda>scoBytes.
       case scoBytes of
         None \<Rightarrow> Inr (Inl errNilItem)
       | Some bs \<Rightarrow>
           (case Unmarshal_SiacoinOutput env bs of
              Inl err \<Rightarrow> Inr (Inl err)
            | Inr sco \<Rightarrow> Inr (Inr sco)))"

text \<open>
  The sanity checks read the bucket only when \<^verbatim>\<open>build.DEBUG\<close> holds: Go's
  \<^verbatim>\<open>&&\<close> does not evaluate its right operand otherwise.
\<close>

definition addSiacoinOutput ::
  "('blk, 'fc, 'sfo) env \<Rightarrow> Tx \<Rightarrow> SiacoinOutputID \<Rightarrow> SiacoinOutput \<Rightarrow> Tx result" where
  "addSiacoinOutput env tx id' sco =
     bindR (if DEBUG env
            then bindR (Bucket_Get tx SiacoinOutputs (Rep_hash32 id')) (\<lambda>old.
                   if old \<noteq> None then Inl (PanicStr ''repeat siacoin output'', tx) else Inr ())
            else Inr ()) (\<lambda>_.
       bindR (Bucket_Put tx SiacoinOutputs (Rep_hash32 id') (Marshal_SiacoinOutput env sco)) (\<lambda>(err, tx).
         bindR (panicIfDebug (DEBUG env) err tx) (\<lambda>_. Inr tx)))"

definition removeSiacoinOutput :: "('blk, 'fc, 'sfo) env \<Rightarrow> Tx \<Rightarrow> SiacoinOutputID \<Rightarrow> Tx result" where
  "removeSiacoinOutput env tx id' =
     bindR (if DEBUG env
            then bindR (Bucket_Get tx SiacoinOutputs (Rep_hash32 id')) (\<lambda>old.
                   if old = None then Inl (PanicStr ''nil siacoin output'', tx) else Inr ())
            else Inr ()) (\<lambda>_.
       bindR (Bucket_Delete tx SiacoinOutputs (Rep_hash32 id')) (\<lambda>(err, tx).
         bindR (panicIfDebug (DEBUG env) err tx) (\<lambda>_. Inr tx)))"

section \<open>File contracts\<close>

definition addFileContract ::
  "('blk, 'fc, 'sfo) env \<Rightarrow> Tx \<Rightarrow> FileContractID \<Rightarrow> 'fc \<Rightarrow> Tx result" where
  "addFileContract env tx id' fc =
     bindR (if DEBUG env
            then bindR (Bucket_Get tx FileContracts (Rep_hash32 id')) (\<lambda>old.
                   if old \<noteq> None then Inl (PanicStr ''repeat file contract'', tx) else Inr ())
            else Inr ()) (\<lambda>_.
       bindR (Bucket_Put tx FileContracts (Rep_hash32 id') (Marshal_FileContract env fc)) (\<lambda>(err, tx).
         bindR (panicIfDebug (DEBUG env) err tx) (\<lambda>_.
           let expirationBucketID =
                 prefix_fcex @ Marshal_BlockHeight (FileContract_WindowEnd env fc);
               (err, tx) = CreateBucketIfNotExists tx expirationBucketID in
           bindR (panicIfDebug (DEBUG env) err tx) (\<lambda>_.
             bindR (Bucket_Put tx expirationBucketID (Rep_hash32 id') []) (\<lambda>(err, tx).
               bindR (panicIfDebug (DEBUG env) err tx) (\<lambda>_. Inr tx))))))"

definition removeFileContract :: "('blk, 'fc, 'sfo) env \<Rightarrow> Tx \<Rightarrow> FileContractID \<Rightarrow> Tx result" where
  "removeFileContract env tx id' =
     bindR (Bucket_Get tx FileContracts (Rep_hash32 id')) (\<lambda>fcBytes.
       if DEBUG env \<and> fcBytes = None then Inl (PanicStr ''nil file contract'', tx)
       else
         bindR (Bucket_Delete tx FileContracts (Rep_hash32 id')) (\<lambda>(err, tx).
           bindR (panicIfDebug (DEBUG env) err tx) (\<lambda>_.
             case sliceBytes fcBytes 48 56 of
               None \<Rightarrow> Inl (SliceOutOfRange, tx)
             | Some windowEndBytes \<Rightarrow>
                 let expirationBucketID = prefix_fcex @ windowEndBytes in
                 bindR (Bucket_Get tx expirationBucketID (Rep_hash32 id')) (\<lambda>expirationBytes.
                   if expirationBytes = None then Inl (PanicErr errNilItem, tx)
                   else
                     bindR (Bucket_Delete tx expirationBucketID (Rep_hash32 id')) (\<lambda>(err, tx).
                       bindR (panicIfDebug (DEBUG env) err tx) (\<lambda>_. Inr tx))))))"

section \<open>Siafund outputs and the siafund pool\<close>

definition addSiafundOutput ::
  "('blk, 'fc, 'sfo) env \<Rightarrow> Tx \<Rightarrow> SiafundOutputID \<Rightarrow> 'sfo \<Rightarrow> Tx result" where
  "addSiafundOutput env tx id' sfo =
     bindR (if DEBUG env
            then bindR (Bucket_Get tx SiafundOutputs (Rep_hash32 id')) (\<lambda>old.
                   if old \<noteq> None then Inl (PanicStr ''repeat siafund output'', tx) else Inr ())
            else Inr ()) (\<lambda>_.
       bindR (Bucket_Put tx SiafundOutputs (Rep_hash32 id') (Marshal_SiafundOutput env sfo)) (\<lambda>(err, tx).
         bindR (panicIfDebug (DEBUG env) err tx) (\<lambda>_. Inr tx)))"

definition removeSiafundOutput :: "('blk, 'fc, 'sfo) env \<Rightarrow> Tx \<Rightarrow> SiafundOutputID \<Rightarrow> Tx result" where
  "removeSiafundOutput env tx id' =
     bindR (if DEBUG env
            then bindR (Bucket_Get tx SiafundOutputs (Rep_hash32 id')) (\<lambda>old.
                   if old = None then Inl (PanicStr ''nil siafund output'', tx) else Inr ())
            else Inr ()) (\<lambda>_.
       bindR (Bucket_Delete tx SiafundOutputs (Rep_hash32 id')) (\<lambda>(err, tx).
         bindR (panicIfDebug (DEBUG env) err tx) (\<lambda>_. Inr tx)))"

definition getSiafundPool :: "('blk, 'fc, 'sfo) env \<Rightarrow> Tx \<Rightarrow> Currency result" where
  "getSiafundPool env tx =
     bindR (Bucket_Get tx SiafundPool SiafundPool) (\<lambda>poolBytes.
       let (err, pool) =
             (case Unmarshal_Currency env (nilBytes poolBytes) of
                Inl e \<Rightarrow> (Some e, 0)
              | Inr c \<Rightarrow> (None, c)) in
       bindR (panicIfDebug (DEBUG env) err tx) (\<lambda>_. Inr pool))"

definition setSiafundPool :: "('blk, 'fc, 'sfo) env \<Rightarrow> Tx \<Rightarrow> Currency \<Rightarrow> Tx result" where
  "setSiafundPool env tx c =
     bindR (Bucket_Put tx SiafundPool SiafundPool (Marshal_Currency env c)) (\<lambda>(err, tx).
       bindR (panicIfDebug (DEBUG env) err tx) (\<lambda>_. Inr tx))"

text \<open>
  Modelled from the spec: \<^verbatim>\<open>commitSiafundOutputDiff\<close>, which lives in another file
  of the package. The initializer applies the genesis block's siafund-output diffs
  through the normal add path (spec, section 4.8).
\<close>

definition commitSiafundOutputDiff ::
  "('blk, 'fc, 'sfo) env \<Rightarrow> Tx \<Rightarrow> 'sfo SiafundOutputDiff \<Rightarrow> Tx result" where
  "commitSiafundOutputDiff env tx sfod = addSiafundOutput env tx (ID sfod) (SiafundOutput sfod)"

section \<open>Delayed siacoin outputs\<close>

text \<open>
  The name of the bucket of a height, as \<^verbatim>\<open>addDSCO\<close> computes it and as
  \<^verbatim>\<open>removeDSCO\<close>, \<^verbatim>\<open>createDSCOBucket\<close>, \<^verbatim>\<open>deleteDSCOBucket\<close> and
  \<^verbatim>\<open>forEachDSCO\<close> compute it.
\<close>

definition dscoBucketID_EncUint64 :: "BlockHeight \<Rightarrow> byte list" where
  "dscoBucketID_EncUint64 bh = prefix_dsco @ EncUint64 bh"

definition dscoBucketID_Marshal :: "BlockHeight \<Rightarrow> byte list" where
  "dscoBucketID_Marshal bh = prefix_dsco @ Marshal_BlockHeight bh"

definition addDSCO ::
  "('blk, 'fc, 'sfo) env \<Rightarrow> Tx \<Rightarrow> BlockHeight \<Rightarrow> SiacoinOutputID \<Rightarrow> SiacoinOutput \<Rightarrow> Tx result" where
  "addDSCO env tx bh id' sco =
     bindR (if DEBUG env
            then bindR (Bucket_Get tx SiacoinOutputs (Rep_hash32 id')) (\<lambda>old.
                   if old \<noteq> None then Inl (PanicStr ''dsco already in output set'', tx)
                   else Inr ())
            else Inr ()) (\<lambda>_.
       let dscoBucketID = dscoBucketID_EncUint64 bh in
       bindR (if DEBUG env
              then bindR (Bucket_Get tx dscoBucketID (Rep_hash32 id')) (\<lambda>old.
                     if old \<noteq> None then Inl (PanicErr errRepeatInsert, tx) else Inr ())
              else Inr ()) (\<lambda>_.
         bindR (Bucket_Put tx dscoBucketID (Rep_hash32 id') (Marshal_SiacoinOutput env sco)) (\<lambda>(err, tx).
           bindR (panicIfDebug (DEBUG env) err tx) (\<lambda>_. Inr tx))))"

text \<open>
  \<^verbatim>\<open>removeDSCO\<close> prints instead of panicking; the lines it prints, each the operands
  of one \<^verbatim>\<open>fmt.Println\<close>, are returned with the transaction.
\<close>

type_synonym printed = "(string \<times> SiacoinOutputID) list"

definition removeDSCO ::
  "('blk, 'fc, 'sfo) env \<Rightarrow> Tx \<Rightarrow> BlockHeight \<Rightarrow> SiacoinOutputID \<Rightarrow> (printed \<times> Tx) result" where
  "removeDSCO env tx bh id' =
     (let bucketID = dscoBucketID_Marshal bh in
      bindR (if DEBUG env
             then bindR (Bucket_Get tx bucketID (Rep_hash32 id')) (\<lambda>old.
                    if old = None then Inr [(''NIL DSCO'', id')] else Inr [])
             else Inr []) (\<lambda>out.
        bindR (Bucket_Delete tx bucketID (Rep_hash32 id')) (\<lambda>(err, tx).
          bindR (panicIfDebug (DEBUG env) err tx) (\<lambda>_. Inr (out, tx)))))"

definition createDSCOBucket :: "('blk, 'fc, 'sfo) env \<Rightarrow> Tx \<Rightarrow> BlockHeight \<Rightarrow> Tx result" where
  "createDSCOBucket env tx bh =
     (let bucketID = dscoBucketID_Marshal bh;
          (err, tx) = CreateBucket tx bucketID in
      bindR (panicIfDebug (DEBUG env) err tx) (\<lambda>_. Inr tx))"

definition deleteDSCOBucket :: "('blk, 'fc, 'sfo) env \<Rightarrow> Tx \<Rightarrow> BlockHeight \<Rightarrow> Tx result" where
  "deleteDSCOBucket env tx h =
     (let bucketID = dscoBucketID_Marshal h;
          bucket = tx bucketID in
      if DEBUG env \<and> bucket = None then Inl (PanicErr errNilBucket, tx)
      else
        let (err, tx) = DeleteBucket tx bucketID in
        bindR (panicIfDebug (DEBUG env) err tx) (\<lambda>_. Inr tx))"

text \<open>
  \<^verbatim>\<open>forEachDSCO\<close> decodes each pair of the bucket and hands it to \<open>fn\<close>, returning
  the first error of a decoding or of \<open>fn\<close>.
\<close>

definition forEachDSCO ::
  "('blk, 'fc, 'sfo) env \<Rightarrow> Tx \<Rightarrow> BlockHeight \<Rightarrow>
     (SiacoinOutputID \<Rightarrow> SiacoinOutput \<Rightarrow> error option) \<Rightarrow> (error option) result" where
  "forEachDSCO env tx bh fn =
     (let bucketID = dscoBucketID_Marshal bh in
      Bucket_ForEach tx bucketID (\<lambda>kb vb.
        let (err, key) = Unmarshal_hash32 (Some kb) in
        case err of
          Some e \<Rightarrow> Some e
        | None \<Rightarrow>
            (case Unmarshal_SiacoinOutput env vb of
               Inl e \<Rightarrow> Some e
             | Inr val \<Rightarrow> fn key val)))"

section \<open>Initialization\<close>

definition dbInitialized :: "Tx \<Rightarrow> bool" where
  "dbInitialized tx = (tx SiafundPool \<noteq> None)"

definition buckets :: "byte list list" where
  "buckets = [BlockPath, BlockMap, SiacoinOutputs, FileContracts, FileContractExpirations,
              SiafundOutputs, SiafundPool, BlockHeight]"

text \<open>The loop creating the buckets, which returns at the first error.\<close>

fun createBuckets :: "Tx \<Rightarrow> byte list list \<Rightarrow> error option \<times> Tx" where
  "createBuckets tx [] = (None, tx)"
| "createBuckets tx (bucket # rest) =
     (case CreateBucketIfNotExists tx bucket of
        (Some err, tx') \<Rightarrow> (Some err, tx')
      | (None, tx') \<Rightarrow> createBuckets tx' rest)"

text \<open>The loop over the siafund output diffs of the genesis block.\<close>

fun commitSiafundOutputDiffs ::
  "('blk, 'fc, 'sfo) env \<Rightarrow> Tx \<Rightarrow> 'sfo SiafundOutputDiff list \<Rightarrow> Tx result" where
  "commitSiafundOutputDiffs env tx [] = Inr tx"
| "commitSiafundOutputDiffs env tx (sfod # rest) =
     bindR (commitSiafundOutputDiff env tx sfod) (\<lambda>tx. commitSiafundOutputDiffs env tx rest)"

text \<open>
  \<^verbatim>\<open>initDB\<close> works on the genesis block \<^verbatim>\<open>cs.blockRoot\<close>, the one field of the
  consensus set it uses, and may set its checksum; it returns its error, the block and
  the transaction.
\<close>

definition initDB ::
  "('blk, 'fc, 'sfo) env \<Rightarrow> ('blk, 'sfo) processedBlock \<Rightarrow> Tx \<Rightarrow>
     (error option \<times> ('blk, 'sfo) processedBlock \<times> Tx) result" where
  "initDB env blockRoot tx =
     (case createBuckets tx buckets of
        (Some err, tx) \<Rightarrow> Inr (Some err, blockRoot, tx)
      | (None, tx) \<Rightarrow>
          let underflow = (0 :: BlockHeight) in
          bindR (Bucket_Put tx BlockHeight BlockHeight (Marshal_BlockHeight (underflow - 1))) (\<lambda>(err, tx).
            case err of
              Some e \<Rightarrow> Inr (Some e, blockRoot, tx)
            | None \<Rightarrow>
                bindR (addBlockMap env tx blockRoot) (\<lambda>tx.
                bindR (pushPath env tx (Block_ID env (Block blockRoot))) (\<lambda>tx.
                bindR (setSiafundPool env tx 0) (\<lambda>tx.
                bindR (commitSiafundOutputDiffs env tx (SiafundOutputDiffs blockRoot)) (\<lambda>tx.
                bindR (addSiacoinOutput env tx (Block_MinerPayoutID env (Block blockRoot) 0)
                         \<lparr>Value = CalculateCoinbase env 0, UnlockHash = zero_hash32\<rparr>) (\<lambda>tx.
                  let blockRoot =
                        (if DEBUG env
                         then blockRoot\<lparr>ConsensusSetHash := consensusChecksum env tx\<rparr>
                         else blockRoot) in
                  bindR (addBlockMap env tx blockRoot) (\<lambda>tx.
                    Inr (None, blockRoot, tx)))))))))"

section \<open>Agreement of the contract buckets\<close>

text \<open>
  The property of a transaction that the expiration index agrees with the bucket of file
  contracts: every stored contract has its marker in the expiration bucket named by
  bytes 48-56 of its stored encoding, and every marker in an expiration bucket belongs
  to a stored contract whose bytes 48-56 name that bucket.
\<close>

definition expirationIndexAgrees :: "Tx \<Rightarrow> bool" where
  "expirationIndexAgrees tx \<longleftrightarrow>
     (\<forall>x bs. (\<exists>fcs. tx FileContracts = Some fcs \<and> fcs (Rep_hash32 x) = Some bs) \<longrightarrow>
        (\<exists>w ex. sliceBytes (Some bs) 48 56 = Some w \<and> tx (prefix_fcex @ w) = Some ex \<and>
           ex (Rep_hash32 x) \<noteq> None)) \<and>
     (\<forall>w ex x. tx (prefix_fcex @ w) = Some ex \<and> ex (Rep_hash32 x) \<noteq> None \<longrightarrow>
        (\<exists>fcs bs. tx FileContracts = Some fcs \<and> fcs (Rep_hash32 x) = Some bs \<and>
           sliceBytes (Some bs) 48 56 = Some w))"

section \<open>Example values\<close>

text \<open>
  Concrete identifiers, encoders and stores on which the theorems below are instantiated.
  The example environment has the sanity checks switched on; a block is represented by
  its identifier, a file contract by its window end, and a siafund output by a siacoin
  output.
\<close>

definition example_hash :: "byte \<Rightarrow> hash32" where
  "example_hash x = Abs_hash32 (replicate 32 x)"

definition example_Marshal_SiacoinOutput :: "SiacoinOutput \<Rightarrow> byte list" where
  "example_Marshal_SiacoinOutput sco = EncUint64 (of_nat (Value sco)) @ Rep_hash32 (UnlockHash sco)"

definition example_Unmarshal_SiacoinOutput :: "byte list \<Rightarrow> error + SiacoinOutput" where
  "example_Unmarshal_SiacoinOutput bs =
     (if length bs < 40 then Inl ErrDecode
      else Inr \<lparr>Value = unat (DecUint64 bs), UnlockHash = Abs_hash32 (take 32 (drop 8 bs))\<rparr>)"

definition example_env :: "(hash32, BlockHeight, SiacoinOutput) env" where
  "example_env =
     \<lparr>DEBUG = True,
      Block_ID = (\<lambda>b. b),
      Block_MinerPayoutID = (\<lambda>b i. example_hash (of_nat i)),
      CalculateCoinbase = (\<lambda>h. 300000),
      FileContract_WindowEnd = (\<lambda>fc. fc),
      Marshal_processedBlock = (\<lambda>pb. Rep_hash32 (Block pb) @ Rep_hash32 (ConsensusSetHash pb)),
      Marshal_SiacoinOutput = example_Marshal_SiacoinOutput,
      Unmarshal_SiacoinOutput = example_Unmarshal_SiacoinOutput,
      Marshal_SiafundOutput = example_Marshal_SiacoinOutput,
      Marshal_FileContract = (\<lambda>fc. replicate 48 0 @ EncUint64 fc),
      Marshal_Currency = (\<lambda>c. EncUint64 (of_nat c)),
      Unmarshal_Currency =
        (\<lambda>bs. if length bs < 8 then Inl ErrDecode else Inr (unat (DecUint64 bs))),
      consensusChecksum = (\<lambda>tx. example_hash 7)\<rparr>"

text \<open>A chain of one block, at height 0.\<close>

definition example_path0 :: bucket where
  "example_path0 = [EncUint64 0 \<mapsto> Rep_hash32 (example_hash 0)]"

definition example_tx0 :: Tx where
  "example_tx0 = [BlockHeight \<mapsto> [BlockHeight \<mapsto> EncUint64 0], BlockPath \<mapsto> example_path0]"

text \<open>
  A chain at height \<open>2^63 - 1\<close>, the largest height that \<^verbatim>\<open>blockHeight\<close> reads back,
  with a path entry at every height up to it.
\<close>

definition example_full_path :: bucket where
  "example_full_path k =
     (if length k = 8 \<and> DecUint64 k \<le> 2 ^ 63 - 1 then Some (Rep_hash32 (example_hash 0))
      else None)"

definition example_tx_max :: Tx where
  "example_tx_max =
     [BlockHeight \<mapsto> [BlockHeight \<mapsto> EncUint64 (2 ^ 63 - 1)], BlockPath \<mapsto> example_full_path]"

text \<open>An output, a store holding it, and a store holding it as a delayed output of height 5.\<close>

definition example_output :: SiacoinOutput where
  "example_output = \<lparr>Value = 5, UnlockHash = example_hash 9\<rparr>"

definition example_outputs :: Tx where
  "example_outputs =
     [SiacoinOutputs \<mapsto> [Rep_hash32 (example_hash 1) \<mapsto> example_Marshal_SiacoinOutput example_output]]"

definition example_dsco_bucket :: bucket where
  "example_dsco_bucket =
     [Rep_hash32 (example_hash 1) \<mapsto> example_Marshal_SiacoinOutput example_output]"

definition example_dsco :: Tx where
  "example_dsco = [SiacoinOutputs \<mapsto> Map.empty, dscoBucketID_Marshal 5 \<mapsto> example_dsco_bucket]"

text \<open>A genesis block without siafund outputs, and a block map that holds it.\<close>

definition example_block :: "(hash32, SiacoinOutput) processedBlock" where
  "example_block =
     \<lparr>Block = example_hash 1, SiafundOutputDiffs = [], ConsensusSetHash = zero_hash32\<rparr>"

definition example_blocks :: Tx where
  "example_blocks =
     [BlockMap \<mapsto> [Rep_hash32 (example_hash 1) \<mapsto> Marshal_processedBlock example_env example_block]]"

text \<open>A genesis block with one siafund output.\<close>

definition example_genesis :: "(hash32, SiacoinOutput) processedBlock" where
  "example_genesis =
     \<lparr>Block = example_hash 1,
      SiafundOutputDiffs = [\<lparr>ID = example_hash 3, SiafundOutput = example_output\<rparr>],
      ConsensusSetHash = zero_hash32\<rparr>"

text \<open>
  A store with no contract, and one with the contract \<open>example_hash 1\<close> whose window
  ends at height 100.
\<close>

definition example_no_contracts :: Tx where
  "example_no_contracts = [FileContracts \<mapsto> Map.empty]"

definition example_contracts :: Tx where
  "example_contracts =
     [FileContracts \<mapsto> [Rep_hash32 (example_hash 1) \<mapsto> Marshal_FileContract example_env 100],
      prefix_fcex @ Marshal_BlockHeight 100 \<mapsto> [Rep_hash32 (example_hash 1) \<mapsto> []]]"

text \<open>The same contract with an empty expiration bucket: its marker is missing.\<close>

definition example_unmarked :: Tx where
  "example_unmarked =
     [FileContracts \<mapsto> [Rep_hash32 (example_hash 1) \<mapsto> Marshal_FileContract example_env 100],
      prefix_fcex @ Marshal_BlockHeight 100 \<mapsto> Map.empty]"

text \<open>
  The example environment as a release build, without the sanity checks; a store
  with the three ledgers empty and the delayed outputs of height 5; and the store
  that has only the bucket of siacoin outputs.
\<close>

definition example_release :: "(hash32, BlockHeight, SiacoinOutput) env" where
  "example_release = example_env\<lparr>DEBUG := False\<rparr>"

definition example_ledgers :: Tx where
  "example_ledgers =
     [SiacoinOutputs \<mapsto> Map.empty, SiafundOutputs \<mapsto> Map.empty, FileContracts \<mapsto> Map.empty,
      dscoBucketID_Marshal 5 \<mapsto> example_dsco_bucket]"

definition example_no_dsco :: Tx where
  "example_no_dsco = [SiacoinOutputs \<mapsto> Map.empty]"

text \<open>A visiting function that reports the example output by an error.\<close>

definition example_visit :: "SiacoinOutputID \<Rightarrow> SiacoinOutput \<Rightarrow> error option" where
  "example_visit k v = (if k = example_hash 1 \<and> v = example_output then Some errRepeatInsert else None)"

text \<open>
  The store \<open>example_contracts\<close> after the contract \<open>example_hash 1\<close> has been added
  again with a window ending at height 200, by a build without the sanity checks.
\<close>

definition example_stale :: Tx where
  "example_stale =
     [FileContracts \<mapsto> [Rep_hash32 (example_hash 1) \<mapsto> Marshal_FileContract example_env 200],
      prefix_fcex @ Marshal_BlockHeight 100 \<mapsto> [Rep_hash32 (example_hash 1) \<mapsto> []],
      prefix_fcex @ Marshal_BlockHeight 200 \<mapsto> [Rep_hash32 (example_hash 1) \<mapsto> []]]"

section \<open>Basic facts\<close>

lemma bindR_simps [simp]: "bindR (Inl p) f = Inl p" "bindR (Inr x) f = f x"
  by (simp_all add: bindR_def)

lemma panicIfDebug_None [simp]: "panicIfDebug d None tx = Inr ()"
  by (simp add: panicIfDebug_def)

lemma length_Rep_hash32 [simp]: "length (Rep_hash32 h) = 32"
  using Rep_hash32 [of h] by simp

lemma Rep_hash32_not_Nil [simp]: "Rep_hash32 h \<noteq> []"
  using length_Rep_hash32 [of h] by (cases "Rep_hash32 h") simp_all

lemma Rep_hash32_eq_iff [simp]: "Rep_hash32 a = Rep_hash32 b \<longleftrightarrow> a = b"
  by (rule Rep_hash32_inject)

lemma EncUint64_unfold:
  "EncUint64 i = [ucast i, ucast (drop_bit 8 i), ucast (drop_bit 16 i), ucast (drop_bit 24 i),
     ucast (drop_bit 32 i), ucast (drop_bit 40 i), ucast (drop_bit 48 i), ucast (drop_bit 56 i)]"
  by (simp add: EncUint64_def upt_rec)

lemma Marshal_BlockHeight_EncUint64: "Marshal_BlockHeight h = EncUint64 h"
  unfolding Marshal_BlockHeight_def EncUint64_unfold
  by (simp add: numeral_eq_Suc)

lemma length_EncUint64 [simp]: "length (EncUint64 i) = 8"
  by (simp add: EncUint64_def)

lemma DecUint64_EncUint64 [simp]: "DecUint64 (EncUint64 i @ r) = i"
proof -
  have "bit (DecUint64 (EncUint64 i @ r)) n = bit i n" for n
  proof (cases "n < 64")
    case False
    then show ?thesis by (auto dest: bit_imp_le_length)
  next
    case True
    then consider "n < 8" | "8 \<le> n \<and> n < 16" | "16 \<le> n \<and> n < 24" | "24 \<le> n \<and> n < 32"
      | "32 \<le> n \<and> n < 40" | "40 \<le> n \<and> n < 48" | "48 \<le> n \<and> n < 56" | "56 \<le> n \<and> n < 64"
      by linarith
    then show ?thesis
      by cases (auto simp add: EncUint64_unfold bit_simps)
  qed
  then show ?thesis by (rule bit_eqI)
qed

lemma DecUint64_EncUint64' [simp]: "DecUint64 (EncUint64 i) = i"
  using DecUint64_EncUint64 [of i "[]"] by simp

lemma EncUint64_eq_iff [simp]: "EncUint64 a = EncUint64 b \<longleftrightarrow> a = b"
  by (metis DecUint64_EncUint64')

lemma Marshal_BlockHeight_eq_iff [simp]: "Marshal_BlockHeight a = Marshal_BlockHeight b \<longleftrightarrow> a = b"
  by (simp add: Marshal_BlockHeight_EncUint64)

lemmas name_defs = BlockHeight_def BlockPath_def BlockMap_def SiacoinOutputs_def FileContracts_def
  FileContractExpirations_def SiafundOutputs_def SiafundPool_def bytes_of_def



lemma distinct_buckets: "distinct buckets"
  unfolding buckets_def name_defs by simp

lemma bucket_names_ne [simp]:
  "BlockPath \<noteq> BlockMap" "BlockPath \<noteq> SiacoinOutputs"
  "BlockPath \<noteq> FileContracts" "BlockPath \<noteq> FileContractExpirations"
  "BlockPath \<noteq> SiafundOutputs" "BlockPath \<noteq> SiafundPool"
  "BlockPath \<noteq> BlockHeight" "BlockMap \<noteq> BlockPath"
  "BlockMap \<noteq> SiacoinOutputs" "BlockMap \<noteq> FileContracts"
  "BlockMap \<noteq> FileContractExpirations" "BlockMap \<noteq> SiafundOutputs"
  "BlockMap \<noteq> SiafundPool" "BlockMap \<noteq> BlockHeight"
  "SiacoinOutputs \<noteq> BlockPath" "SiacoinOutputs \<noteq> BlockMap"
  "SiacoinOutputs \<noteq> FileContracts" "SiacoinOutputs \<noteq> FileContractExpirations"
  "SiacoinOutputs \<noteq> SiafundOutputs" "SiacoinOutputs \<noteq> SiafundPool"
  "SiacoinOutputs \<noteq> BlockHeight" "FileContracts \<noteq> BlockPath"
  "FileContracts \<noteq> BlockMap" "FileContracts \<noteq> SiacoinOutputs"
  "FileContracts \<noteq> FileContractExpirations" "FileContracts \<noteq> SiafundOutputs"
  "FileContracts \<noteq> SiafundPool" "FileContracts \<noteq> BlockHeight"
  "FileContractExpirations \<noteq> BlockPath" "FileContractExpirations \<noteq> BlockMap"
  "FileContractExpirations \<noteq> SiacoinOutputs"
  "FileContractExpirations \<noteq> FileContracts"
  "FileContractExpirations \<noteq> SiafundOutputs"
  "FileContractExpirations \<noteq> SiafundPool" "FileContractExpirations \<noteq> BlockHeight"
  "SiafundOutputs \<noteq> BlockPath" "SiafundOutputs \<noteq> BlockMap"
  "SiafundOutputs \<noteq> SiacoinOutputs" "SiafundOutputs \<noteq> FileContracts"
  "SiafundOutputs \<noteq> FileContractExpirations" "SiafundOutputs \<noteq> SiafundPool"
  "SiafundOutputs \<noteq> BlockHeight" "SiafundPool \<noteq> BlockPath"
  "SiafundPool \<noteq> BlockMap" "SiafundPool \<noteq> SiacoinOutputs"
  "SiafundPool \<noteq> FileContracts" "SiafundPool \<noteq> FileContractExpirations"
  "SiafundPool \<noteq> SiafundOutputs" "SiafundPool \<noteq> BlockHeight"
  "BlockHeight \<noteq> BlockPath" "BlockHeight \<noteq> BlockMap"
  "BlockHeight \<noteq> SiacoinOutputs" "BlockHeight \<noteq> FileContracts"
  "BlockHeight \<noteq> FileContractExpirations" "BlockHeight \<noteq> SiafundOutputs"
  "BlockHeight \<noteq> SiafundPool"
  using distinct_buckets by (auto simp add: buckets_def)


lemma Bucket_Get_Some: "tx name = Some b \<Longrightarrow> Bucket_Get tx name key = Inr (b key)"
  by (simp add: Bucket_Get_def)

lemma Bucket_Put_Some:
  "tx name = Some b \<Longrightarrow> key \<noteq> [] \<Longrightarrow> length key \<le> MaxKeySize \<Longrightarrow> length val \<le> MaxValueSize \<Longrightarrow>
   Bucket_Put tx name key val = Inr (None, tx(name \<mapsto> b(key \<mapsto> val)))"
  by (simp add: Bucket_Put_def)

lemma Bucket_Put_hash:
  "tx name = Some b \<Longrightarrow> length val \<le> MaxValueSize \<Longrightarrow>
   Bucket_Put tx name (Rep_hash32 k) val = Inr (None, tx(name \<mapsto> b(Rep_hash32 k \<mapsto> val)))"
  by (simp add: Bucket_Put_Some MaxKeySize_def)

lemma Bucket_Delete_Some:
  "tx name = Some b \<Longrightarrow> Bucket_Delete tx name key = Inr (None, tx(name \<mapsto> b(key := None)))"
  by (simp add: Bucket_Delete_def)

lemma Bucket_Put_counter:
  "tx BlockHeight = Some b \<Longrightarrow>
   Bucket_Put tx BlockHeight BlockHeight (EncUint64 v) =
     Inr (None, tx(BlockHeight \<mapsto> b(BlockHeight \<mapsto> EncUint64 v)))"
  by (simp add: Bucket_Put_def MaxKeySize_def MaxValueSize_def) (simp add: name_defs)

lemma Bucket_Put_path:
  "tx name = Some b \<Longrightarrow>
   Bucket_Put tx name (EncUint64 k) (Rep_hash32 v) =
     Inr (None, tx(name \<mapsto> b(EncUint64 k \<mapsto> Rep_hash32 v)))"
  by (simp add: Bucket_Put_def MaxKeySize_def MaxValueSize_def) (simp add: EncUint64_unfold)

lemma pushPath_eq:
  assumes "tx BlockHeight = Some bh" "tx BlockPath = Some bp"
    and "Unmarshal_BlockHeight (bh BlockHeight) = (err, h)" "err = None \<or> \<not> DEBUG env"
  shows "pushPath env tx bid =
    Inr (tx(BlockHeight \<mapsto> bh(BlockHeight \<mapsto> EncUint64 (h + 1)),
            BlockPath \<mapsto> bp(EncUint64 (h + 1) \<mapsto> Rep_hash32 bid)))"
proof -
  have chk: "panicIfDebug (DEBUG env) err tx = Inr ()"
    using assms(4) by (cases err) (auto simp: panicIfDebug_def)
  show ?thesis
    using assms(1-3) chk
    by (simp add: pushPath_def Let_def Bucket_Get_Some Bucket_Put_counter Bucket_Put_path
        Marshal_BlockHeight_EncUint64)
qed



lemma sint_succ_nonneg:
  fixes h :: "64 word"
  assumes "0 \<le> sint h" "h \<noteq> 2 ^ 63 - 1"
  shows "sint (h + 1) = sint h + 1"
proof -
  have "sint h \<noteq> 2 ^ 63 - 1"
  proof
    assume "sint h = 2 ^ 63 - 1"
    then have "word_of_int (sint h) = (word_of_int (2 ^ 63 - 1) :: 64 word)" by simp
    then have "h = 2 ^ 63 - 1" by simp
    with assms(2) show False by simp
  qed
  moreover have "sint h < 2 ^ 63" using sint_lt [of h] by simp
  ultimately have "sint h + 1 < 2 ^ 63" by simp
  then have "signed_take_bit 63 (sint h + 1) = sint h + 1"
    using assms(1) by (intro signed_take_bit_int_eq_self) simp_all
  then show ?thesis by (simp add: sint_word_add)
qed

lemma le_not_succ:
  fixes h :: "64 word"
  assumes "0 \<le> sint h" "k \<le> h"
  shows "k \<noteq> h + 1"
proof
  assume "k = h + 1"
  with assms(2) have "h + 1 \<le> h" by simp
  then have "h = - 1" using inc_less_eq_self_imp_top order_antisym by fastforce
  with assms(1) show False by simp
qed

lemma blockHeight_eq:
  assumes "tx BlockHeight = Some bh" "bh BlockHeight = Some bs" "8 \<le> length bs"
  shows "blockHeight env tx =
    (if sint (DecUint64 bs) < 0 then Inl (PanicInt (sint (DecUint64 bs)), tx) else Inr (DecUint64 bs))"
  using assms by (simp add: blockHeight_def Bucket_Get_Some Unmarshal_int_def)

lemma blockHeight_InrD:
  assumes "blockHeight env tx = Inr h"
  shows "\<exists>bh err. tx BlockHeight = Some bh \<and> Unmarshal_BlockHeight (bh BlockHeight) = (err, h)
           \<and> (err = None \<or> \<not> DEBUG env) \<and> 0 \<le> sint h"
proof (cases "tx BlockHeight")
  case None
  with assms show ?thesis by (simp add: blockHeight_def Bucket_Get_def)
next
  case (Some bh)
  show ?thesis
  proof (cases "\<exists>bs. bh BlockHeight = Some bs \<and> 8 \<le> length bs")
    case True
    then obtain bs where bs: "bh BlockHeight = Some bs" "8 \<le> length bs" by blast
    from assms Some bs have "0 \<le> sint (DecUint64 bs)" "h = DecUint64 bs"
      by (auto simp: blockHeight_eq split: if_splits)
    with Some bs show ?thesis by (simp add: Unmarshal_BlockHeight_def)
  next
    case False
    then have u: "Unmarshal_int (bh BlockHeight) = (Some ErrDecode, 0)"
      "Unmarshal_BlockHeight (bh BlockHeight) = (Some ErrDecode, 0)"
      by (auto simp: Unmarshal_int_def Unmarshal_BlockHeight_def not_le split: option.splits)
    from assms Some u have "\<not> DEBUG env" "h = 0"
      by (auto simp: blockHeight_def Bucket_Get_Some panicIfDebug_def split: if_splits)
    with Some u show ?thesis by simp
  qed
qed

lemma popPath_eq:
  assumes "tx BlockHeight = Some bh" "tx BlockPath = Some bp" "bh BlockHeight = Some (EncUint64 h)"
  shows "popPath env tx =
    Inr (tx(BlockHeight \<mapsto> bh(BlockHeight \<mapsto> EncUint64 (h - 1)),
            BlockPath \<mapsto> bp(EncUint64 h := None)))"
proof -
  show ?thesis
    using assms
    by (simp add: popPath_def Let_def Bucket_Get_Some Bucket_Put_counter Bucket_Delete_Some
        Marshal_BlockHeight_EncUint64 Unmarshal_BlockHeight_def nilBytes_def)
qed

lemma getPath_eq:
  assumes "tx BlockPath = Some bp" "bp (Marshal_BlockHeight k) = Some (Rep_hash32 b)"
  shows "getPath env tx k = Inr b"
  using assms by (simp add: getPath_def Bucket_Get_Some Unmarshal_hash32_def Rep_hash32_inverse)



lemma CreateBucketIfNotExists_eq:
  "name \<noteq> [] \<Longrightarrow>
   CreateBucketIfNotExists tx name = (None, if tx name = None then tx(name \<mapsto> Map.empty) else tx)"
  by (simp add: CreateBucketIfNotExists_def CreateBucket_def)

lemma createBuckets_eq:
  "[] \<notin> set names \<Longrightarrow>
   createBuckets tx names =
     (None, \<lambda>n. if n \<in> set names \<and> tx n = None then Some Map.empty else tx n)"
proof (induction names arbitrary: tx)
  case Nil
  then show ?case by simp
next
  case (Cons name names)
  then have "name \<noteq> []" "[] \<notin> set names" by auto
  then show ?case
    by (auto simp add: CreateBucketIfNotExists_eq Cons.IH intro!: ext)
qed

lemma buckets_not_Nil: "[] \<notin> set buckets"
  by (simp add: buckets_def name_defs)

lemma createBuckets_buckets:
  "createBuckets tx buckets =
     (None, \<lambda>n. if n \<in> set buckets \<and> tx n = None then Some Map.empty else tx n)"
  by (rule createBuckets_eq [OF buckets_not_Nil])

lemma dsco_ne_SiacoinOutputs [simp]:
  "dscoBucketID_Marshal h \<noteq> SiacoinOutputs" "SiacoinOutputs \<noteq> dscoBucketID_Marshal h"
  by (simp_all add: dscoBucketID_Marshal_def prefix_dsco_def name_defs)

lemma dscoBucketID_Marshal_eq_iff [simp]:
  "dscoBucketID_Marshal a = dscoBucketID_Marshal b \<longleftrightarrow> a = b"
  by (simp add: dscoBucketID_Marshal_def)

lemma addBlockMap_eq:
  assumes "tx BlockMap = Some b" and "length (Marshal_processedBlock env pb) \<le> MaxValueSize"
  shows "addBlockMap env tx pb =
    Inr (tx(BlockMap \<mapsto> b(Rep_hash32 (Block_ID env (Block pb)) \<mapsto> Marshal_processedBlock env pb)))"
  using assms by (simp add: addBlockMap_def Let_def Bucket_Put_hash)

lemma SiafundPool_key: "SiafundPool \<noteq> []" "length SiafundPool \<le> MaxKeySize"
  by (simp_all add: name_defs MaxKeySize_def)

lemma setSiafundPool_eq:
  assumes "tx SiafundPool = Some b" and "length (Marshal_Currency env c) \<le> MaxValueSize"
  shows "setSiafundPool env tx c = Inr (tx(SiafundPool \<mapsto> b(SiafundPool \<mapsto> Marshal_Currency env c)))"
  using assms SiafundPool_key
  by (simp add: setSiafundPool_def Bucket_Put_def not_less [symmetric])

lemma getSiafundPool_eq:
  assumes "tx SiafundPool = Some b" and "b SiafundPool = Some bs"
    and "Unmarshal_Currency env bs = Inr c"
  shows "getSiafundPool env tx = Inr c"
  using assms by (simp add: getSiafundPool_def Bucket_Get_Some nilBytes_def)

lemma Rep_zero_hash32: "Rep_hash32 zero_hash32 = replicate 32 0"
  by (simp add: zero_hash32_def Abs_hash32_inverse)

subsection \<open>The example values\<close>

lemma Rep_example_hash: "Rep_hash32 (example_hash x) = replicate 32 x"
  by (simp add: example_hash_def Abs_hash32_inverse)

lemma example_hash_eq_iff [simp]: "example_hash a = example_hash b \<longleftrightarrow> a = b"
proof
  assume "example_hash a = example_hash b"
  then have "Rep_hash32 (example_hash a) = Rep_hash32 (example_hash b)" by simp
  then show "a = b" by (simp add: Rep_example_hash)
qed simp

lemma example_SiacoinOutput_roundtrip:
  assumes "Value sco < 2 ^ 64"
  shows "example_Unmarshal_SiacoinOutput (example_Marshal_SiacoinOutput sco) = Inr sco"
proof -
  have "unat (word_of_nat (Value sco) :: 64 word) = Value sco"
    using assms by (intro of_nat_inverse) simp_all
  then show ?thesis
    by (simp add: example_Unmarshal_SiacoinOutput_def example_Marshal_SiacoinOutput_def
        Rep_hash32_inverse)
qed

lemma length_example_Marshal_SiacoinOutput:
  "length (example_Marshal_SiacoinOutput sco) \<le> MaxValueSize"
  by (simp add: example_Marshal_SiacoinOutput_def MaxValueSize_def)

lemma example_env_simps [simp]:
  "DEBUG example_env"
  "Block_ID example_env b = b"
  "Marshal_SiacoinOutput example_env = example_Marshal_SiacoinOutput"
  "Unmarshal_SiacoinOutput example_env = example_Unmarshal_SiacoinOutput"
  "Marshal_processedBlock example_env pb = Rep_hash32 (Block pb) @ Rep_hash32 (ConsensusSetHash pb)"
  by (simp_all add: example_env_def)

lemma example_env_more [simp]:
  "Marshal_Currency example_env c = EncUint64 (of_nat c)"
  "Unmarshal_Currency example_env bs = (if length bs < 8 then Inl ErrDecode else Inr (unat (DecUint64 bs)))"
  "Marshal_SiafundOutput example_env = example_Marshal_SiacoinOutput"
  "CalculateCoinbase example_env h = 300000"
  "Block_MinerPayoutID example_env b i = example_hash (of_nat i)"
  by (simp_all add: example_env_def)

lemma example_env_contracts [simp]:
  "Marshal_FileContract example_env fc = replicate 48 0 @ EncUint64 fc"
  "FileContract_WindowEnd example_env fc = fc"
  by (simp_all add: example_env_def)

lemma example_contract_slice:
  "sliceBytes (Some (Marshal_FileContract example_env fc)) 48 56 =
     Some (Marshal_BlockHeight (FileContract_WindowEnd example_env fc))"
  by (simp add: sliceBytes_def nilBytes_def Marshal_BlockHeight_EncUint64)

lemma example_release_simps [simp]:
  "\<not> DEBUG example_release"
  "Marshal_FileContract example_release fc = replicate 48 0 @ EncUint64 fc"
  "FileContract_WindowEnd example_release fc = fc"
  "Marshal_SiacoinOutput example_release = example_Marshal_SiacoinOutput"
  by (simp_all add: example_release_def example_env_def)

lemma example_release_block [simp]: "Block_ID example_release b = b"
  by (simp add: example_release_def example_env_def)

section \<open>The height counter at genesis\<close>

text \<open>
  What a statement of \<^verbatim>\<open>initDB\<close> after the first push can change: each of them
  either panics, which takes the sanity checks or a missing bucket, or returns, and
  either way the transaction differs from the one it started with in one bucket at
  most, which is still there if it was before.
\<close>

lemma addBlockMap_frame:
  "(\<exists>p. addBlockMap env tx pb = Inl (p, tx) \<and> (DEBUG env \<or> tx BlockMap = None)) \<or>
   (\<exists>t. addBlockMap env tx pb = Inr t \<and> (\<forall>n. n \<noteq> BlockMap \<longrightarrow> t n = tx n) \<and>
        (tx BlockMap \<noteq> None \<longrightarrow> t BlockMap \<noteq> None))"
  by (cases "tx BlockMap")
     (auto simp add: addBlockMap_def Let_def Bucket_Put_def panicIfDebug_def)

lemma setSiafundPool_frame:
  "(\<exists>p. setSiafundPool env tx c = Inl (p, tx) \<and> (DEBUG env \<or> tx SiafundPool = None)) \<or>
   (\<exists>t. setSiafundPool env tx c = Inr t \<and> (\<forall>n. n \<noteq> SiafundPool \<longrightarrow> t n = tx n) \<and>
        (tx SiafundPool \<noteq> None \<longrightarrow> t SiafundPool \<noteq> None))"
  by (cases "tx SiafundPool")
     (auto simp add: setSiafundPool_def Let_def Bucket_Put_def panicIfDebug_def)

lemma addSiacoinOutput_frame:
  "(\<exists>p. addSiacoinOutput env tx x sco = Inl (p, tx) \<and> (DEBUG env \<or> tx SiacoinOutputs = None)) \<or>
   (\<exists>t. addSiacoinOutput env tx x sco = Inr t \<and> (\<forall>n. n \<noteq> SiacoinOutputs \<longrightarrow> t n = tx n) \<and>
        (tx SiacoinOutputs \<noteq> None \<longrightarrow> t SiacoinOutputs \<noteq> None))"
  by (cases "tx SiacoinOutputs")
     (auto simp add: addSiacoinOutput_def Let_def Bucket_Get_def Bucket_Put_def panicIfDebug_def)

lemma addSiafundOutput_frame:
  "(\<exists>p. addSiafundOutput env tx x sfo = Inl (p, tx) \<and> (DEBUG env \<or> tx SiafundOutputs = None)) \<or>
   (\<exists>t. addSiafundOutput env tx x sfo = Inr t \<and> (\<forall>n. n \<noteq> SiafundOutputs \<longrightarrow> t n = tx n) \<and>
        (tx SiafundOutputs \<noteq> None \<longrightarrow> t SiafundOutputs \<noteq> None))"
  by (cases "tx SiafundOutputs")
     (auto simp add: addSiafundOutput_def Let_def Bucket_Get_def Bucket_Put_def panicIfDebug_def)

lemma commitSiafundOutputDiffs_frame:
  "(\<exists>p t. commitSiafundOutputDiffs env tx ds = Inl (p, t) \<and>
          (DEBUG env \<or> tx SiafundOutputs = None) \<and>
          (\<forall>n. n \<noteq> SiafundOutputs \<longrightarrow> t n = tx n)) \<or>
   (\<exists>t. commitSiafundOutputDiffs env tx ds = Inr t \<and>
        (\<forall>n. n \<noteq> SiafundOutputs \<longrightarrow> t n = tx n) \<and>
        (tx SiafundOutputs \<noteq> None \<longrightarrow> t SiafundOutputs \<noteq> None))"
proof (induction ds arbitrary: tx)
  case Nil
  show ?case by simp
next
  case (Cons d ds)
  from addSiafundOutput_frame [of env tx "ID d" "SiafundOutput d"]
  consider p where "addSiafundOutput env tx (ID d) (SiafundOutput d) = Inl (p, tx)"
      "DEBUG env \<or> tx SiafundOutputs = None"
    | t where "addSiafundOutput env tx (ID d) (SiafundOutput d) = Inr t"
      "\<forall>n. n \<noteq> SiafundOutputs \<longrightarrow> t n = tx n"
      "tx SiafundOutputs \<noteq> None \<longrightarrow> t SiafundOutputs \<noteq> None"
    by blast
  then show ?case
  proof cases
    case 1
    then show ?thesis by (simp add: commitSiafundOutputDiff_def)
  next
    case 2
    have step: "commitSiafundOutputDiffs env tx (d # ds) = commitSiafundOutputDiffs env t ds"
      using 2(1) by (simp add: commitSiafundOutputDiff_def)
    from Cons.IH [of t] 2(2,3) show ?thesis
      unfolding step by (elim disjE exE conjE) auto
  qed
qed

lemma bindR_frame:
  assumes F: "(\<exists>p t'. m = Inl (p, t') \<and> (d \<or> t B = None) \<and> (\<forall>n. n \<noteq> B \<longrightarrow> t' n = t n)) \<or>
              (\<exists>t'. m = Inr t' \<and> (\<forall>n. n \<noteq> B \<longrightarrow> t' n = t n) \<and> (t B \<noteq> None \<longrightarrow> t' B \<noteq> None))"
    and B: "B \<in> set buckets" "B \<noteq> BlockHeight" "B \<noteq> BlockPath"
    and K: "t BlockHeight = h" "t BlockPath = q" "\<forall>n \<in> set buckets. t n \<noteq> None"
    and cont: "\<And>t'. t' BlockHeight = h \<Longrightarrow> t' BlockPath = q \<Longrightarrow>
                 \<forall>n \<in> set buckets. t' n \<noteq> None \<Longrightarrow> Q (f t')"
    and stop: "\<And>p t'. d \<Longrightarrow> t' BlockHeight = h \<Longrightarrow> t' BlockPath = q \<Longrightarrow> Q (Inl (p, t'))"
  shows "Q (bindR m f)"
proof -
  from K(3) B(1) have has: "t B \<noteq> None" by blast
  with F consider (panic) p t' where "m = Inl (p, t')" "d" "\<forall>n. n \<noteq> B \<longrightarrow> t' n = t n"
    | (ret) t' where "m = Inr t'" "\<forall>n. n \<noteq> B \<longrightarrow> t' n = t n" "t' B \<noteq> None"
    by blast
  then show ?thesis
  proof cases
    case panic
    from panic(3) B(2,3) K(1,2) have "t' BlockHeight = h" "t' BlockPath = q" by simp_all
    with panic(1,2) show ?thesis by (simp add: stop)
  next
    case ret
    from ret(2) B(2,3) K(1,2) have k: "t' BlockHeight = h" "t' BlockPath = q" by simp_all
    have "\<forall>n \<in> set buckets. t' n \<noteq> None"
    proof
      fix n assume "n \<in> set buckets"
      with K(3) ret(2,3) show "t' n \<noteq> None" by (cases "n = B") simp_all
    qed
    with k ret(1) show ?thesis by (simp add: cont)
  qed
qed

lemma buckets_mem:
  "BlockMap \<in> set buckets" "SiafundPool \<in> set buckets" "SiafundOutputs \<in> set buckets"
  "SiacoinOutputs \<in> set buckets" "BlockHeight \<in> set buckets" "BlockPath \<in> set buckets"
  by (simp_all add: buckets_def)

text \<open>
  Claim C4. From any store, \<^verbatim>\<open>initDB\<close> creates its buckets and then stores, as
  the height counter, the encoding of \<^verbatim>\<open>types.BlockHeight(0) - 1\<close>, which is
  \<open>2^64 - 1\<close>. In that state \<^verbatim>\<open>blockHeight\<close> reads the counter as the integer
  \<open>-1\<close> and panics with it. When putting the genesis block into the block map
  panics, \<^verbatim>\<open>initDB\<close> panics there, with the counter at that value. Otherwise
  \<^verbatim>\<open>pushPath\<close> of the identifier of the genesis block returns, and from then on
  \<^verbatim>\<open>blockHeight\<close> returns exactly 0 and the identifier is the path entry of height 0:
  in the transaction \<^verbatim>\<open>pushPath\<close> leaves, in the transaction \<^verbatim>\<open>initDB\<close> returns, which
  it does without an error, and in the transaction at the panic of a later statement
  of \<^verbatim>\<open>initDB\<close>; the buckets of the height and of the path are, in all three, the
  ones that push left. With the sanity checks off \<^verbatim>\<open>initDB\<close> always returns. In every
  transaction whose counter decodes to a negative integer, \<^verbatim>\<open>blockHeight\<close> panics
  with that integer.
\<close>

theorem genesis_height:
  fixes env :: "('blk, 'fc, 'sfo) env" and blockRoot :: "('blk, 'sfo) processedBlock"
  shows "unat ((0 :: BlockHeight) - 1) = 2 ^ 64 - 1 \<and>
   (\<exists>tx1 tx2.
      createBuckets tx buckets = (None, tx1) \<and>
      Bucket_Put tx1 BlockHeight BlockHeight (Marshal_BlockHeight (0 - 1)) = Inr (None, tx2) \<and>
      Bucket_Get tx2 BlockHeight BlockHeight = Inr (Some (EncUint64 (2 ^ 64 - 1))) \<and>
      blockHeight env tx2 = Inl (PanicInt (- 1), tx2) \<and>
      (case addBlockMap env tx2 blockRoot of
         Inl (p, txp) \<Rightarrow> txp = tx2 \<and> initDB env blockRoot tx = Inl (p, tx2)
       | Inr tx3 \<Rightarrow>
           (\<exists>tx4. pushPath env tx3 (Block_ID env (Block blockRoot)) = Inr tx4 \<and>
                  blockHeight env tx4 = Inr 0 \<and>
                  getPath env tx4 0 = Inr (Block_ID env (Block blockRoot)) \<and>
                  (case initDB env blockRoot tx of
                     Inl (p, txp) \<Rightarrow>
                       txp BlockHeight = tx4 BlockHeight \<and> txp BlockPath = tx4 BlockPath \<and>
                       blockHeight env txp = Inr 0 \<and>
                       getPath env txp 0 = Inr (Block_ID env (Block blockRoot))
                   | Inr (e, blockRoot', tx') \<Rightarrow>
                       e = None \<and>
                       tx' BlockHeight = tx4 BlockHeight \<and> tx' BlockPath = tx4 BlockPath \<and>
                       blockHeight env tx' = Inr 0 \<and>
                       getPath env tx' 0 = Inr (Block_ID env (Block blockRoot)))))) \<and>
   (\<not> DEBUG env \<longrightarrow> (\<exists>blockRoot' tx'. initDB env blockRoot tx = Inr (None, blockRoot', tx'))) \<and>
   (\<forall>txn bh bs.
      txn BlockHeight = Some bh \<and> bh BlockHeight = Some bs \<and> 8 \<le> length bs \<and>
      sint (DecUint64 bs) < 0 \<longrightarrow>
      blockHeight env txn = Inl (PanicInt (sint (DecUint64 bs)), txn))"
proof -
  define bid where "bid = Block_ID env (Block blockRoot)"
  define pid where "pid = Block_MinerPayoutID env (Block blockRoot) 0"
  define payout where "payout = \<lparr>Value = CalculateCoinbase env 0, UnlockHash = zero_hash32\<rparr>"
  define tx1 :: Tx where
    "tx1 = (\<lambda>n. if n \<in> set buckets \<and> tx n = None then Some Map.empty else tx n)"
  have c: "createBuckets tx buckets = (None, tx1)"
    by (simp add: createBuckets_buckets tx1_def)
  have e1: "\<forall>n \<in> set buckets. tx1 n \<noteq> None"
    by (simp add: tx1_def)
  obtain bh bp where bh: "tx1 BlockHeight = Some bh" and bp: "tx1 BlockPath = Some bp"
    using e1 buckets_mem(5,6) by blast
  define bh2 where "bh2 = bh(BlockHeight \<mapsto> EncUint64 (- 1))"
  define tx2 where "tx2 = tx1(BlockHeight \<mapsto> bh2)"
  have p: "Bucket_Put tx1 BlockHeight BlockHeight (Marshal_BlockHeight (0 - 1)) = Inr (None, tx2)"
    using bh by (simp add: Marshal_BlockHeight_EncUint64 Bucket_Put_counter tx2_def bh2_def)
  have g: "Bucket_Get tx2 BlockHeight BlockHeight = Inr (Some (EncUint64 (2 ^ 64 - 1)))"
    by (simp add: tx2_def bh2_def Bucket_Get_def)
  have b2: "blockHeight env tx2 = Inl (PanicInt (- 1), tx2)"
    by (subst blockHeight_eq [where bs = "EncUint64 (- 1)" and bh = bh2])
       (simp_all add: tx2_def bh2_def)
  have e2: "\<forall>n \<in> set buckets. tx2 n \<noteq> None"
    using e1 by (simp add: tx2_def)
  define t8 where "t8 = (\<lambda>root t. bindR (addBlockMap env t root) (\<lambda>tx. Inr (None :: error option, root, tx)))"
  define t7 where "t7 = (\<lambda>t. bindR (addSiacoinOutput env t pid payout) (\<lambda>tx.
    t8 (if DEBUG env then blockRoot\<lparr>ConsensusSetHash := consensusChecksum env tx\<rparr> else blockRoot) tx))"
  define t6 where "t6 = (\<lambda>t. bindR (commitSiafundOutputDiffs env t (SiafundOutputDiffs blockRoot)) t7)"
  define t5 where "t5 = (\<lambda>t. bindR (setSiafundPool env t 0) t6)"
  have start: "initDB env blockRoot tx =
      bindR (addBlockMap env tx2 blockRoot) (\<lambda>t. bindR (pushPath env t bid) t5)"
    using c p
    by (simp add: initDB_def Let_def bid_def pid_def payout_def t5_def t6_def t7_def t8_def)
  define bh4 where "bh4 = bh2(BlockHeight \<mapsto> EncUint64 0)"
  define bp4 where "bp4 = bp(EncUint64 0 \<mapsto> Rep_hash32 bid)"
  have good: "blockHeight env t = Inr 0 \<and> getPath env t 0 = Inr bid"
    if "t BlockHeight = Some bh4" "t BlockPath = Some bp4" for t
  proof
    show "blockHeight env t = Inr 0"
      using that(1)
      by (subst blockHeight_eq [where bs = "EncUint64 0" and bh = bh4]) (simp_all add: bh4_def)
    show "getPath env t 0 = Inr bid"
      using that(2)
      by (intro getPath_eq [where bp = bp4]) (simp_all add: bp4_def Marshal_BlockHeight_EncUint64)
  qed
  define Q :: "(error option \<times> ('blk, 'sfo) processedBlock \<times> Tx) result \<Rightarrow> bool" where
    "Q r \<longleftrightarrow>
       (case r of
          Inl (p, txp) \<Rightarrow>
            txp BlockHeight = Some bh4 \<and> txp BlockPath = Some bp4 \<and>
            blockHeight env txp = Inr 0 \<and> getPath env txp 0 = Inr bid
        | Inr (e, blockRoot', tx') \<Rightarrow>
            e = None \<and> tx' BlockHeight = Some bh4 \<and> tx' BlockPath = Some bp4 \<and>
            blockHeight env tx' = Inr 0 \<and> getPath env tx' 0 = Inr bid) \<and>
       (\<not> DEBUG env \<longrightarrow> (\<exists>blockRoot' tx'. r = Inr (None, blockRoot', tx')))" for r
  have stop: "Q (Inl (p, t))"
    if "DEBUG env" "t BlockHeight = Some bh4" "t BlockPath = Some bp4" for p t
    using good [OF that(2,3)] that by (simp add: Q_def)
  have q8: "Q (t8 root t)"
    if k: "t BlockHeight = Some bh4" "t BlockPath = Some bp4" "\<forall>n \<in> set buckets. t n \<noteq> None"
    for root t
    unfolding t8_def
  proof (rule bindR_frame [where d = "DEBUG env" and B = BlockMap and t = t, OF _ _ _ _ k])
    show "(\<exists>p t'. addBlockMap env t root = Inl (p, t') \<and> (DEBUG env \<or> t BlockMap = None) \<and>
             (\<forall>n. n \<noteq> BlockMap \<longrightarrow> t' n = t n)) \<or>
          (\<exists>t'. addBlockMap env t root = Inr t' \<and> (\<forall>n. n \<noteq> BlockMap \<longrightarrow> t' n = t n) \<and>
             (t BlockMap \<noteq> None \<longrightarrow> t' BlockMap \<noteq> None))"
      using addBlockMap_frame [of env t root] by blast
    show "BlockMap \<in> set buckets" "BlockMap \<noteq> BlockHeight" "BlockMap \<noteq> BlockPath"
      by (simp_all add: buckets_mem)
    show "Q (Inr (None, root, t'))" if "t' BlockHeight = Some bh4" "t' BlockPath = Some bp4" for t'
      using good [OF that] that by (simp add: Q_def)
    show "Q (Inl (p, t'))" if "DEBUG env" "t' BlockHeight = Some bh4" "t' BlockPath = Some bp4" for p t'
      using that by (rule stop)
  qed
  have q7: "Q (t7 t)"
    if k: "t BlockHeight = Some bh4" "t BlockPath = Some bp4" "\<forall>n \<in> set buckets. t n \<noteq> None"
    for t
    unfolding t7_def
  proof (rule bindR_frame [where d = "DEBUG env" and B = SiacoinOutputs and t = t, OF _ _ _ _ k])
    show "(\<exists>p t'. addSiacoinOutput env t pid payout = Inl (p, t') \<and>
             (DEBUG env \<or> t SiacoinOutputs = None) \<and>
             (\<forall>n. n \<noteq> SiacoinOutputs \<longrightarrow> t' n = t n)) \<or>
          (\<exists>t'. addSiacoinOutput env t pid payout = Inr t' \<and>
             (\<forall>n. n \<noteq> SiacoinOutputs \<longrightarrow> t' n = t n) \<and>
             (t SiacoinOutputs \<noteq> None \<longrightarrow> t' SiacoinOutputs \<noteq> None))"
      using addSiacoinOutput_frame [of env t pid payout] by blast
    show "SiacoinOutputs \<in> set buckets" "SiacoinOutputs \<noteq> BlockHeight" "SiacoinOutputs \<noteq> BlockPath"
      by (simp_all add: buckets_mem)
    show "Q (t8 (if DEBUG env then blockRoot\<lparr>ConsensusSetHash := consensusChecksum env t'\<rparr>
                 else blockRoot) t')"
      if "t' BlockHeight = Some bh4" "t' BlockPath = Some bp4" "\<forall>n \<in> set buckets. t' n \<noteq> None" for t'
      using that by (rule q8)
    show "Q (Inl (p, t'))" if "DEBUG env" "t' BlockHeight = Some bh4" "t' BlockPath = Some bp4" for p t'
      using that by (rule stop)
  qed
  have q6: "Q (t6 t)"
    if k: "t BlockHeight = Some bh4" "t BlockPath = Some bp4" "\<forall>n \<in> set buckets. t n \<noteq> None"
    for t
    unfolding t6_def
  proof (rule bindR_frame [where d = "DEBUG env" and B = SiafundOutputs and t = t, OF _ _ _ _ k])
    show "(\<exists>p t'. commitSiafundOutputDiffs env t (SiafundOutputDiffs blockRoot) = Inl (p, t') \<and>
             (DEBUG env \<or> t SiafundOutputs = None) \<and>
             (\<forall>n. n \<noteq> SiafundOutputs \<longrightarrow> t' n = t n)) \<or>
          (\<exists>t'. commitSiafundOutputDiffs env t (SiafundOutputDiffs blockRoot) = Inr t' \<and>
             (\<forall>n. n \<noteq> SiafundOutputs \<longrightarrow> t' n = t n) \<and>
             (t SiafundOutputs \<noteq> None \<longrightarrow> t' SiafundOutputs \<noteq> None))"
      by (rule commitSiafundOutputDiffs_frame)
    show "SiafundOutputs \<in> set buckets" "SiafundOutputs \<noteq> BlockHeight" "SiafundOutputs \<noteq> BlockPath"
      by (simp_all add: buckets_mem)
    show "Q (t7 t')"
      if "t' BlockHeight = Some bh4" "t' BlockPath = Some bp4" "\<forall>n \<in> set buckets. t' n \<noteq> None" for t'
      using that by (rule q7)
    show "Q (Inl (p, t'))" if "DEBUG env" "t' BlockHeight = Some bh4" "t' BlockPath = Some bp4" for p t'
      using that by (rule stop)
  qed
  have q5: "Q (t5 t)"
    if k: "t BlockHeight = Some bh4" "t BlockPath = Some bp4" "\<forall>n \<in> set buckets. t n \<noteq> None"
    for t
    unfolding t5_def
  proof (rule bindR_frame [where d = "DEBUG env" and B = SiafundPool and t = t, OF _ _ _ _ k])
    show "(\<exists>p t'. setSiafundPool env t 0 = Inl (p, t') \<and> (DEBUG env \<or> t SiafundPool = None) \<and>
             (\<forall>n. n \<noteq> SiafundPool \<longrightarrow> t' n = t n)) \<or>
          (\<exists>t'. setSiafundPool env t 0 = Inr t' \<and> (\<forall>n. n \<noteq> SiafundPool \<longrightarrow> t' n = t n) \<and>
             (t SiafundPool \<noteq> None \<longrightarrow> t' SiafundPool \<noteq> None))"
      using setSiafundPool_frame [of env t 0] by blast
    show "SiafundPool \<in> set buckets" "SiafundPool \<noteq> BlockHeight" "SiafundPool \<noteq> BlockPath"
      by (simp_all add: buckets_mem)
    show "Q (t6 t')"
      if "t' BlockHeight = Some bh4" "t' BlockPath = Some bp4" "\<forall>n \<in> set buckets. t' n \<noteq> None" for t'
      using that by (rule q6)
    show "Q (Inl (p, t'))" if "DEBUG env" "t' BlockHeight = Some bh4" "t' BlockPath = Some bp4" for p t'
      using that by (rule stop)
  qed
  have pushed: "\<exists>tx4. pushPath env tx3 bid = Inr tx4 \<and> blockHeight env tx4 = Inr 0 \<and>
      getPath env tx4 0 = Inr bid \<and> initDB env blockRoot tx = t5 tx4 \<and> Q (t5 tx4) \<and>
      tx4 BlockHeight = Some bh4 \<and> tx4 BlockPath = Some bp4"
    if a: "addBlockMap env tx2 blockRoot = Inr tx3" for tx3
  proof -
    from addBlockMap_frame [of env tx2 blockRoot] a
    have f3: "\<forall>n. n \<noteq> BlockMap \<longrightarrow> tx3 n = tx2 n" and m3: "tx3 BlockMap \<noteq> None"
      using e2 buckets_mem(1) by auto
    have bh3: "tx3 BlockHeight = Some bh2"
      using f3 by (simp add: tx2_def)
    have bp3: "tx3 BlockPath = Some bp"
      using f3 bp by (simp add: tx2_def)
    have e3: "\<forall>n \<in> set buckets. tx3 n \<noteq> None"
    proof
      fix n assume "n \<in> set buckets"
      with e2 f3 m3 show "tx3 n \<noteq> None" by (cases "n = BlockMap") simp_all
    qed
    define tx4 where "tx4 = tx3(BlockHeight \<mapsto> bh4, BlockPath \<mapsto> bp4)"
    have pp: "pushPath env tx3 bid = Inr tx4"
      using bh3 bp3
      by (subst pushPath_eq [where h = "- 1" and err = None and bp = bp and bh = bh2])
         (simp_all add: tx4_def bh4_def bp4_def bh2_def Unmarshal_BlockHeight_def)
    have k4: "tx4 BlockHeight = Some bh4" "tx4 BlockPath = Some bp4"
      by (simp_all add: tx4_def)
    have e4: "\<forall>n \<in> set buckets. tx4 n \<noteq> None"
      using e3 by (simp add: tx4_def)
    have init: "initDB env blockRoot tx = t5 tx4"
      using a pp by (simp add: start)
    from pp good [OF k4] init q5 [OF k4 e4] k4 show ?thesis
      by (intro exI [of _ tx4]) simp
  qed
  have first: "case addBlockMap env tx2 blockRoot of
         Inl (p, txp) \<Rightarrow> txp = tx2 \<and> initDB env blockRoot tx = Inl (p, tx2)
       | Inr tx3 \<Rightarrow>
           (\<exists>tx4. pushPath env tx3 bid = Inr tx4 \<and>
                  blockHeight env tx4 = Inr 0 \<and>
                  getPath env tx4 0 = Inr bid \<and>
                  (case initDB env blockRoot tx of
                     Inl (p, txp) \<Rightarrow>
                       txp BlockHeight = tx4 BlockHeight \<and> txp BlockPath = tx4 BlockPath \<and>
                       blockHeight env txp = Inr 0 \<and> getPath env txp 0 = Inr bid
                   | Inr (e, blockRoot', tx') \<Rightarrow>
                       e = None \<and>
                       tx' BlockHeight = tx4 BlockHeight \<and> tx' BlockPath = tx4 BlockPath \<and>
                       blockHeight env tx' = Inr 0 \<and> getPath env tx' 0 = Inr bid))"
  proof (cases "addBlockMap env tx2 blockRoot")
    case (Inl a)
    with addBlockMap_frame [of env tx2 blockRoot] obtain p where "a = (p, tx2)"
      by auto
    with Inl show ?thesis by (simp add: start)
  next
    case (Inr tx3)
    from pushed [OF Inr] obtain tx4 where "pushPath env tx3 bid = Inr tx4"
      "blockHeight env tx4 = Inr 0" "getPath env tx4 0 = Inr bid"
      "initDB env blockRoot tx = t5 tx4" "Q (t5 tx4)"
      "tx4 BlockHeight = Some bh4" "tx4 BlockPath = Some bp4"
      by blast
    then show ?thesis
      using Inr by (auto simp add: Q_def split: sum.splits)
  qed
  have release: "\<exists>blockRoot' tx'. initDB env blockRoot tx = Inr (None, blockRoot', tx')"
    if "\<not> DEBUG env"
  proof -
    from addBlockMap_frame [of env tx2 blockRoot] that e2 buckets_mem(1)
    obtain tx3 where "addBlockMap env tx2 blockRoot = Inr tx3"
      by blast
    from pushed [OF this] that show ?thesis
      by (auto simp add: Q_def)
  qed
  have u: "unat ((0 :: BlockHeight) - 1) = 2 ^ 64 - 1"
    by (simp add: unsigned_minus_1_eq_mask mask_eq_exp_minus_1)
  have neg: "\<forall>txn bh bs.
      txn BlockHeight = Some bh \<and> bh BlockHeight = Some bs \<and> 8 \<le> length bs \<and>
      sint (DecUint64 bs) < 0 \<longrightarrow>
      blockHeight env txn = Inl (PanicInt (sint (DecUint64 bs)), txn)"
    by (simp add: blockHeight_eq)
  from c p g b2 first
  have ex: "\<exists>tx1 tx2.
      createBuckets tx buckets = (None, tx1) \<and>
      Bucket_Put tx1 BlockHeight BlockHeight (Marshal_BlockHeight (0 - 1)) = Inr (None, tx2) \<and>
      Bucket_Get tx2 BlockHeight BlockHeight = Inr (Some (EncUint64 (2 ^ 64 - 1))) \<and>
      blockHeight env tx2 = Inl (PanicInt (- 1), tx2) \<and>
      (case addBlockMap env tx2 blockRoot of
         Inl (p, txp) \<Rightarrow> txp = tx2 \<and> initDB env blockRoot tx = Inl (p, tx2)
       | Inr tx3 \<Rightarrow>
           (\<exists>tx4. pushPath env tx3 (Block_ID env (Block blockRoot)) = Inr tx4 \<and>
                  blockHeight env tx4 = Inr 0 \<and>
                  getPath env tx4 0 = Inr (Block_ID env (Block blockRoot)) \<and>
                  (case initDB env blockRoot tx of
                     Inl (p, txp) \<Rightarrow>
                       txp BlockHeight = tx4 BlockHeight \<and> txp BlockPath = tx4 BlockPath \<and>
                       blockHeight env txp = Inr 0 \<and>
                       getPath env txp 0 = Inr (Block_ID env (Block blockRoot))
                   | Inr (e, blockRoot', tx') \<Rightarrow>
                       e = None \<and>
                       tx' BlockHeight = tx4 BlockHeight \<and> tx' BlockPath = tx4 BlockPath \<and>
                       blockHeight env tx' = Inr 0 \<and>
                       getPath env tx' 0 = Inr (Block_ID env (Block blockRoot)))))"
    unfolding bid_def by (intro exI [of _ tx1] exI [of _ tx2]) simp
  from u ex release neg show ?thesis by blast
qed

text \<open>
  The theorem at the empty store and the example genesis block, for a build without
  the sanity checks, and at a store whose counter holds \<open>2^64 - 1\<close>.
\<close>

theorem genesis_height_witness:
  "\<not> DEBUG example_release \<and>
   (\<exists>tx1 tx2 tx3 tx4 blockRoot' tx'.
      createBuckets Map.empty buckets = (None, tx1) \<and>
      Bucket_Put tx1 BlockHeight BlockHeight (Marshal_BlockHeight (0 - 1)) = Inr (None, tx2) \<and>
      blockHeight example_release tx2 = Inl (PanicInt (- 1), tx2) \<and>
      addBlockMap example_release tx2 example_genesis = Inr tx3 \<and>
      pushPath example_release tx3 (example_hash 1) = Inr tx4 \<and>
      blockHeight example_release tx4 = Inr 0 \<and>
      getPath example_release tx4 0 = Inr (example_hash 1) \<and>
      initDB example_release example_genesis Map.empty = Inr (None, blockRoot', tx') \<and>
      tx' BlockHeight = tx4 BlockHeight \<and> tx' BlockPath = tx4 BlockPath \<and>
      blockHeight example_release tx' = Inr 0 \<and>
      getPath example_release tx' 0 = Inr (example_hash 1)) \<and>
   [BlockHeight \<mapsto> [BlockHeight \<mapsto> EncUint64 (- 1)]] BlockHeight = Some [BlockHeight \<mapsto> EncUint64 (- 1)] \<and>
   [BlockHeight \<mapsto> EncUint64 (- 1)] BlockHeight = Some (EncUint64 (- 1)) \<and>
   8 \<le> length (EncUint64 (- 1)) \<and>
   sint (DecUint64 (EncUint64 (- 1))) < 0 \<and>
   blockHeight example_release [BlockHeight \<mapsto> [BlockHeight \<mapsto> EncUint64 (- 1)]] =
     Inl (PanicInt (sint (DecUint64 (EncUint64 (- 1)))), [BlockHeight \<mapsto> [BlockHeight \<mapsto> EncUint64 (- 1)]])"
proof -
  have d: "\<not> DEBUG example_release"
    by simp
  have b: "Block_ID example_release (Block example_genesis) = example_hash 1"
    by (simp add: example_genesis_def)
  have hyp: "[BlockHeight \<mapsto> [BlockHeight \<mapsto> EncUint64 (- 1)]] BlockHeight = Some [BlockHeight \<mapsto> EncUint64 (- 1)] \<and>
      [BlockHeight \<mapsto> EncUint64 (- 1)] BlockHeight = Some (EncUint64 (- 1)) \<and>
      8 \<le> length (EncUint64 (- 1)) \<and>
      sint (DecUint64 (EncUint64 (- 1))) < 0"
    by simp
  note inst = genesis_height [where tx = Map.empty and env = example_release
      and blockRoot = example_genesis, unfolded b]
  from inst have "\<not> DEBUG example_release \<longrightarrow>
      (\<exists>blockRoot' tx'. initDB example_release example_genesis Map.empty = Inr (None, blockRoot', tx'))"
    by (elim conjE)
  with d obtain root' tx' where
    r: "initDB example_release example_genesis Map.empty = Inr (None, root', tx')"
    by blast
  from inst obtain tx1 tx2 where c: "createBuckets Map.empty buckets = (None, tx1)"
    and p: "Bucket_Put tx1 BlockHeight BlockHeight (Marshal_BlockHeight (0 - 1)) = Inr (None, tx2)"
    and b2: "blockHeight example_release tx2 = Inl (PanicInt (- 1), tx2)"
    and cs: "case addBlockMap example_release tx2 example_genesis of
         Inl (p, txp) \<Rightarrow> txp = tx2 \<and> initDB example_release example_genesis Map.empty = Inl (p, tx2)
       | Inr tx3 \<Rightarrow>
           (\<exists>tx4. pushPath example_release tx3 (example_hash 1) = Inr tx4 \<and>
                  blockHeight example_release tx4 = Inr 0 \<and>
                  getPath example_release tx4 0 = Inr (example_hash 1) \<and>
                  (case initDB example_release example_genesis Map.empty of
                     Inl (p, txp) \<Rightarrow>
                       txp BlockHeight = tx4 BlockHeight \<and> txp BlockPath = tx4 BlockPath \<and>
                       blockHeight example_release txp = Inr 0 \<and>
                       getPath example_release txp 0 = Inr (example_hash 1)
                   | Inr (e, blockRoot', tx') \<Rightarrow>
                       e = None \<and>
                       tx' BlockHeight = tx4 BlockHeight \<and> tx' BlockPath = tx4 BlockPath \<and>
                       blockHeight example_release tx' = Inr 0 \<and>
                       getPath example_release tx' 0 = Inr (example_hash 1)))"
    by (elim conjE exE)
  have first: "\<exists>tx1 tx2 tx3 tx4 blockRoot' tx'.
      createBuckets Map.empty buckets = (None, tx1) \<and>
      Bucket_Put tx1 BlockHeight BlockHeight (Marshal_BlockHeight (0 - 1)) = Inr (None, tx2) \<and>
      blockHeight example_release tx2 = Inl (PanicInt (- 1), tx2) \<and>
      addBlockMap example_release tx2 example_genesis = Inr tx3 \<and>
      pushPath example_release tx3 (example_hash 1) = Inr tx4 \<and>
      blockHeight example_release tx4 = Inr 0 \<and>
      getPath example_release tx4 0 = Inr (example_hash 1) \<and>
      initDB example_release example_genesis Map.empty = Inr (None, blockRoot', tx') \<and>
      tx' BlockHeight = tx4 BlockHeight \<and> tx' BlockPath = tx4 BlockPath \<and>
      blockHeight example_release tx' = Inr 0 \<and>
      getPath example_release tx' 0 = Inr (example_hash 1)"
  proof (cases "addBlockMap example_release tx2 example_genesis")
    case (Inl a)
    with cs r show ?thesis by (cases a) simp
  next
    case (Inr tx3)
    with cs r obtain tx4 where "pushPath example_release tx3 (example_hash 1) = Inr tx4"
      "blockHeight example_release tx4 = Inr 0" "getPath example_release tx4 0 = Inr (example_hash 1)"
      "tx' BlockHeight = tx4 BlockHeight" "tx' BlockPath = tx4 BlockPath"
      "blockHeight example_release tx' = Inr 0" "getPath example_release tx' 0 = Inr (example_hash 1)"
      by auto
    with c p b2 Inr r show ?thesis
      by (intro exI [of _ tx1] exI [of _ tx2] exI [of _ tx3] exI [of _ tx4] exI [of _ root']
          exI [of _ tx']) simp
  qed
  from inst
  have "\<forall>txn bh bs.
      txn BlockHeight = Some bh \<and> bh BlockHeight = Some bs \<and> 8 \<le> length bs \<and>
      sint (DecUint64 bs) < 0 \<longrightarrow>
      blockHeight example_release txn = Inl (PanicInt (sint (DecUint64 bs)), txn)"
    by (elim conjE)
  with hyp have last: "blockHeight example_release [BlockHeight \<mapsto> [BlockHeight \<mapsto> EncUint64 (- 1)]] =
     Inl (PanicInt (sint (DecUint64 (EncUint64 (- 1)))), [BlockHeight \<mapsto> [BlockHeight \<mapsto> EncUint64 (- 1)]])"
    by blast
  from d first hyp last show ?thesis by blast
qed

section \<open>Pushing and popping the path\<close>

text \<open>
  Claim C5, amended. From a state in which \<^verbatim>\<open>blockHeight\<close> returns \<open>h\<close>, with the
  path bucket present and \<open>h\<close> other than \<open>2^63 - 1\<close>: \<^verbatim>\<open>pushPath\<close> of \<open>B\<close> returns,
  \<^verbatim>\<open>blockHeight\<close> then returns \<open>h + 1\<close>, \<^verbatim>\<open>getPath\<close> at \<open>h + 1\<close> returns \<open>B\<close>, and the
  entries at heights up to \<open>h\<close> are as before; a following \<^verbatim>\<open>popPath\<close> returns,
  \<^verbatim>\<open>blockHeight\<close> returns \<open>h\<close> again, the entry at \<open>h + 1\<close> is gone and the entries
  up to \<open>h\<close> are as before; when the path had no entry at \<open>h + 1\<close>, as in a
  contiguous path, the path bucket is exactly the one before the push.
\<close>

theorem pushPath_popPath:
  assumes "blockHeight env tx = Inr h" and "tx BlockPath = Some bp" and "h \<noteq> 2 ^ 63 - 1"
  shows "\<exists>tx'. pushPath env tx B = Inr tx' \<and>
           blockHeight env tx' = Inr (h + 1) \<and>
           getPath env tx' (h + 1) = Inr B \<and>
           (\<forall>k. k \<le> h \<longrightarrow>
              Bucket_Get tx' BlockPath (Marshal_BlockHeight k) =
              Bucket_Get tx BlockPath (Marshal_BlockHeight k)) \<and>
           (\<exists>tx''. popPath env tx' = Inr tx'' \<and>
              blockHeight env tx'' = Inr h \<and>
              Bucket_Get tx'' BlockPath (Marshal_BlockHeight (h + 1)) = Inr None \<and>
              (\<forall>k. k \<le> h \<longrightarrow>
                 Bucket_Get tx'' BlockPath (Marshal_BlockHeight k) =
                 Bucket_Get tx BlockPath (Marshal_BlockHeight k)) \<and>
              (bp (Marshal_BlockHeight (h + 1)) = None \<longrightarrow> tx'' BlockPath = tx BlockPath))"
proof -
  from assms(1) obtain bh err where bh: "tx BlockHeight = Some bh"
    and un: "Unmarshal_BlockHeight (bh BlockHeight) = (err, h)"
    and err: "err = None \<or> \<not> DEBUG env" and nonneg: "0 \<le> sint h"
    using blockHeight_InrD by blast
  define bh' where "bh' = bh(BlockHeight \<mapsto> EncUint64 (h + 1))"
  define bp' where "bp' = bp(EncUint64 (h + 1) \<mapsto> Rep_hash32 B)"
  define tx' where "tx' = tx(BlockHeight \<mapsto> bh', BlockPath \<mapsto> bp')"
  have push: "pushPath env tx B = Inr tx'"
    using pushPath_eq [where tx = tx and bh = bh and bp = bp and err = err and h = h and env = env
        and bid = B] bh assms(2) un err
    by (simp add: tx'_def bh'_def bp'_def)
  have tx'_bh: "tx' BlockHeight = Some bh'" and tx'_bp: "tx' BlockPath = Some bp'"
    by (simp_all add: tx'_def)
  have succ: "sint (h + 1) = sint h + 1"
    using nonneg assms(3) by (rule sint_succ_nonneg)
  have h1: "blockHeight env tx' = Inr (h + 1)"
    using nonneg succ tx'_bh
    by (subst blockHeight_eq [where tx = tx' and bh = bh' and bs = "EncUint64 (h + 1)"])
       (simp_all add: bh'_def)
  have g1: "getPath env tx' (h + 1) = Inr B"
    using tx'_bp
    by (intro getPath_eq [where bp = bp']) (simp_all add: bp'_def Marshal_BlockHeight_EncUint64)
  have below: "bp' (Marshal_BlockHeight k) = bp (Marshal_BlockHeight k)" if "k \<le> h" for k
    using le_not_succ [OF nonneg that] by (simp add: bp'_def Marshal_BlockHeight_EncUint64)
  have keep1: "Bucket_Get tx' BlockPath (Marshal_BlockHeight k) =
      Bucket_Get tx BlockPath (Marshal_BlockHeight k)" if "k \<le> h" for k
    using below [OF that] tx'_bp assms(2) by (simp add: Bucket_Get_def)
  define bh'' where "bh'' = bh'(BlockHeight \<mapsto> EncUint64 h)"
  define bp'' where "bp'' = bp'(EncUint64 (h + 1) := None)"
  define tx'' where "tx'' = tx'(BlockHeight \<mapsto> bh'', BlockPath \<mapsto> bp'')"
  have pop: "popPath env tx' = Inr tx''"
    using popPath_eq [where tx = tx' and bh = bh' and bp = bp' and h = "h + 1" and env = env]
      tx'_bh tx'_bp
    by (simp add: tx''_def bh''_def bp''_def bh'_def)
  have tx''_bh: "tx'' BlockHeight = Some bh''" and tx''_bp: "tx'' BlockPath = Some bp''"
    by (simp_all add: tx''_def)
  have h2: "blockHeight env tx'' = Inr h"
    using nonneg tx''_bh
    by (subst blockHeight_eq [where tx = tx'' and bh = bh'' and bs = "EncUint64 h"])
       (simp_all add: bh''_def)
  have gone: "Bucket_Get tx'' BlockPath (Marshal_BlockHeight (h + 1)) = Inr None"
    using tx''_bp by (simp add: Bucket_Get_def bp''_def Marshal_BlockHeight_EncUint64)
  have keep2: "Bucket_Get tx'' BlockPath (Marshal_BlockHeight k) =
      Bucket_Get tx BlockPath (Marshal_BlockHeight k)" if "k \<le> h" for k
    using below [OF that] le_not_succ [OF nonneg that] tx''_bp assms(2)
    by (simp add: Bucket_Get_def bp''_def Marshal_BlockHeight_EncUint64)
  have restore: "tx'' BlockPath = tx BlockPath" if "bp (Marshal_BlockHeight (h + 1)) = None"
  proof -
    have "bp'' = bp"
      using that by (auto simp add: bp''_def bp'_def Marshal_BlockHeight_EncUint64)
    with tx''_bp assms(2) show ?thesis by simp
  qed
  have after_pop: "\<exists>tx''. popPath env tx' = Inr tx'' \<and>
      blockHeight env tx'' = Inr h \<and>
      Bucket_Get tx'' BlockPath (Marshal_BlockHeight (h + 1)) = Inr None \<and>
      (\<forall>k. k \<le> h \<longrightarrow>
         Bucket_Get tx'' BlockPath (Marshal_BlockHeight k) =
         Bucket_Get tx BlockPath (Marshal_BlockHeight k)) \<and>
      (bp (Marshal_BlockHeight (h + 1)) = None \<longrightarrow> tx'' BlockPath = tx BlockPath)"
    using pop h2 gone keep2 restore by (intro exI [of _ tx'']) simp
  show ?thesis
    using push h1 g1 keep1 after_pop by (intro exI [of _ tx']) simp
qed

text \<open>The theorem at the one-block chain of height 0.\<close>

theorem pushPath_popPath_witness:
  "blockHeight example_env example_tx0 = Inr 0 \<and>
   example_tx0 BlockPath = Some example_path0 \<and>
   (0 :: BlockHeight) \<noteq> 2 ^ 63 - 1 \<and>
   (0 :: BlockHeight) \<le> 0 \<and>
   example_path0 (Marshal_BlockHeight (0 + 1)) = None \<and>
   (\<exists>tx'. pushPath example_env example_tx0 (example_hash 1) = Inr tx' \<and>
      blockHeight example_env tx' = Inr (0 + 1) \<and>
      getPath example_env tx' (0 + 1) = Inr (example_hash 1) \<and>
      Bucket_Get tx' BlockPath (Marshal_BlockHeight 0) =
        Bucket_Get example_tx0 BlockPath (Marshal_BlockHeight 0) \<and>
      (\<exists>tx''. popPath example_env tx' = Inr tx'' \<and>
         blockHeight example_env tx'' = Inr 0 \<and>
         Bucket_Get tx'' BlockPath (Marshal_BlockHeight (0 + 1)) = Inr None \<and>
         tx'' BlockPath = example_tx0 BlockPath))"
proof -
  have h0: "blockHeight example_env example_tx0 = Inr 0"
    by (subst blockHeight_eq [where bs = "EncUint64 0" and bh = "[BlockHeight \<mapsto> EncUint64 0]"])
       (simp_all add: example_tx0_def)
  have bp: "example_tx0 BlockPath = Some example_path0"
    by (simp add: example_tx0_def)
  have n: "(0 :: BlockHeight) \<noteq> 2 ^ 63 - 1"
    by simp
  have free: "example_path0 (Marshal_BlockHeight (0 + 1)) = None"
    by (simp add: example_path0_def Marshal_BlockHeight_EncUint64)
  from pushPath_popPath [OF h0 bp n, of "example_hash 1"] free
  show ?thesis using h0 bp by auto
qed

text \<open>
  The bound on \<open>h\<close> is needed. At height \<open>2^63 - 1\<close>, with a path entry at every
  height up to it, \<^verbatim>\<open>pushPath\<close> stores the counter \<open>2^63\<close>, which \<^verbatim>\<open>blockHeight\<close>
  reads into an \<^verbatim>\<open>int\<close> as \<open>- 2^63\<close> and panics with: the push does not yield a
  state of height \<open>h + 1\<close>.
\<close>

lemma example_full_path_contiguous:
  "example_full_path (Marshal_BlockHeight k) \<noteq> None \<longleftrightarrow> k \<le> 2 ^ 63 - 1"
  by (simp add: example_full_path_def Marshal_BlockHeight_EncUint64)

theorem pushPath_height_counterexample:
  "blockHeight example_env example_tx_max = Inr (2 ^ 63 - 1) \<and>
   pushPath example_env example_tx_max (example_hash 1) =
     Inr (example_tx_max
           (BlockHeight \<mapsto> [BlockHeight \<mapsto> EncUint64 (2 ^ 63 - 1 + 1)],
            BlockPath \<mapsto> example_full_path(EncUint64 (2 ^ 63 - 1 + 1) \<mapsto> Rep_hash32 (example_hash 1)))) \<and>
   blockHeight example_env
     (example_tx_max
       (BlockHeight \<mapsto> [BlockHeight \<mapsto> EncUint64 (2 ^ 63 - 1 + 1)],
        BlockPath \<mapsto> example_full_path(EncUint64 (2 ^ 63 - 1 + 1) \<mapsto> Rep_hash32 (example_hash 1)))) =
     Inl (PanicInt (- (2 ^ 63)),
          example_tx_max
           (BlockHeight \<mapsto> [BlockHeight \<mapsto> EncUint64 (2 ^ 63 - 1 + 1)],
            BlockPath \<mapsto> example_full_path(EncUint64 (2 ^ 63 - 1 + 1) \<mapsto> Rep_hash32 (example_hash 1))))"
proof (intro conjI)
  show "blockHeight example_env example_tx_max = Inr (2 ^ 63 - 1)"
    by (subst blockHeight_eq [where bs = "EncUint64 (2 ^ 63 - 1)"
          and bh = "[BlockHeight \<mapsto> EncUint64 (2 ^ 63 - 1)]"])
       (simp_all add: example_tx_max_def)
next
  show "pushPath example_env example_tx_max (example_hash 1) =
     Inr (example_tx_max
           (BlockHeight \<mapsto> [BlockHeight \<mapsto> EncUint64 (2 ^ 63 - 1 + 1)],
            BlockPath \<mapsto> example_full_path(EncUint64 (2 ^ 63 - 1 + 1) \<mapsto> Rep_hash32 (example_hash 1))))"
    by (subst pushPath_eq [where h = "2 ^ 63 - 1" and err = None and bp = example_full_path
          and bh = "[BlockHeight \<mapsto> EncUint64 (2 ^ 63 - 1)]"])
       (simp_all add: example_tx_max_def Unmarshal_BlockHeight_def)
next
  show "blockHeight example_env
     (example_tx_max
       (BlockHeight \<mapsto> [BlockHeight \<mapsto> EncUint64 (2 ^ 63 - 1 + 1)],
        BlockPath \<mapsto> example_full_path(EncUint64 (2 ^ 63 - 1 + 1) \<mapsto> Rep_hash32 (example_hash 1)))) =
     Inl (PanicInt (- (2 ^ 63)),
          example_tx_max
           (BlockHeight \<mapsto> [BlockHeight \<mapsto> EncUint64 (2 ^ 63 - 1 + 1)],
            BlockPath \<mapsto> example_full_path(EncUint64 (2 ^ 63 - 1 + 1) \<mapsto> Rep_hash32 (example_hash 1))))"
    by (subst blockHeight_eq [where bs = "EncUint64 (2 ^ 63 - 1 + 1)"
          and bh = "[BlockHeight \<mapsto> EncUint64 (2 ^ 63 - 1 + 1)]"])
       (simp_all add: example_tx_max_def)
qed

section \<open>The block map\<close>

text \<open>
  Claim C1, amended. \<^verbatim>\<open>addBlockMap\<close> does not look for an entry with the block's
  identifier: whenever the block map bucket exists and the encoded block fits a bolt
  value, it returns with the encoded block stored under the identifier, added when the
  identifier was free and replacing the stored record when it was taken.
\<close>

theorem addBlockMap_overwrites:
  assumes "tx BlockMap = Some b" and "length (Marshal_processedBlock env pb) \<le> MaxValueSize"
  shows "addBlockMap env tx pb =
    Inr (tx(BlockMap \<mapsto> b(Rep_hash32 (Block_ID env (Block pb)) \<mapsto> Marshal_processedBlock env pb)))"
  using assms by (rule addBlockMap_eq)

text \<open>The theorem at a block map that already holds the block.\<close>

theorem addBlockMap_overwrites_witness:
  "example_blocks BlockMap =
     Some [Rep_hash32 (example_hash 1) \<mapsto> Marshal_processedBlock example_env example_block] \<and>
   length (Marshal_processedBlock example_env (example_block\<lparr>ConsensusSetHash := example_hash 7\<rparr>))
     \<le> MaxValueSize \<and>
   addBlockMap example_env example_blocks (example_block\<lparr>ConsensusSetHash := example_hash 7\<rparr>) =
     Inr (example_blocks(BlockMap \<mapsto>
           [Rep_hash32 (example_hash 1) \<mapsto> Marshal_processedBlock example_env example_block]
           (Rep_hash32 (Block_ID example_env (Block (example_block\<lparr>ConsensusSetHash := example_hash 7\<rparr>)))
              \<mapsto> Marshal_processedBlock example_env (example_block\<lparr>ConsensusSetHash := example_hash 7\<rparr>))))"
proof -
  have b: "example_blocks BlockMap =
      Some [Rep_hash32 (example_hash 1) \<mapsto> Marshal_processedBlock example_env example_block]"
    by (simp add: example_blocks_def)
  have l: "length (Marshal_processedBlock example_env (example_block\<lparr>ConsensusSetHash := example_hash 7\<rparr>))
      \<le> MaxValueSize"
    by (simp add: MaxValueSize_def)
  from addBlockMap_overwrites [where tx = example_blocks and env = example_env
      and pb = "example_block\<lparr>ConsensusSetHash := example_hash 7\<rparr>"
      and b = "[Rep_hash32 (example_hash 1) \<mapsto> Marshal_processedBlock example_env example_block]"]
    b l
  show ?thesis by blast
qed

text \<open>
  The claim as stated fails: with the sanity checks on, putting a block whose identifier
  is already in the block map returns normally and replaces the stored record, here by
  the same block carrying a checksum, which is what \<^verbatim>\<open>initDB\<close> does with the genesis
  block.
\<close>

theorem addBlockMap_counterexample:
  "example_blocks BlockMap =
     Some [Rep_hash32 (example_hash 1) \<mapsto> Marshal_processedBlock example_env example_block] \<and>
   Block_ID example_env (Block (example_block\<lparr>ConsensusSetHash := example_hash 7\<rparr>)) = example_hash 1 \<and>
   Marshal_processedBlock example_env (example_block\<lparr>ConsensusSetHash := example_hash 7\<rparr>) \<noteq>
     Marshal_processedBlock example_env example_block \<and>
   addBlockMap example_env example_blocks (example_block\<lparr>ConsensusSetHash := example_hash 7\<rparr>) =
     Inr [BlockMap \<mapsto>
           [Rep_hash32 (example_hash 1) \<mapsto>
              Marshal_processedBlock example_env (example_block\<lparr>ConsensusSetHash := example_hash 7\<rparr>)]]"
  by (simp add: addBlockMap_def Let_def Bucket_Put_def MaxKeySize_def MaxValueSize_def
      example_blocks_def example_block_def zero_hash32_def Rep_example_hash Abs_hash32_inverse)

section \<open>Siacoin outputs\<close>

lemma isSiacoinOutput_iff:
  "isSiacoinOutput tx x = Inr p \<longleftrightarrow> (\<exists>b. tx SiacoinOutputs = Some b \<and> p = (b (Rep_hash32 x) \<noteq> None))"
  by (cases "tx SiacoinOutputs") (auto simp add: isSiacoinOutput_def Bucket_Get_def)

lemma addSiacoinOutput_eq:
  assumes "tx SiacoinOutputs = Some b"
    and "length (Marshal_SiacoinOutput env sco) \<le> MaxValueSize"
    and "\<not> DEBUG env \<or> b (Rep_hash32 x) = None"
  shows "addSiacoinOutput env tx x sco =
    Inr (tx(SiacoinOutputs \<mapsto> b(Rep_hash32 x \<mapsto> Marshal_SiacoinOutput env sco)))"
  using assms by (auto simp add: addSiacoinOutput_def Bucket_Get_Some Bucket_Put_hash)

lemma removeSiacoinOutput_eq:
  assumes "tx SiacoinOutputs = Some b" and "\<not> DEBUG env \<or> b (Rep_hash32 x) \<noteq> None"
  shows "removeSiacoinOutput env tx x = Inr (tx(SiacoinOutputs \<mapsto> b(Rep_hash32 x := None)))"
  using assms by (auto simp add: removeSiacoinOutput_def Bucket_Get_Some Bucket_Delete_Some)

lemma getSiacoinOutput_eq:
  assumes "tx SiacoinOutputs = Some b" and "b (Rep_hash32 x) = Some bs"
    and "Unmarshal_SiacoinOutput env bs = Inr sco"
  shows "getSiacoinOutput env tx x = Inr (Inr sco)"
  using assms by (simp add: getSiacoinOutput_def Bucket_Get_Some)

text \<open>
  Claim C7. With the sanity checks on (\<^verbatim>\<open>build.DEBUG\<close>): adding an output whose
  identifier is present panics with "repeat siacoin output", removing one whose
  identifier is absent panics with "nil siacoin output", and in both cases the
  transaction at the panic is the one the call started from.
\<close>

theorem siacoinOutput_fatal:
  assumes "DEBUG env"
  shows "(isSiacoinOutput tx x = Inr True \<longrightarrow>
            addSiacoinOutput env tx x sco = Inl (PanicStr ''repeat siacoin output'', tx)) \<and>
         (isSiacoinOutput tx x = Inr False \<longrightarrow>
            removeSiacoinOutput env tx x = Inl (PanicStr ''nil siacoin output'', tx))"
  using assms
  by (auto simp add: isSiacoinOutput_iff addSiacoinOutput_def removeSiacoinOutput_def
      Bucket_Get_Some)

text \<open>The theorem at a store holding one output: a present and an absent identifier.\<close>

theorem siacoinOutput_fatal_witness:
  "DEBUG example_env \<and>
   isSiacoinOutput example_outputs (example_hash 1) = Inr True \<and>
   addSiacoinOutput example_env example_outputs (example_hash 1) example_output =
     Inl (PanicStr ''repeat siacoin output'', example_outputs) \<and>
   isSiacoinOutput example_outputs (example_hash 2) = Inr False \<and>
   removeSiacoinOutput example_env example_outputs (example_hash 2) =
     Inl (PanicStr ''nil siacoin output'', example_outputs)"
proof -
  have p: "isSiacoinOutput example_outputs (example_hash 1) = Inr True"
    by (simp add: isSiacoinOutput_iff example_outputs_def)
  have a: "isSiacoinOutput example_outputs (example_hash 2) = Inr False"
    by (simp add: isSiacoinOutput_iff example_outputs_def)
  have d: "DEBUG example_env" by simp
  from siacoinOutput_fatal [OF d, of example_outputs "example_hash 1" example_output] p
    siacoinOutput_fatal [OF d, of example_outputs "example_hash 2" example_output] a d
  show ?thesis by simp
qed

text \<open>
  Claim C8. For an identifier \<open>x\<close> absent from the output bucket and an output \<open>v\<close>
  that the encoding round-trips and that fits a bolt value: \<^verbatim>\<open>addSiacoinOutput\<close>
  returns, \<^verbatim>\<open>getSiacoinOutput\<close> then returns exactly \<open>v\<close>, \<^verbatim>\<open>isSiacoinOutput\<close> is
  true, and after \<^verbatim>\<open>removeSiacoinOutput\<close> it is false.
\<close>

theorem siacoinOutput_roundtrip:
  assumes "isSiacoinOutput tx x = Inr False"
    and "Unmarshal_SiacoinOutput env (Marshal_SiacoinOutput env v) = Inr v"
    and "length (Marshal_SiacoinOutput env v) \<le> MaxValueSize"
  shows "\<exists>tx'. addSiacoinOutput env tx x v = Inr tx' \<and>
           getSiacoinOutput env tx' x = Inr (Inr v) \<and>
           isSiacoinOutput tx' x = Inr True \<and>
           (\<exists>tx''. removeSiacoinOutput env tx' x = Inr tx'' \<and>
                    isSiacoinOutput tx'' x = Inr False)"
proof -
  from assms(1) obtain b where b: "tx SiacoinOutputs = Some b" "b (Rep_hash32 x) = None"
    by (auto simp add: isSiacoinOutput_iff)
  define b' where "b' = b(Rep_hash32 x \<mapsto> Marshal_SiacoinOutput env v)"
  define tx' where "tx' = tx(SiacoinOutputs \<mapsto> b')"
  define tx'' where "tx'' = tx'(SiacoinOutputs \<mapsto> b'(Rep_hash32 x := None))"
  have tx'_b: "tx' SiacoinOutputs = Some b'" by (simp add: tx'_def)
  have add: "addSiacoinOutput env tx x v = Inr tx'"
    using addSiacoinOutput_eq [where tx = tx and b = b and env = env and sco = v and x = x] b assms(3)
    by (simp add: tx'_def b'_def)
  have get: "getSiacoinOutput env tx' x = Inr (Inr v)"
    using tx'_b assms(2) by (simp add: getSiacoinOutput_def Bucket_Get_def b'_def)
  have present: "isSiacoinOutput tx' x = Inr True"
    using tx'_b by (simp add: isSiacoinOutput_iff b'_def)
  have remove: "removeSiacoinOutput env tx' x = Inr tx''"
    using removeSiacoinOutput_eq [where tx = tx' and b = b' and env = env and x = x] tx'_b
    by (simp add: tx''_def b'_def)
  have absent: "isSiacoinOutput tx'' x = Inr False"
    by (simp add: isSiacoinOutput_iff tx''_def)
  have "\<exists>tx''. removeSiacoinOutput env tx' x = Inr tx'' \<and> isSiacoinOutput tx'' x = Inr False"
    using remove absent by (intro exI [of _ tx'']) simp
  with add get present show ?thesis by (intro exI [of _ tx']) simp
qed

text \<open>The theorem at a fresh identifier of the example store.\<close>

theorem siacoinOutput_roundtrip_witness:
  "isSiacoinOutput example_outputs (example_hash 2) = Inr False \<and>
   Unmarshal_SiacoinOutput example_env (Marshal_SiacoinOutput example_env example_output) =
     Inr example_output \<and>
   length (Marshal_SiacoinOutput example_env example_output) \<le> MaxValueSize \<and>
   (\<exists>tx'. addSiacoinOutput example_env example_outputs (example_hash 2) example_output = Inr tx' \<and>
      getSiacoinOutput example_env tx' (example_hash 2) = Inr (Inr example_output) \<and>
      isSiacoinOutput tx' (example_hash 2) = Inr True \<and>
      (\<exists>tx''. removeSiacoinOutput example_env tx' (example_hash 2) = Inr tx'' \<and>
               isSiacoinOutput tx'' (example_hash 2) = Inr False))"
proof -
  have a: "isSiacoinOutput example_outputs (example_hash 2) = Inr False"
    by (simp add: isSiacoinOutput_iff example_outputs_def)
  have r: "Unmarshal_SiacoinOutput example_env (Marshal_SiacoinOutput example_env example_output) =
      Inr example_output"
    by (simp add: example_SiacoinOutput_roundtrip example_output_def)
  have l: "length (Marshal_SiacoinOutput example_env example_output) \<le> MaxValueSize"
    by (simp add: length_example_Marshal_SiacoinOutput)
  from siacoinOutput_roundtrip [OF a r l] a r l show ?thesis by simp
qed

section \<open>Delayed siacoin outputs\<close>

lemma dsco_ne_names [simp]:
  "dscoBucketID_Marshal h \<noteq> SiafundOutputs" "SiafundOutputs \<noteq> dscoBucketID_Marshal h"
  "dscoBucketID_Marshal h \<noteq> FileContracts" "FileContracts \<noteq> dscoBucketID_Marshal h"
  by (simp_all add: dscoBucketID_Marshal_def prefix_dsco_def name_defs)

lemma removeSiacoinOutput_absent:
  assumes "DEBUG env" and "tx SiacoinOutputs = Some b" and "b (Rep_hash32 x) = None"
  shows "removeSiacoinOutput env tx x = Inl (PanicStr ''nil siacoin output'', tx)"
  using assms by (simp add: removeSiacoinOutput_def Bucket_Get_Some)

lemma removeSiafundOutput_absent:
  assumes "DEBUG env" and "tx SiafundOutputs = Some b" and "b (Rep_hash32 x) = None"
  shows "removeSiafundOutput env tx x = Inl (PanicStr ''nil siafund output'', tx)"
  using assms by (simp add: removeSiafundOutput_def Bucket_Get_Some)

lemma removeFileContract_absent:
  assumes "DEBUG env" and "tx FileContracts = Some b" and "b (Rep_hash32 x) = None"
  shows "removeFileContract env tx x = Inl (PanicStr ''nil file contract'', tx)"
  using assms by (simp add: removeFileContract_def Bucket_Get_Some)

lemma removeSiacoinOutput_release:
  assumes "\<not> DEBUG env" and "tx SiacoinOutputs = Some b" and "b (Rep_hash32 x) = None"
  shows "removeSiacoinOutput env tx x = Inr tx"
proof -
  from assms(3) have "b(Rep_hash32 x := None) = b" by (simp add: fun_upd_idem)
  with assms(2) have "tx(SiacoinOutputs \<mapsto> b(Rep_hash32 x := None)) = tx" by (simp add: fun_upd_idem)
  with assms(1,2) show ?thesis by (simp add: removeSiacoinOutput_def Bucket_Delete_def)
qed

lemma removeSiafundOutput_release:
  assumes "\<not> DEBUG env" and "tx SiafundOutputs = Some b" and "b (Rep_hash32 x) = None"
  shows "removeSiafundOutput env tx x = Inr tx"
proof -
  from assms(3) have "b(Rep_hash32 x := None) = b" by (simp add: fun_upd_idem)
  with assms(2) have "tx(SiafundOutputs \<mapsto> b(Rep_hash32 x := None)) = tx" by (simp add: fun_upd_idem)
  with assms(1,2) show ?thesis by (simp add: removeSiafundOutput_def Bucket_Delete_def)
qed

lemma removeFileContract_release:
  assumes "\<not> DEBUG env" and "tx FileContracts = Some b" and "b (Rep_hash32 x) = None"
  shows "removeFileContract env tx x = Inl (SliceOutOfRange, tx)"
proof -
  from assms(3) have "b(Rep_hash32 x := None) = b" by (simp add: fun_upd_idem)
  with assms(2) have "tx(FileContracts \<mapsto> b(Rep_hash32 x := None)) = tx" by (simp add: fun_upd_idem)
  with assms show ?thesis
    by (simp add: removeFileContract_def Bucket_Get_Some Bucket_Delete_def sliceBytes_def nilBytes_def)
qed

text \<open>
  Claim C6, amended. In a transaction that has the bucket of height \<open>bh\<close>, \<^verbatim>\<open>removeDSCO\<close>
  never panics: it returns with the entry of the identifier deleted from the bucket,
  which leaves the store as it was when the identifier was absent. The line it prints
  for an absent identifier, "NIL DSCO" and the identifier, is printed with the sanity
  checks on (\<^verbatim>\<open>build.DEBUG\<close>) only; it is with them on that \<^verbatim>\<open>removeDSCO\<close> differs from
  \<^verbatim>\<open>removeSiacoinOutput\<close>, \<^verbatim>\<open>removeSiafundOutput\<close> and \<^verbatim>\<open>removeFileContract\<close>, which
  then panic on an absent identifier, before any write. With the sanity checks off,
  \<^verbatim>\<open>removeSiacoinOutput\<close> and \<^verbatim>\<open>removeSiafundOutput\<close> of an absent identifier return
  as well, the store unchanged, and \<^verbatim>\<open>removeFileContract\<close> panics where it slices the
  record it did not find.
\<close>

theorem removeDSCO_tolerant:
  assumes "tx (dscoBucketID_Marshal bh) = Some b"
  shows "removeDSCO env tx bh x =
           Inr (if DEBUG env \<and> b (Rep_hash32 x) = None then [(''NIL DSCO'', x)] else [],
                tx(dscoBucketID_Marshal bh \<mapsto> b(Rep_hash32 x := None))) \<and>
         (DEBUG env \<and> b (Rep_hash32 x) = None \<longrightarrow>
            removeDSCO env tx bh x = Inr ([(''NIL DSCO'', x)], tx)) \<and>
         (DEBUG env \<and> isSiacoinOutput tx x = Inr False \<longrightarrow>
            removeSiacoinOutput env tx x = Inl (PanicStr ''nil siacoin output'', tx)) \<and>
         (\<forall>sfos. DEBUG env \<and> tx SiafundOutputs = Some sfos \<and> sfos (Rep_hash32 x) = None \<longrightarrow>
            removeSiafundOutput env tx x = Inl (PanicStr ''nil siafund output'', tx)) \<and>
         (\<forall>fcs. DEBUG env \<and> tx FileContracts = Some fcs \<and> fcs (Rep_hash32 x) = None \<longrightarrow>
            removeFileContract env tx x = Inl (PanicStr ''nil file contract'', tx)) \<and>
         (\<forall>scos. \<not> DEBUG env \<and> tx SiacoinOutputs = Some scos \<and> scos (Rep_hash32 x) = None \<longrightarrow>
            removeSiacoinOutput env tx x = Inr tx) \<and>
         (\<forall>sfos. \<not> DEBUG env \<and> tx SiafundOutputs = Some sfos \<and> sfos (Rep_hash32 x) = None \<longrightarrow>
            removeSiafundOutput env tx x = Inr tx) \<and>
         (\<forall>fcs. \<not> DEBUG env \<and> tx FileContracts = Some fcs \<and> fcs (Rep_hash32 x) = None \<longrightarrow>
            removeFileContract env tx x = Inl (SliceOutOfRange, tx))"
proof (intro conjI impI allI)
  show run: "removeDSCO env tx bh x =
      Inr (if DEBUG env \<and> b (Rep_hash32 x) = None then [(''NIL DSCO'', x)] else [],
           tx(dscoBucketID_Marshal bh \<mapsto> b(Rep_hash32 x := None)))"
    using assms by (simp add: removeDSCO_def Let_def Bucket_Get_def Bucket_Delete_def)
  assume a: "DEBUG env \<and> b (Rep_hash32 x) = None"
  then have "b(Rep_hash32 x := None) = b" by (simp add: fun_upd_idem)
  then have "tx(dscoBucketID_Marshal bh \<mapsto> b(Rep_hash32 x := None)) = tx"
    using assms by (simp add: fun_upd_idem)
  with run a show "removeDSCO env tx bh x = Inr ([(''NIL DSCO'', x)], tx)" by simp
next
  assume "DEBUG env \<and> isSiacoinOutput tx x = Inr False"
  then show "removeSiacoinOutput env tx x = Inl (PanicStr ''nil siacoin output'', tx)"
    by (auto simp add: isSiacoinOutput_iff removeSiacoinOutput_absent)
next
  fix sfos
  assume "DEBUG env \<and> tx SiafundOutputs = Some sfos \<and> sfos (Rep_hash32 x) = None"
  then show "removeSiafundOutput env tx x = Inl (PanicStr ''nil siafund output'', tx)"
    by (simp add: removeSiafundOutput_absent)
next
  fix fcs
  assume "DEBUG env \<and> tx FileContracts = Some fcs \<and> fcs (Rep_hash32 x) = None"
  then show "removeFileContract env tx x = Inl (PanicStr ''nil file contract'', tx)"
    by (simp add: removeFileContract_absent)
next
  fix scos
  assume "\<not> DEBUG env \<and> tx SiacoinOutputs = Some scos \<and> scos (Rep_hash32 x) = None"
  then show "removeSiacoinOutput env tx x = Inr tx"
    by (simp add: removeSiacoinOutput_release)
next
  fix sfos
  assume "\<not> DEBUG env \<and> tx SiafundOutputs = Some sfos \<and> sfos (Rep_hash32 x) = None"
  then show "removeSiafundOutput env tx x = Inr tx"
    by (simp add: removeSiafundOutput_release)
next
  fix fcs
  assume "\<not> DEBUG env \<and> tx FileContracts = Some fcs \<and> fcs (Rep_hash32 x) = None"
  then show "removeFileContract env tx x = Inl (SliceOutOfRange, tx)"
    by (simp add: removeFileContract_release)
qed

text \<open>
  The theorem at a store with the three ledgers empty and one delayed output of
  height 5: an absent and a present identifier, with the sanity checks on and off.
\<close>

theorem removeDSCO_tolerant_witness:
  "example_ledgers (dscoBucketID_Marshal 5) = Some example_dsco_bucket \<and>
   DEBUG example_env \<and>
   example_dsco_bucket (Rep_hash32 (example_hash 2)) = None \<and>
   removeDSCO example_env example_ledgers 5 (example_hash 2) =
     Inr ([(''NIL DSCO'', example_hash 2)], example_ledgers) \<and>
   removeDSCO example_env example_ledgers 5 (example_hash 1) =
     Inr ([], example_ledgers(dscoBucketID_Marshal 5 \<mapsto> Map.empty)) \<and>
   isSiacoinOutput example_ledgers (example_hash 2) = Inr False \<and>
   removeSiacoinOutput example_env example_ledgers (example_hash 2) =
     Inl (PanicStr ''nil siacoin output'', example_ledgers) \<and>
   removeSiafundOutput example_env example_ledgers (example_hash 2) =
     Inl (PanicStr ''nil siafund output'', example_ledgers) \<and>
   removeFileContract example_env example_ledgers (example_hash 2) =
     Inl (PanicStr ''nil file contract'', example_ledgers) \<and>
   \<not> DEBUG example_release \<and>
   removeDSCO example_release example_ledgers 5 (example_hash 2) = Inr ([], example_ledgers) \<and>
   removeSiacoinOutput example_release example_ledgers (example_hash 2) = Inr example_ledgers \<and>
   removeSiafundOutput example_release example_ledgers (example_hash 2) = Inr example_ledgers \<and>
   removeFileContract example_release example_ledgers (example_hash 2) =
     Inl (SliceOutOfRange, example_ledgers)"
proof -
  have b: "example_ledgers (dscoBucketID_Marshal 5) = Some example_dsco_bucket"
    by (simp add: example_ledgers_def)
  have absent: "example_dsco_bucket (Rep_hash32 (example_hash 2)) = None"
    by (simp add: example_dsco_bucket_def)
  have out: "isSiacoinOutput example_ledgers (example_hash 2) = Inr False"
    by (simp add: isSiacoinOutput_iff example_ledgers_def)
  have sf: "example_ledgers SiafundOutputs = Some Map.empty"
    by (simp add: example_ledgers_def)
  have fc: "example_ledgers FileContracts = Some Map.empty"
    by (simp add: example_ledgers_def)
  note t2 = removeDSCO_tolerant [where tx = example_ledgers and bh = 5 and b = example_dsco_bucket
      and env = example_env and x = "example_hash 2", OF b]
  note t1 = removeDSCO_tolerant [where tx = example_ledgers and bh = 5 and b = example_dsco_bucket
      and env = example_env and x = "example_hash 1", OF b]
  from t2 have "DEBUG example_env \<and> example_dsco_bucket (Rep_hash32 (example_hash 2)) = None \<longrightarrow>
      removeDSCO example_env example_ledgers 5 (example_hash 2) =
        Inr ([(''NIL DSCO'', example_hash 2)], example_ledgers)"
    by (elim conjE)
  with absent have r2: "removeDSCO example_env example_ledgers 5 (example_hash 2) =
      Inr ([(''NIL DSCO'', example_hash 2)], example_ledgers)"
    by simp
  from t1 have "removeDSCO example_env example_ledgers 5 (example_hash 1) =
      Inr (if DEBUG example_env \<and> example_dsco_bucket (Rep_hash32 (example_hash 1)) = None
           then [(''NIL DSCO'', example_hash 1)] else [],
           example_ledgers(dscoBucketID_Marshal 5 \<mapsto>
             example_dsco_bucket(Rep_hash32 (example_hash 1) := None)))"
    by (elim conjE)
  then have r1: "removeDSCO example_env example_ledgers 5 (example_hash 1) =
      Inr ([], example_ledgers(dscoBucketID_Marshal 5 \<mapsto> Map.empty))"
    by (simp add: example_dsco_bucket_def)
  from t2 have "DEBUG example_env \<and> isSiacoinOutput example_ledgers (example_hash 2) = Inr False \<longrightarrow>
      removeSiacoinOutput example_env example_ledgers (example_hash 2) =
        Inl (PanicStr ''nil siacoin output'', example_ledgers)"
    by (elim conjE)
  with out have p1: "removeSiacoinOutput example_env example_ledgers (example_hash 2) =
      Inl (PanicStr ''nil siacoin output'', example_ledgers)"
    by simp
  from t2 have "\<forall>sfos. DEBUG example_env \<and> example_ledgers SiafundOutputs = Some sfos \<and>
      sfos (Rep_hash32 (example_hash 2)) = None \<longrightarrow>
      removeSiafundOutput example_env example_ledgers (example_hash 2) =
        Inl (PanicStr ''nil siafund output'', example_ledgers)"
    by (elim conjE)
  with sf have p2: "removeSiafundOutput example_env example_ledgers (example_hash 2) =
      Inl (PanicStr ''nil siafund output'', example_ledgers)"
    by simp
  from t2 have "\<forall>fcs. DEBUG example_env \<and> example_ledgers FileContracts = Some fcs \<and>
      fcs (Rep_hash32 (example_hash 2)) = None \<longrightarrow>
      removeFileContract example_env example_ledgers (example_hash 2) =
        Inl (PanicStr ''nil file contract'', example_ledgers)"
    by (elim conjE)
  with fc have p3: "removeFileContract example_env example_ledgers (example_hash 2) =
      Inl (PanicStr ''nil file contract'', example_ledgers)"
    by simp
  have rel: "\<not> DEBUG example_release"
    by simp
  have sc: "example_ledgers SiacoinOutputs = Some Map.empty"
    by (simp add: example_ledgers_def)
  have same: "example_ledgers(dscoBucketID_Marshal 5 \<mapsto> example_dsco_bucket) = example_ledgers"
    using b by (simp add: fun_upd_idem)
  from absent have keep: "example_dsco_bucket(Rep_hash32 (example_hash 2) := None) = example_dsco_bucket"
    by (simp add: fun_upd_idem)
  note t3 = removeDSCO_tolerant [where tx = example_ledgers and bh = 5 and b = example_dsco_bucket
      and env = example_release and x = "example_hash 2", OF b]
  from t3 have "removeDSCO example_release example_ledgers 5 (example_hash 2) =
      Inr (if DEBUG example_release \<and> example_dsco_bucket (Rep_hash32 (example_hash 2)) = None
           then [(''NIL DSCO'', example_hash 2)] else [],
           example_ledgers(dscoBucketID_Marshal 5 \<mapsto>
             example_dsco_bucket(Rep_hash32 (example_hash 2) := None)))"
    by (elim conjE)
  with rel keep same have r3: "removeDSCO example_release example_ledgers 5 (example_hash 2) =
      Inr ([], example_ledgers)"
    by simp
  from t3 have "\<forall>scos. \<not> DEBUG example_release \<and> example_ledgers SiacoinOutputs = Some scos \<and>
      scos (Rep_hash32 (example_hash 2)) = None \<longrightarrow>
      removeSiacoinOutput example_release example_ledgers (example_hash 2) = Inr example_ledgers"
    by (elim conjE)
  with rel sc have q1: "removeSiacoinOutput example_release example_ledgers (example_hash 2) =
      Inr example_ledgers"
    by simp
  from t3 have "\<forall>sfos. \<not> DEBUG example_release \<and> example_ledgers SiafundOutputs = Some sfos \<and>
      sfos (Rep_hash32 (example_hash 2)) = None \<longrightarrow>
      removeSiafundOutput example_release example_ledgers (example_hash 2) = Inr example_ledgers"
    by (elim conjE)
  with rel sf have q2: "removeSiafundOutput example_release example_ledgers (example_hash 2) =
      Inr example_ledgers"
    by simp
  from t3 have "\<forall>fcs. \<not> DEBUG example_release \<and> example_ledgers FileContracts = Some fcs \<and>
      fcs (Rep_hash32 (example_hash 2)) = None \<longrightarrow>
      removeFileContract example_release example_ledgers (example_hash 2) =
        Inl (SliceOutOfRange, example_ledgers)"
    by (elim conjE)
  with rel fc have q3: "removeFileContract example_release example_ledgers (example_hash 2) =
      Inl (SliceOutOfRange, example_ledgers)"
    by simp
  from b absent r2 r1 out p1 p2 p3 rel r3 q1 q2 q3 show ?thesis by simp
qed

text \<open>
  With the sanity checks off, \<^verbatim>\<open>removeDSCO\<close> of an absent identifier prints nothing, and
  \<^verbatim>\<open>removeSiacoinOutput\<close> of an absent identifier returns as well, the store unchanged:
  no diagnostic, and no difference between the two ledgers.
\<close>

theorem removeDSCO_release_counterexample:
  "\<not> DEBUG example_release \<and>
   example_ledgers (dscoBucketID_Marshal 5) = Some example_dsco_bucket \<and>
   example_dsco_bucket (Rep_hash32 (example_hash 2)) = None \<and>
   removeDSCO example_release example_ledgers 5 (example_hash 2) = Inr ([], example_ledgers) \<and>
   isSiacoinOutput example_ledgers (example_hash 2) = Inr False \<and>
   removeSiacoinOutput example_release example_ledgers (example_hash 2) = Inr example_ledgers"
proof -
  have same: "example_ledgers(dscoBucketID_Marshal 5 \<mapsto> example_dsco_bucket) = example_ledgers"
    "example_ledgers(SiacoinOutputs \<mapsto> Map.empty) = example_ledgers"
    by (auto simp add: example_ledgers_def)
  have absent: "example_dsco_bucket (Rep_hash32 (example_hash 2)) = None"
    by (simp add: example_dsco_bucket_def)
  then have keep: "example_dsco_bucket(Rep_hash32 (example_hash 2) := None) = example_dsco_bucket"
    by (simp add: fun_upd_idem)
  have r: "removeDSCO example_release example_ledgers 5 (example_hash 2) = Inr ([], example_ledgers)"
    using same(1) keep
    by (simp add: removeDSCO_def Let_def Bucket_Delete_def example_ledgers_def)
  have s: "removeSiacoinOutput example_release example_ledgers (example_hash 2) = Inr example_ledgers"
    using same(2)
    by (simp add: removeSiacoinOutput_def Bucket_Delete_def example_ledgers_def)
  have p: "isSiacoinOutput example_ledgers (example_hash 2) = Inr False"
    by (simp add: isSiacoinOutput_iff example_ledgers_def)
  from absent r s p show ?thesis by (simp add: example_ledgers_def)
qed

text \<open>
  Claim C3, amended. \<^verbatim>\<open>deleteDSCOBucket\<close> panics with \<^verbatim>\<open>errNilBucket\<close> when there
  is no bucket of that height and the sanity checks are on, and returns with the
  transaction unchanged when they are off; when the bucket exists it is deleted, with
  whatever entries it holds: no emptiness check is made.
\<close>

theorem deleteDSCOBucket_unchecked:
  "(tx (dscoBucketID_Marshal h) = None \<and> DEBUG env \<longrightarrow>
      deleteDSCOBucket env tx h = Inl (PanicErr errNilBucket, tx)) \<and>
   (tx (dscoBucketID_Marshal h) = None \<and> \<not> DEBUG env \<longrightarrow>
      deleteDSCOBucket env tx h = Inr tx) \<and>
   (tx (dscoBucketID_Marshal h) \<noteq> None \<longrightarrow>
      deleteDSCOBucket env tx h = Inr (tx(dscoBucketID_Marshal h := None)))"
  by (auto simp add: deleteDSCOBucket_def Let_def DeleteBucket_def panicIfDebug_def)

text \<open>The theorem at an existing bucket and at a missing one.\<close>

theorem deleteDSCOBucket_unchecked_witness:
  "example_dsco (dscoBucketID_Marshal 5) \<noteq> None \<and>
   deleteDSCOBucket example_env example_dsco 5 = Inr (example_dsco(dscoBucketID_Marshal 5 := None)) \<and>
   example_dsco (dscoBucketID_Marshal 6) = None \<and> DEBUG example_env \<and>
   deleteDSCOBucket example_env example_dsco 6 = Inl (PanicErr errNilBucket, example_dsco)"
proof -
  have b: "example_dsco (dscoBucketID_Marshal 5) \<noteq> None"
    by (simp add: example_dsco_def)
  have n: "example_dsco (dscoBucketID_Marshal 6) = None"
    by (simp add: example_dsco_def)
  from deleteDSCOBucket_unchecked [of example_dsco 5 example_env]
    deleteDSCOBucket_unchecked [of example_dsco 6 example_env] b n
  show ?thesis by simp
qed

text \<open>
  The claim as stated fails: the bucket of height 5 holds an entry, and
  \<^verbatim>\<open>deleteDSCOBucket\<close>, with the sanity checks on, returns with the bucket deleted.
\<close>

theorem deleteDSCOBucket_nonempty_counterexample:
  "example_dsco (dscoBucketID_Marshal 5) = Some example_dsco_bucket \<and>
   example_dsco_bucket (Rep_hash32 (example_hash 1)) =
     Some (example_Marshal_SiacoinOutput example_output) \<and>
   deleteDSCOBucket example_env example_dsco 5 = Inr (example_dsco(dscoBucketID_Marshal 5 := None))"
  by (simp add: deleteDSCOBucket_def Let_def DeleteBucket_def example_dsco_def
      example_dsco_bucket_def)

lemma addDSCO_eq:
  assumes "tx (dscoBucketID_EncUint64 bh) = Some b"
    and "length (Marshal_SiacoinOutput env sco) \<le> MaxValueSize"
    and "\<not> DEBUG env \<or> isSiacoinOutput tx x = Inr False \<and> b (Rep_hash32 x) = None"
  shows "addDSCO env tx bh x sco =
    Inr (tx(dscoBucketID_EncUint64 bh \<mapsto> b(Rep_hash32 x \<mapsto> Marshal_SiacoinOutput env sco)))"
  using assms
  by (auto simp add: addDSCO_def Let_def isSiacoinOutput_iff Bucket_Get_Some Bucket_Put_hash)

lemma dscoBucketID_eq: "dscoBucketID_EncUint64 bh = dscoBucketID_Marshal bh"
  by (simp add: dscoBucketID_EncUint64_def dscoBucketID_Marshal_def Marshal_BlockHeight_EncUint64)

lemma dscoBucketID_Marshal_not_Nil [simp]: "dscoBucketID_Marshal bh \<noteq> []"
  by (simp add: dscoBucketID_Marshal_def prefix_dsco_def bytes_of_def)

lemma Bucket_pairs_single: "Bucket_pairs [k \<mapsto> v] = [(k, v)]"
  by (simp add: Bucket_pairs_def nilBytes_def)

lemma createDSCOBucket_eq:
  assumes "tx (dscoBucketID_Marshal bh) = None"
  shows "createDSCOBucket env tx bh = Inr (tx(dscoBucketID_Marshal bh \<mapsto> Map.empty))"
  using assms by (simp add: createDSCOBucket_def Let_def CreateBucket_def)

lemma forEachDSCO_single:
  assumes "tx (dscoBucketID_Marshal bh) = Some [Rep_hash32 x \<mapsto> bs]"
    and "Unmarshal_SiacoinOutput env bs = Inr sco"
  shows "forEachDSCO env tx bh fn = Inr (fn x sco)"
  using assms
  by (cases "fn x sco")
     (simp_all add: forEachDSCO_def Let_def Bucket_ForEach_def Bucket_pairs_single
        Unmarshal_hash32_def Rep_hash32_inverse)

lemma forEachDSCO_empty:
  assumes "tx (dscoBucketID_Marshal bh) = Some Map.empty"
  shows "forEachDSCO env tx bh fn = Inr None"
  using assms
  by (simp add: forEachDSCO_def Let_def Bucket_ForEach_def Bucket_pairs_def)

lemma example_visit_hit: "example_visit (example_hash 1) example_output = Some errRepeatInsert"
  by (simp add: example_visit_def)

text \<open>
  Claim C10. For every height the bucket name \<^verbatim>\<open>addDSCO\<close> computes with
  \<^verbatim>\<open>encoding.EncUint64\<close> is the name \<^verbatim>\<open>createDSCOBucket\<close>, \<^verbatim>\<open>removeDSCO\<close>,
  \<^verbatim>\<open>deleteDSCOBucket\<close> and \<^verbatim>\<open>forEachDSCO\<close> compute with \<^verbatim>\<open>encoding.Marshal\<close>.
  So, from a store without the bucket of the height: \<^verbatim>\<open>createDSCOBucket\<close> makes a
  bucket in which \<^verbatim>\<open>forEachDSCO\<close> visits nothing; an \<^verbatim>\<open>addDSCO\<close> that passes its checks
  returns with the output stored in that bucket and nowhere else; \<^verbatim>\<open>forEachDSCO\<close> then
  visits exactly the added pair, returning what the visiting function returns on it;
  \<^verbatim>\<open>removeDSCO\<close> of the identifier gives back the store with the empty bucket, printing
  nothing; and \<^verbatim>\<open>deleteDSCOBucket\<close>, before or after the removal, gives back the store
  of the start. In a store that has the bucket, \<^verbatim>\<open>addDSCO\<close> stores the output in it and
  \<^verbatim>\<open>removeDSCO\<close> deletes it from it.
\<close>

theorem dscoBucketID_agree:
  "dscoBucketID_EncUint64 bh = dscoBucketID_Marshal bh \<and>
   (tx (dscoBucketID_Marshal bh) = None \<and>
    length (Marshal_SiacoinOutput env sco) \<le> MaxValueSize \<and>
    Unmarshal_SiacoinOutput env (Marshal_SiacoinOutput env sco) = Inr sco \<and>
    (\<not> DEBUG env \<or> isSiacoinOutput tx x = Inr False) \<longrightarrow>
    (\<exists>tx1 tx2.
       createDSCOBucket env tx bh = Inr tx1 \<and>
       forEachDSCO env tx1 bh fn = Inr None \<and>
       addDSCO env tx1 bh x sco = Inr tx2 \<and>
       tx2 = tx1(dscoBucketID_Marshal bh \<mapsto> [Rep_hash32 x \<mapsto> Marshal_SiacoinOutput env sco]) \<and>
       forEachDSCO env tx2 bh fn = Inr (fn x sco) \<and>
       removeDSCO env tx2 bh x = Inr ([], tx1) \<and>
       deleteDSCOBucket env tx1 bh = Inr tx \<and>
       deleteDSCOBucket env tx2 bh = Inr tx)) \<and>
   (\<forall>b. tx (dscoBucketID_Marshal bh) = Some b \<and>
        length (Marshal_SiacoinOutput env sco) \<le> MaxValueSize \<and>
        (\<not> DEBUG env \<or> isSiacoinOutput tx x = Inr False \<and> b (Rep_hash32 x) = None) \<longrightarrow>
        addDSCO env tx bh x sco =
          Inr (tx(dscoBucketID_Marshal bh \<mapsto> b(Rep_hash32 x \<mapsto> Marshal_SiacoinOutput env sco))) \<and>
        removeDSCO env
          (tx(dscoBucketID_Marshal bh \<mapsto> b(Rep_hash32 x \<mapsto> Marshal_SiacoinOutput env sco))) bh x =
          Inr ([], tx(dscoBucketID_Marshal bh \<mapsto> b(Rep_hash32 x := None))))"
proof (intro conjI impI allI)
  show "dscoBucketID_EncUint64 bh = dscoBucketID_Marshal bh"
    by (rule dscoBucketID_eq)
next
  let ?n = "dscoBucketID_Marshal bh"
  let ?m = "Marshal_SiacoinOutput env sco"
  assume a: "tx ?n = None \<and> length ?m \<le> MaxValueSize \<and>
    Unmarshal_SiacoinOutput env ?m = Inr sco \<and> (\<not> DEBUG env \<or> isSiacoinOutput tx x = Inr False)"
  define tx1 where "tx1 = tx(?n \<mapsto> Map.empty)"
  define tx2 where "tx2 = tx1(?n \<mapsto> [Rep_hash32 x \<mapsto> ?m])"
  have c: "createDSCOBucket env tx bh = Inr tx1"
    using a by (simp add: createDSCOBucket_eq tx1_def)
  have e1: "forEachDSCO env tx1 bh fn = Inr None"
    by (rule forEachDSCO_empty) (simp add: tx1_def)
  have out: "isSiacoinOutput tx1 x = Inr False" if "isSiacoinOutput tx x = Inr False"
    using that by (simp add: isSiacoinOutput_iff tx1_def)
  have add: "addDSCO env tx1 bh x sco = Inr tx2"
    using a out
    by (subst addDSCO_eq [where b = Map.empty])
       (auto simp add: tx1_def tx2_def dscoBucketID_eq)
  have e2: "forEachDSCO env tx2 bh fn = Inr (fn x sco)"
    using a by (intro forEachDSCO_single [where bs = ?m]) (simp_all add: tx2_def)
  have rem: "removeDSCO env tx2 bh x = Inr ([], tx1)"
    by (simp add: removeDSCO_def Let_def Bucket_Get_def Bucket_Delete_def tx2_def tx1_def)
  have restored: "tx1(?n := None) = tx" "tx2(?n := None) = tx"
    using a by (auto simp add: tx1_def tx2_def)
  have d1: "deleteDSCOBucket env tx1 bh = Inr tx"
    using restored(1) by (simp add: deleteDSCOBucket_def Let_def DeleteBucket_def tx1_def)
  have d2: "deleteDSCOBucket env tx2 bh = Inr tx"
    using restored(2) by (simp add: deleteDSCOBucket_def Let_def DeleteBucket_def tx2_def)
  show "\<exists>tx1 tx2.
       createDSCOBucket env tx bh = Inr tx1 \<and>
       forEachDSCO env tx1 bh fn = Inr None \<and>
       addDSCO env tx1 bh x sco = Inr tx2 \<and>
       tx2 = tx1(?n \<mapsto> [Rep_hash32 x \<mapsto> ?m]) \<and>
       forEachDSCO env tx2 bh fn = Inr (fn x sco) \<and>
       removeDSCO env tx2 bh x = Inr ([], tx1) \<and>
       deleteDSCOBucket env tx1 bh = Inr tx \<and>
       deleteDSCOBucket env tx2 bh = Inr tx"
    using c e1 add e2 rem d1 d2
    by (intro exI [of _ tx1] exI [of _ tx2]) (simp add: tx2_def)
next
  fix b
  let ?n = "dscoBucketID_Marshal bh"
  let ?m = "Marshal_SiacoinOutput env sco"
  assume a: "tx ?n = Some b \<and> length ?m \<le> MaxValueSize \<and>
    (\<not> DEBUG env \<or> isSiacoinOutput tx x = Inr False \<and> b (Rep_hash32 x) = None)"
  then show "addDSCO env tx bh x sco = Inr (tx(?n \<mapsto> b(Rep_hash32 x \<mapsto> ?m)))"
    using addDSCO_eq [where tx = tx and bh = bh and env = env and sco = sco and x = x and b = b]
    by (auto simp add: dscoBucketID_eq)
  show "removeDSCO env (tx(?n \<mapsto> b(Rep_hash32 x \<mapsto> ?m))) bh x =
      Inr ([], tx(?n \<mapsto> b(Rep_hash32 x := None)))"
    by (simp add: removeDSCO_def Let_def Bucket_Get_def Bucket_Delete_def)
qed

text \<open>
  The theorem at height 5: from the store without delayed outputs, with a visiting
  function that reports the example output by an error, and at the store that holds
  the delayed output.
\<close>

theorem dscoBucketID_agree_witness:
  "example_no_dsco (dscoBucketID_Marshal 5) = None \<and>
   length (Marshal_SiacoinOutput example_env example_output) \<le> MaxValueSize \<and>
   Unmarshal_SiacoinOutput example_env (Marshal_SiacoinOutput example_env example_output) =
     Inr example_output \<and>
   isSiacoinOutput example_no_dsco (example_hash 1) = Inr False \<and>
   createDSCOBucket example_env example_no_dsco 5 =
     Inr (example_no_dsco(dscoBucketID_Marshal 5 \<mapsto> Map.empty)) \<and>
   forEachDSCO example_env (example_no_dsco(dscoBucketID_Marshal 5 \<mapsto> Map.empty)) 5 example_visit =
     Inr None \<and>
   addDSCO example_env (example_no_dsco(dscoBucketID_Marshal 5 \<mapsto> Map.empty)) 5
       (example_hash 1) example_output =
     Inr example_dsco \<and>
   forEachDSCO example_env example_dsco 5 example_visit = Inr (Some errRepeatInsert) \<and>
   removeDSCO example_env example_dsco 5 (example_hash 1) =
     Inr ([], example_no_dsco(dscoBucketID_Marshal 5 \<mapsto> Map.empty)) \<and>
   deleteDSCOBucket example_env (example_no_dsco(dscoBucketID_Marshal 5 \<mapsto> Map.empty)) 5 =
     Inr example_no_dsco \<and>
   deleteDSCOBucket example_env example_dsco 5 = Inr example_no_dsco \<and>
   example_dsco (dscoBucketID_Marshal 5) = Some example_dsco_bucket \<and>
   isSiacoinOutput example_dsco (example_hash 2) = Inr False \<and>
   example_dsco_bucket (Rep_hash32 (example_hash 2)) = None \<and>
   addDSCO example_env example_dsco 5 (example_hash 2) example_output =
     Inr (example_dsco(dscoBucketID_Marshal 5 \<mapsto>
           example_dsco_bucket(Rep_hash32 (example_hash 2) \<mapsto>
             Marshal_SiacoinOutput example_env example_output)))"
proof -
  have n: "example_no_dsco (dscoBucketID_Marshal 5) = None"
    by (simp add: example_no_dsco_def)
  have l: "length (Marshal_SiacoinOutput example_env example_output) \<le> MaxValueSize"
    by (simp add: length_example_Marshal_SiacoinOutput)
  have r: "Unmarshal_SiacoinOutput example_env (Marshal_SiacoinOutput example_env example_output) =
      Inr example_output"
    by (simp add: example_SiacoinOutput_roundtrip example_output_def)
  have a0: "isSiacoinOutput example_no_dsco (example_hash 1) = Inr False"
    by (simp add: isSiacoinOutput_iff example_no_dsco_def)
  have same: "example_no_dsco(dscoBucketID_Marshal 5 \<mapsto>
      [Rep_hash32 (example_hash 1) \<mapsto> Marshal_SiacoinOutput example_env example_output]) = example_dsco"
    by (simp add: example_no_dsco_def example_dsco_def example_dsco_bucket_def)
  note first = dscoBucketID_agree [where bh = 5 and tx = example_no_dsco and env = example_env
      and sco = example_output and x = "example_hash 1" and fn = example_visit]
  from first n l r a0 have scenario: "\<exists>tx1 tx2.
      createDSCOBucket example_env example_no_dsco 5 = Inr tx1 \<and>
      forEachDSCO example_env tx1 5 example_visit = Inr None \<and>
      addDSCO example_env tx1 5 (example_hash 1) example_output = Inr tx2 \<and>
      tx2 = tx1(dscoBucketID_Marshal 5 \<mapsto>
        [Rep_hash32 (example_hash 1) \<mapsto> Marshal_SiacoinOutput example_env example_output]) \<and>
      forEachDSCO example_env tx2 5 example_visit =
        Inr (example_visit (example_hash 1) example_output) \<and>
      removeDSCO example_env tx2 5 (example_hash 1) = Inr ([], tx1) \<and>
      deleteDSCOBucket example_env tx1 5 = Inr example_no_dsco \<and>
      deleteDSCOBucket example_env tx2 5 = Inr example_no_dsco"
    by blast
  then obtain tx1 tx2 where s:
    "createDSCOBucket example_env example_no_dsco 5 = Inr tx1"
    "forEachDSCO example_env tx1 5 example_visit = Inr None"
    "addDSCO example_env tx1 5 (example_hash 1) example_output = Inr tx2"
    "tx2 = tx1(dscoBucketID_Marshal 5 \<mapsto>
        [Rep_hash32 (example_hash 1) \<mapsto> Marshal_SiacoinOutput example_env example_output])"
    "forEachDSCO example_env tx2 5 example_visit =
        Inr (example_visit (example_hash 1) example_output)"
    "removeDSCO example_env tx2 5 (example_hash 1) = Inr ([], tx1)"
    "deleteDSCOBucket example_env tx1 5 = Inr example_no_dsco"
    "deleteDSCOBucket example_env tx2 5 = Inr example_no_dsco"
    by blast
  have tx1: "tx1 = example_no_dsco(dscoBucketID_Marshal 5 \<mapsto> Map.empty)"
    using s(1) n by (simp add: createDSCOBucket_eq)
  with s(4) same have tx2: "tx2 = example_dsco" by simp
  note run = s(1,2,3,5,6,7,8) [unfolded tx2, unfolded tx1, unfolded example_visit_hit]
  have b: "example_dsco (dscoBucketID_Marshal 5) = Some example_dsco_bucket"
    by (simp add: example_dsco_def)
  have a: "isSiacoinOutput example_dsco (example_hash 2) = Inr False"
    by (simp add: isSiacoinOutput_iff example_dsco_def)
  have f: "example_dsco_bucket (Rep_hash32 (example_hash 2)) = None"
    by (simp add: example_dsco_bucket_def)
  from dscoBucketID_agree [where bh = 5 and tx = example_dsco and env = example_env
      and sco = example_output and x = "example_hash 2" and fn = example_visit] b l a f
  have second: "addDSCO example_env example_dsco 5 (example_hash 2) example_output =
     Inr (example_dsco(dscoBucketID_Marshal 5 \<mapsto>
           example_dsco_bucket(Rep_hash32 (example_hash 2) \<mapsto>
             Marshal_SiacoinOutput example_env example_output)))"
    by blast
  from n l r a0 run b a f second show ?thesis by simp
qed

section \<open>Initialization\<close>

lemma addSiafundOutput_cases:
  assumes "tx SiafundOutputs = Some b"
    and "b (Rep_hash32 x) = None"
    and "length (Marshal_SiafundOutput env sfo) \<le> MaxValueSize"
  shows "addSiafundOutput env tx x sfo =
    Inr (tx(SiafundOutputs \<mapsto> b(Rep_hash32 x \<mapsto> Marshal_SiafundOutput env sfo)))"
  using assms by (auto simp add: addSiafundOutput_def Bucket_Get_Some Bucket_Put_hash)

lemma commitSiafundOutputDiffs_eq:
  assumes "tx SiafundOutputs = Some b"
    and "distinct (map ID ds)"
    and "\<forall>d \<in> set ds. b (Rep_hash32 (ID d)) = None \<and>
           length (Marshal_SiafundOutput env (SiafundOutput d)) \<le> MaxValueSize"
  shows "\<exists>b'. commitSiafundOutputDiffs env tx ds = Inr (tx(SiafundOutputs \<mapsto> b'))"
  using assms
proof (induction ds arbitrary: tx b)
  case Nil
  then have "tx(SiafundOutputs \<mapsto> b) = tx" by (simp add: fun_upd_idem)
  then show ?case by (intro exI [of _ b]) simp
next
  case (Cons d ds)
  define b1 where "b1 = b(Rep_hash32 (ID d) \<mapsto> Marshal_SiafundOutput env (SiafundOutput d))"
  define tx1 where "tx1 = tx(SiafundOutputs \<mapsto> b1)"
  have step: "commitSiafundOutputDiff env tx d = Inr tx1"
    using Cons.prems
    by (simp add: commitSiafundOutputDiff_def addSiafundOutput_cases tx1_def b1_def)
  have "tx1 SiafundOutputs = Some b1" by (simp add: tx1_def)
  moreover have "distinct (map ID ds)" using Cons.prems(2) by simp
  moreover have "\<forall>e \<in> set ds. b1 (Rep_hash32 (ID e)) = None \<and>
      length (Marshal_SiafundOutput env (SiafundOutput e)) \<le> MaxValueSize"
    using Cons.prems(2,3) by (auto simp add: b1_def image_iff)
  ultimately obtain b' where rest:
    "commitSiafundOutputDiffs env tx1 ds = Inr (tx1(SiafundOutputs \<mapsto> b'))"
    using Cons.IH by blast
  have "tx1(SiafundOutputs \<mapsto> b') = tx(SiafundOutputs \<mapsto> b')"
    by (simp add: tx1_def)
  with step rest have "commitSiafundOutputDiffs env tx (d # ds) = Inr (tx(SiafundOutputs \<mapsto> b'))"
    by simp
  then show ?case by (intro exI [of _ b'])
qed

text \<open>
  Claim C9. On the empty store \<^verbatim>\<open>initDB\<close> returns without error, and in the
  transaction it leaves \<^verbatim>\<open>blockHeight\<close> is exactly 0, \<^verbatim>\<open>getPath\<close> at height 0 is the
  identifier of the genesis block, \<^verbatim>\<open>getSiafundPool\<close> is zero, and the bucket of
  siacoin outputs holds exactly one entry: under the identifier of the genesis miner
  payout, the output whose value is \<^verbatim>\<open>CalculateCoinbase(0)\<close> and whose unlock hash is
  32 zero bytes, which \<^verbatim>\<open>getSiacoinOutput\<close> returns. This is for a genesis block whose
  siafund outputs have distinct identifiers, with encodings that fit a bolt value and
  that round-trip the zero pool and the payout.
\<close>

theorem initDB_empty:
  fixes env :: "('blk, 'fc, 'sfo) env" and blockRoot :: "('blk, 'sfo) processedBlock"
  defines "payout \<equiv> \<lparr>Value = CalculateCoinbase env 0, UnlockHash = zero_hash32\<rparr>"
  assumes block_fits:
      "\<forall>c. length (Marshal_processedBlock env (blockRoot\<lparr>ConsensusSetHash := c\<rparr>)) \<le> MaxValueSize"
    and pool_fits: "length (Marshal_Currency env 0) \<le> MaxValueSize"
    and pool_roundtrip: "Unmarshal_Currency env (Marshal_Currency env 0) = Inr 0"
    and sfo_distinct: "distinct (map ID (SiafundOutputDiffs blockRoot))"
    and sfo_fit: "\<forall>d \<in> set (SiafundOutputDiffs blockRoot).
           length (Marshal_SiafundOutput env (SiafundOutput d)) \<le> MaxValueSize"
    and payout_fits: "length (Marshal_SiacoinOutput env payout) \<le> MaxValueSize"
    and payout_roundtrip:
      "Unmarshal_SiacoinOutput env (Marshal_SiacoinOutput env payout) = Inr payout"
  shows "\<exists>blockRoot' tx'.
           initDB env blockRoot Map.empty = Inr (None, blockRoot', tx') \<and>
           blockHeight env tx' = Inr 0 \<and>
           getPath env tx' 0 = Inr (Block_ID env (Block blockRoot)) \<and>
           getSiafundPool env tx' = Inr 0 \<and>
           tx' SiacoinOutputs =
             Some [Rep_hash32 (Block_MinerPayoutID env (Block blockRoot) 0) \<mapsto>
                     Marshal_SiacoinOutput env payout] \<and>
           getSiacoinOutput env tx' (Block_MinerPayoutID env (Block blockRoot) 0) = Inr (Inr payout) \<and>
           Value payout = CalculateCoinbase env 0 \<and>
           Rep_hash32 (UnlockHash payout) = replicate 32 0"
proof -
  define bid where "bid = Block_ID env (Block blockRoot)"
  define pid where "pid = Block_MinerPayoutID env (Block blockRoot) 0"
  have fits0: "length (Marshal_processedBlock env blockRoot) \<le> MaxValueSize"
    using block_fits [rule_format, of "ConsensusSetHash blockRoot"] by simp
  define tx1 :: Tx where "tx1 = (\<lambda>n. if n \<in> set buckets then Some Map.empty else None)"
  have s1: "createBuckets Map.empty buckets = (None, tx1)"
    by (simp add: createBuckets_buckets tx1_def)
  have tx1_at [simp]: "tx1 BlockHeight = Some Map.empty" "tx1 BlockPath = Some Map.empty"
    "tx1 BlockMap = Some Map.empty" "tx1 SiafundPool = Some Map.empty"
    "tx1 SiafundOutputs = Some Map.empty" "tx1 SiacoinOutputs = Some Map.empty"
    by (simp_all add: tx1_def buckets_def)
  define tx2 where "tx2 = tx1(BlockHeight \<mapsto> [BlockHeight \<mapsto> EncUint64 (- 1)])"
  have s2: "Bucket_Put tx1 BlockHeight BlockHeight (Marshal_BlockHeight (0 - 1)) = Inr (None, tx2)"
    by (simp add: Marshal_BlockHeight_EncUint64 Bucket_Put_counter tx2_def)
  define tx3 where "tx3 = tx2(BlockMap \<mapsto> [Rep_hash32 bid \<mapsto> Marshal_processedBlock env blockRoot])"
  have s3: "addBlockMap env tx2 blockRoot = Inr tx3"
    using fits0
    by (subst addBlockMap_eq [where b = Map.empty]) (simp_all add: tx2_def tx3_def bid_def)
  define tx4 where "tx4 =
    tx3(BlockHeight \<mapsto> [BlockHeight \<mapsto> EncUint64 0], BlockPath \<mapsto> [EncUint64 0 \<mapsto> Rep_hash32 bid])"
  have s4: "pushPath env tx3 bid = Inr tx4"
    by (subst pushPath_eq [where h = "- 1" and err = None and bp = Map.empty
          and bh = "[BlockHeight \<mapsto> EncUint64 (- 1)]"])
       (simp_all add: tx2_def tx3_def tx4_def Unmarshal_BlockHeight_def)
  define tx5 where "tx5 = tx4(SiafundPool \<mapsto> [SiafundPool \<mapsto> Marshal_Currency env 0])"
  have s5: "setSiafundPool env tx4 0 = Inr tx5"
    using pool_fits
    by (subst setSiafundPool_eq [where b = Map.empty])
       (simp_all add: tx2_def tx3_def tx4_def tx5_def)
  have "tx5 SiafundOutputs = Some Map.empty"
    by (simp add: tx2_def tx3_def tx4_def tx5_def)
  then obtain sfos where s6:
    "commitSiafundOutputDiffs env tx5 (SiafundOutputDiffs blockRoot) = Inr (tx5(SiafundOutputs \<mapsto> sfos))"
    using commitSiafundOutputDiffs_eq [where tx = tx5 and b = Map.empty and env = env
        and ds = "SiafundOutputDiffs blockRoot"] sfo_distinct sfo_fit
    by auto
  define tx6 where "tx6 = tx5(SiafundOutputs \<mapsto> sfos)"
  define tx7 where "tx7 = tx6(SiacoinOutputs \<mapsto> [Rep_hash32 pid \<mapsto> Marshal_SiacoinOutput env payout])"
  have s7: "addSiacoinOutput env tx6 pid payout = Inr tx7"
    using payout_fits
    by (subst addSiacoinOutput_eq [where b = Map.empty])
       (simp_all add: tx2_def tx3_def tx4_def tx5_def tx6_def tx7_def)
  define root where "root =
    (if DEBUG env then blockRoot\<lparr>ConsensusSetHash := consensusChecksum env tx7\<rparr> else blockRoot)"
  have root_block: "Block_ID env (Block root) = bid"
    by (simp add: root_def bid_def)
  have root_fits: "length (Marshal_processedBlock env root) \<le> MaxValueSize"
    using block_fits fits0 by (simp add: root_def)
  define tx8 where "tx8 = tx7(BlockMap \<mapsto> [Rep_hash32 bid \<mapsto> Marshal_processedBlock env root])"
  have s8: "addBlockMap env tx7 root = Inr tx8"
    using root_fits root_block
    by (subst addBlockMap_eq
          [where b = "[Rep_hash32 bid \<mapsto> Marshal_processedBlock env blockRoot]"])
       (simp_all add: tx2_def tx3_def tx4_def tx5_def tx6_def tx7_def tx8_def)
  have run: "initDB env blockRoot Map.empty = Inr (None, root, tx8)"
    using s1 s2 s3 s4 s5 s6 s7 s8
    by (simp add: initDB_def Let_def bid_def [symmetric] pid_def [symmetric] tx6_def [symmetric]
        payout_def [symmetric] root_def [symmetric])
  have tx8_at: "tx8 BlockHeight = Some [BlockHeight \<mapsto> EncUint64 0]"
    "tx8 BlockPath = Some [EncUint64 0 \<mapsto> Rep_hash32 bid]"
    "tx8 SiafundPool = Some [SiafundPool \<mapsto> Marshal_Currency env 0]"
    "tx8 SiacoinOutputs = Some [Rep_hash32 pid \<mapsto> Marshal_SiacoinOutput env payout]"
    by (simp_all add: tx4_def tx5_def tx6_def tx7_def tx8_def)
  have h: "blockHeight env tx8 = Inr 0"
    using tx8_at(1)
    by (subst blockHeight_eq [where bs = "EncUint64 0" and bh = "[BlockHeight \<mapsto> EncUint64 0]"])
       simp_all
  have p: "getPath env tx8 0 = Inr bid"
    using tx8_at(2)
    by (intro getPath_eq [where bp = "[EncUint64 0 \<mapsto> Rep_hash32 bid]"])
       (simp_all add: Marshal_BlockHeight_EncUint64)
  have pool: "getSiafundPool env tx8 = Inr 0"
    using tx8_at(3) pool_roundtrip
    by (intro getSiafundPool_eq [where b = "[SiafundPool \<mapsto> Marshal_Currency env 0]"
          and bs = "Marshal_Currency env 0"]) simp_all
  have out: "getSiacoinOutput env tx8 pid = Inr (Inr payout)"
    using tx8_at(4) payout_roundtrip
    by (intro getSiacoinOutput_eq [where b = "[Rep_hash32 pid \<mapsto> Marshal_SiacoinOutput env payout]"
          and bs = "Marshal_SiacoinOutput env payout"]) simp_all
  have z: "Value payout = CalculateCoinbase env 0 \<and> Rep_hash32 (UnlockHash payout) = replicate 32 0"
    by (simp add: payout_def Rep_zero_hash32)
  show ?thesis
    using run h p pool tx8_at(4) out z
    by (intro exI [of _ root] exI [of _ tx8]) (simp add: bid_def pid_def)
qed

text \<open>The theorem at a genesis block with one siafund output.\<close>

theorem initDB_empty_witness:
  "length (Marshal_processedBlock example_env example_genesis) \<le> MaxValueSize \<and>
   length (Marshal_Currency example_env 0) \<le> MaxValueSize \<and>
   Unmarshal_Currency example_env (Marshal_Currency example_env 0) = Inr 0 \<and>
   distinct (map ID (SiafundOutputDiffs example_genesis)) \<and>
   length (Marshal_SiafundOutput example_env example_output) \<le> MaxValueSize \<and>
   (\<exists>blockRoot' tx'.
      initDB example_env example_genesis Map.empty = Inr (None, blockRoot', tx') \<and>
      blockHeight example_env tx' = Inr 0 \<and>
      getPath example_env tx' 0 = Inr (example_hash 1) \<and>
      getSiafundPool example_env tx' = Inr 0 \<and>
      tx' SiacoinOutputs =
        Some [Rep_hash32 (example_hash 0) \<mapsto>
                example_Marshal_SiacoinOutput \<lparr>Value = 300000, UnlockHash = zero_hash32\<rparr>] \<and>
      getSiacoinOutput example_env tx' (example_hash 0) =
        Inr (Inr \<lparr>Value = 300000, UnlockHash = zero_hash32\<rparr>))"
proof -
  have h1: "\<forall>c. length (Marshal_processedBlock example_env (example_genesis\<lparr>ConsensusSetHash := c\<rparr>))
      \<le> MaxValueSize"
    by (simp add: MaxValueSize_def)
  have h2: "length (Marshal_Currency example_env 0) \<le> MaxValueSize"
    by (simp add: MaxValueSize_def)
  have h3: "Unmarshal_Currency example_env (Marshal_Currency example_env 0) = Inr 0"
    by simp
  have h4: "distinct (map ID (SiafundOutputDiffs example_genesis))"
    by (simp add: example_genesis_def)
  have h5: "\<forall>d \<in> set (SiafundOutputDiffs example_genesis).
      length (Marshal_SiafundOutput example_env (SiafundOutput d)) \<le> MaxValueSize"
    by (simp add: length_example_Marshal_SiacoinOutput)
  have h6: "length (Marshal_SiacoinOutput example_env
      \<lparr>Value = CalculateCoinbase example_env 0, UnlockHash = zero_hash32\<rparr>) \<le> MaxValueSize"
    by (simp add: length_example_Marshal_SiacoinOutput)
  have h7: "Unmarshal_SiacoinOutput example_env (Marshal_SiacoinOutput example_env
      \<lparr>Value = CalculateCoinbase example_env 0, UnlockHash = zero_hash32\<rparr>) =
      Inr \<lparr>Value = CalculateCoinbase example_env 0, UnlockHash = zero_hash32\<rparr>"
    by (simp add: example_SiacoinOutput_roundtrip)
  have b: "Block example_genesis = example_hash 1"
    by (simp add: example_genesis_def)
  have h0: "length (Marshal_processedBlock example_env example_genesis) \<le> MaxValueSize"
    by (simp add: MaxValueSize_def)
  have h5': "length (Marshal_SiafundOutput example_env example_output) \<le> MaxValueSize"
    by (simp add: length_example_Marshal_SiacoinOutput)
  from initDB_empty [OF h1 h2 h3 h4 h5 h6 h7] h0 h2 h3 h4 h5'
  show ?thesis by (auto simp add: b)
qed

section \<open>File contracts and their expiration index\<close>

lemma fcex_ne_FileContracts [simp]:
  "prefix_fcex @ w \<noteq> FileContracts" "FileContracts \<noteq> prefix_fcex @ w" "prefix_fcex \<noteq> []"
  by (simp_all add: prefix_fcex_def name_defs)

lemma addFileContract_eq:
  assumes "tx FileContracts = Some fcs"
    and "\<not> DEBUG env \<or> fcs (Rep_hash32 x) = None"
    and "length (Marshal_FileContract env fc) \<le> MaxValueSize"
  shows "addFileContract env tx x fc =
    Inr (tx(FileContracts \<mapsto> fcs(Rep_hash32 x \<mapsto> Marshal_FileContract env fc),
            prefix_fcex @ Marshal_BlockHeight (FileContract_WindowEnd env fc) \<mapsto>
              (case tx (prefix_fcex @ Marshal_BlockHeight (FileContract_WindowEnd env fc)) of
                 None \<Rightarrow> Map.empty | Some ex \<Rightarrow> ex)(Rep_hash32 x \<mapsto> [])))"
proof -
  let ?E = "prefix_fcex @ Marshal_BlockHeight (FileContract_WindowEnd env fc)"
  let ?tx1 = "tx(FileContracts \<mapsto> fcs(Rep_hash32 x \<mapsto> Marshal_FileContract env fc))"
  have check: "(if DEBUG env
            then bindR (Bucket_Get tx FileContracts (Rep_hash32 x)) (\<lambda>old.
                   if old \<noteq> None then Inl (PanicStr ''repeat file contract'', tx) else Inr ())
            else Inr ()) = Inr ()"
    using assms(1,2) by (auto simp add: Bucket_Get_Some)
  have put1: "Bucket_Put tx FileContracts (Rep_hash32 x) (Marshal_FileContract env fc) = Inr (None, ?tx1)"
    using assms(1,3) by (simp add: Bucket_Put_hash)
  have create: "CreateBucketIfNotExists ?tx1 ?E =
      (None, ?tx1(?E \<mapsto> (case tx ?E of None \<Rightarrow> Map.empty | Some ex \<Rightarrow> ex)))"
    by (cases "tx ?E") (simp_all add: CreateBucketIfNotExists_eq fun_upd_idem)
  have put2: "Bucket_Put (?tx1(?E \<mapsto> (case tx ?E of None \<Rightarrow> Map.empty | Some ex \<Rightarrow> ex))) ?E
      (Rep_hash32 x) [] =
      Inr (None, ?tx1(?E \<mapsto> (case tx ?E of None \<Rightarrow> Map.empty | Some ex \<Rightarrow> ex)(Rep_hash32 x \<mapsto> [])))"
    by (subst Bucket_Put_hash [where b = "case tx ?E of None \<Rightarrow> Map.empty | Some ex \<Rightarrow> ex"])
       (simp_all add: MaxValueSize_def)
  show ?thesis
    unfolding addFileContract_def check
    by (simp add: put1 Let_def create put2)
qed

lemma removeFileContract_steps:
  assumes "tx FileContracts = Some fcs" and "fcs (Rep_hash32 x) = Some bs"
    and "sliceBytes (Some bs) 48 56 = Some w"
  shows "removeFileContract env tx x =
    (case tx (prefix_fcex @ w) of
       None \<Rightarrow> Inl (NilDereference, tx(FileContracts \<mapsto> fcs(Rep_hash32 x := None)))
     | Some ex \<Rightarrow>
         if ex (Rep_hash32 x) = None
         then Inl (PanicErr errNilItem, tx(FileContracts \<mapsto> fcs(Rep_hash32 x := None)))
         else Inr (tx(FileContracts \<mapsto> fcs(Rep_hash32 x := None),
                      prefix_fcex @ w \<mapsto> ex(Rep_hash32 x := None))))"
  using assms
  by (simp add: removeFileContract_def Bucket_Get_Some Bucket_Delete_Some Let_def Bucket_Get_def
      Bucket_Delete_def split: option.splits)

lemma expirationIndexAgreesD1:
  assumes "expirationIndexAgrees tx" and "tx FileContracts = Some fcs"
    and "fcs (Rep_hash32 y) = Some bs"
  obtains w ex where "sliceBytes (Some bs) 48 56 = Some w" and "tx (prefix_fcex @ w) = Some ex"
    and "ex (Rep_hash32 y) \<noteq> None"
  using assms unfolding expirationIndexAgrees_def by blast

lemma expirationIndexAgreesD2:
  assumes "expirationIndexAgrees tx" and "tx (prefix_fcex @ w) = Some ex"
    and "ex (Rep_hash32 y) \<noteq> None"
  obtains fcs bs where "tx FileContracts = Some fcs" and "fcs (Rep_hash32 y) = Some bs"
    and "sliceBytes (Some bs) 48 56 = Some w"
  using assms unfolding expirationIndexAgrees_def by blast

lemma expirationIndexAgrees_add:
  assumes inv: "expirationIndexAgrees tx" and fcs: "tx FileContracts = Some fcs"
    and fresh: "fcs (Rep_hash32 x) = None" and sl: "sliceBytes (Some m) 48 56 = Some w"
  defines "ex0 \<equiv> (case tx (prefix_fcex @ w) of None \<Rightarrow> Map.empty | Some ex \<Rightarrow> ex)"
  shows "expirationIndexAgrees
    (tx(FileContracts \<mapsto> fcs(Rep_hash32 x \<mapsto> m), prefix_fcex @ w \<mapsto> ex0(Rep_hash32 x \<mapsto> [])))"
    (is "expirationIndexAgrees ?tx'")
  unfolding expirationIndexAgrees_def
proof (intro conjI allI impI)
  fix y bs
  assume "\<exists>fcs'. ?tx' FileContracts = Some fcs' \<and> fcs' (Rep_hash32 y) = Some bs"
  then have stored: "(fcs(Rep_hash32 x \<mapsto> m)) (Rep_hash32 y) = Some bs" by simp
  show "\<exists>w' ex. sliceBytes (Some bs) 48 56 = Some w' \<and> ?tx' (prefix_fcex @ w') = Some ex \<and>
      ex (Rep_hash32 y) \<noteq> None"
  proof (cases "y = x")
    case True
    with stored sl show ?thesis by simp
  next
    case False
    with stored have "fcs (Rep_hash32 y) = Some bs" by simp
    with inv fcs obtain w' ex where w': "sliceBytes (Some bs) 48 56 = Some w'"
      "tx (prefix_fcex @ w') = Some ex" "ex (Rep_hash32 y) \<noteq> None"
      by (rule expirationIndexAgreesD1)
    show ?thesis
    proof (cases "w' = w")
      case True
      with w' have "ex0 = ex" by (simp add: ex0_def)
      with w' True show ?thesis by simp
    next
      case False
      with w' show ?thesis by simp
    qed
  qed
next
  fix w' ex y
  assume a: "?tx' (prefix_fcex @ w') = Some ex \<and> ex (Rep_hash32 y) \<noteq> None"
  show "\<exists>fcs' bs. ?tx' FileContracts = Some fcs' \<and> fcs' (Rep_hash32 y) = Some bs \<and>
      sliceBytes (Some bs) 48 56 = Some w'"
  proof (cases "y = x")
    case True
    have "w' = w"
    proof (rule ccontr)
      assume "w' \<noteq> w"
      with a have "tx (prefix_fcex @ w') = Some ex" "ex (Rep_hash32 y) \<noteq> None" by simp_all
      with inv obtain f bs where "tx FileContracts = Some f" "f (Rep_hash32 y) = Some bs"
        by (rule expirationIndexAgreesD2)
      with fcs fresh True show False by simp
    qed
    with True sl show ?thesis by simp
  next
    case False
    have "\<exists>ex1. tx (prefix_fcex @ w') = Some ex1 \<and> ex1 (Rep_hash32 y) \<noteq> None"
    proof (cases "w' = w")
      case True
      with a False have nz: "ex0 (Rep_hash32 y) \<noteq> None" by auto
      then have "tx (prefix_fcex @ w) = Some ex0"
        by (cases "tx (prefix_fcex @ w)") (simp_all add: ex0_def)
      with nz True show ?thesis by simp
    next
      case False
      with a show ?thesis by simp
    qed
    then obtain ex1 where "tx (prefix_fcex @ w') = Some ex1" "ex1 (Rep_hash32 y) \<noteq> None"
      by blast
    with inv obtain f bs where "tx FileContracts = Some f" "f (Rep_hash32 y) = Some bs"
      "sliceBytes (Some bs) 48 56 = Some w'"
      by (rule expirationIndexAgreesD2)
    with fcs False show ?thesis by simp
  qed
qed

lemma expirationIndexAgrees_remove:
  assumes inv: "expirationIndexAgrees tx" and fcs: "tx FileContracts = Some fcs"
    and stored: "fcs (Rep_hash32 x) = Some m" and sl: "sliceBytes (Some m) 48 56 = Some w"
    and ex: "tx (prefix_fcex @ w) = Some ex"
  shows "expirationIndexAgrees
    (tx(FileContracts \<mapsto> fcs(Rep_hash32 x := None), prefix_fcex @ w \<mapsto> ex(Rep_hash32 x := None)))"
    (is "expirationIndexAgrees ?tx'")
  unfolding expirationIndexAgrees_def
proof (intro conjI allI impI)
  fix y bs
  assume "\<exists>fcs'. ?tx' FileContracts = Some fcs' \<and> fcs' (Rep_hash32 y) = Some bs"
  then have "(fcs(Rep_hash32 x := None)) (Rep_hash32 y) = Some bs" by simp
  then have ne: "y \<noteq> x" and old: "fcs (Rep_hash32 y) = Some bs" by (auto split: if_splits)
  from inv fcs old obtain w' ex' where w': "sliceBytes (Some bs) 48 56 = Some w'"
    "tx (prefix_fcex @ w') = Some ex'" "ex' (Rep_hash32 y) \<noteq> None"
    by (rule expirationIndexAgreesD1 [where y = y])
  show "\<exists>w' ex. sliceBytes (Some bs) 48 56 = Some w' \<and> ?tx' (prefix_fcex @ w') = Some ex \<and>
      ex (Rep_hash32 y) \<noteq> None"
  proof (cases "w' = w")
    case True
    with w' ex have "ex' = ex" by simp
    with w' True ne show ?thesis by simp
  next
    case False
    with w' show ?thesis by simp
  qed
next
  fix w' ex' y
  assume a: "?tx' (prefix_fcex @ w') = Some ex' \<and> ex' (Rep_hash32 y) \<noteq> None"
  have "\<exists>ex1. tx (prefix_fcex @ w') = Some ex1 \<and> ex1 (Rep_hash32 y) \<noteq> None \<and> (w' = w \<longrightarrow> y \<noteq> x)"
  proof (cases "w' = w")
    case True
    with a ex show ?thesis by (auto split: if_splits)
  next
    case False
    with a show ?thesis by simp
  qed
  then obtain ex1 where ex1: "tx (prefix_fcex @ w') = Some ex1" "ex1 (Rep_hash32 y) \<noteq> None"
    and wx: "w' = w \<longrightarrow> y \<noteq> x"
    by blast
  from inv ex1 obtain f bs where f: "tx FileContracts = Some f" "f (Rep_hash32 y) = Some bs"
    "sliceBytes (Some bs) 48 56 = Some w'"
    by (rule expirationIndexAgreesD2)
  have "y \<noteq> x"
  proof
    assume "y = x"
    with f fcs stored sl have "w' = w" by simp
    with wx \<open>y = x\<close> show False by simp
  qed
  with f fcs show "\<exists>fcs' bs. ?tx' FileContracts = Some fcs' \<and> fcs' (Rep_hash32 y) = Some bs \<and>
      sliceBytes (Some bs) 48 56 = Some w'"
    by simp
qed

lemma example_contracts_agrees: "expirationIndexAgrees example_contracts"
proof -
  have inv0: "expirationIndexAgrees example_no_contracts"
    by (simp add: expirationIndexAgrees_def example_no_contracts_def)
  have "expirationIndexAgrees
      (example_no_contracts
        (FileContracts \<mapsto> Map.empty(Rep_hash32 (example_hash 1) \<mapsto> Marshal_FileContract example_env 100),
         prefix_fcex @ Marshal_BlockHeight 100 \<mapsto>
           (case example_no_contracts (prefix_fcex @ Marshal_BlockHeight 100) of
              None \<Rightarrow> Map.empty | Some ex \<Rightarrow> ex)(Rep_hash32 (example_hash 1) \<mapsto> [])))"
    using example_contract_slice [of 100]
    by (intro expirationIndexAgrees_add [OF inv0]) (simp_all add: example_no_contracts_def)
  then show ?thesis
    by (simp add: example_no_contracts_def example_contracts_def)
qed

lemma addFileContract_present_release:
  assumes rel: "\<not> DEBUG env" and inv: "expirationIndexAgrees tx"
    and fcs: "tx FileContracts = Some fcs" and old: "fcs (Rep_hash32 x) = Some bs"
    and w: "sliceBytes (Some bs) 48 56 = Some w"
    and other: "w \<noteq> Marshal_BlockHeight (FileContract_WindowEnd env fc)"
    and sl: "sliceBytes (Some (Marshal_FileContract env fc)) 48 56 =
        Some (Marshal_BlockHeight (FileContract_WindowEnd env fc))"
    and len: "length (Marshal_FileContract env fc) \<le> MaxValueSize"
  shows "\<exists>tx'. addFileContract env tx x fc = Inr tx' \<and> \<not> expirationIndexAgrees tx'"
proof -
  let ?m = "Marshal_FileContract env fc"
  let ?E = "prefix_fcex @ Marshal_BlockHeight (FileContract_WindowEnd env fc)"
  define ex0 where "ex0 = (case tx ?E of None \<Rightarrow> Map.empty | Some ex \<Rightarrow> ex)"
  define tx' where
    "tx' = tx(FileContracts \<mapsto> fcs(Rep_hash32 x \<mapsto> ?m), ?E \<mapsto> ex0(Rep_hash32 x \<mapsto> []))"
  have run: "addFileContract env tx x fc = Inr tx'"
    using rel fcs len addFileContract_eq [where tx = tx and fcs = fcs and env = env and x = x and fc = fc]
    by (simp add: tx'_def ex0_def)
  from inv fcs old obtain w' ex where w': "sliceBytes (Some bs) 48 56 = Some w'"
    and ex: "tx (prefix_fcex @ w') = Some ex" "ex (Rep_hash32 x) \<noteq> None"
    by (rule expirationIndexAgreesD1)
  from w w' have "w' = w" by simp
  with ex have marker: "tx (prefix_fcex @ w) = Some ex" by simp
  have kept: "tx' (prefix_fcex @ w) = Some ex"
    using marker other by (simp add: tx'_def)
  have rec: "tx' FileContracts = Some (fcs(Rep_hash32 x \<mapsto> ?m))"
    by (simp add: tx'_def)
  have "\<not> expirationIndexAgrees tx'"
  proof
    assume "expirationIndexAgrees tx'"
    from this kept ex(2) obtain fcs' bs' where "tx' FileContracts = Some fcs'"
      "fcs' (Rep_hash32 x) = Some bs'" "sliceBytes (Some bs') 48 56 = Some w"
      by (rule expirationIndexAgreesD2)
    with rec sl other show False by simp
  qed
  with run show ?thesis by blast
qed

text \<open>
  Claim C2, amended. In a transaction whose expiration index agrees with the bucket of
  file contracts: \<^verbatim>\<open>addFileContract\<close> of an absent identifier, for a contract whose
  encoding has its window end at bytes 48-56 and fits a bolt value, returns with the
  contract stored, its marker stored in the expiration bucket of its window end
  (created when missing), and the index still in agreement; \<^verbatim>\<open>removeFileContract\<close> of
  a stored identifier returns with the contract and its marker both deleted, the
  marker's bucket being the one named by bytes 48-56 of the stored encoding, and the
  index still in agreement. When the marker of a stored contract is missing,
  \<^verbatim>\<open>removeFileContract\<close> panics: with \<^verbatim>\<open>errNilItem\<close> when the expiration bucket
  exists, with a nil dereference when it does not. \<^verbatim>\<open>addFileContract\<close> of a stored
  identifier panics, before any write, with the sanity checks on
  (\<^verbatim>\<open>build.DEBUG\<close>). With the sanity checks off it returns, and when the window end
  of the contract is not the one of the stored record, the index no longer agrees
  with the bucket of contracts: the marker of the stored record stays. So the
  agreement is kept with the sanity checks on, or by callers that add absent
  identifiers only.
\<close>

theorem expirationIndex_consistent:
  "(expirationIndexAgrees tx \<and> tx FileContracts = Some fcs \<and> fcs (Rep_hash32 x) = None \<and>
      sliceBytes (Some (Marshal_FileContract env fc)) 48 56 =
        Some (Marshal_BlockHeight (FileContract_WindowEnd env fc)) \<and>
      length (Marshal_FileContract env fc) \<le> MaxValueSize \<longrightarrow>
      (\<exists>tx' fcs' ex'.
         addFileContract env tx x fc = Inr tx' \<and> expirationIndexAgrees tx' \<and>
         tx' FileContracts = Some fcs' \<and>
         fcs' (Rep_hash32 x) = Some (Marshal_FileContract env fc) \<and>
         tx' (prefix_fcex @ Marshal_BlockHeight (FileContract_WindowEnd env fc)) = Some ex' \<and>
         ex' (Rep_hash32 x) = Some [])) \<and>
   (expirationIndexAgrees tx \<and> tx FileContracts = Some fcs \<and> fcs (Rep_hash32 x) = Some bs \<longrightarrow>
      (\<exists>w ex.
         sliceBytes (Some bs) 48 56 = Some w \<and> tx (prefix_fcex @ w) = Some ex \<and>
         removeFileContract env tx x =
           Inr (tx(FileContracts \<mapsto> fcs(Rep_hash32 x := None),
                   prefix_fcex @ w \<mapsto> ex(Rep_hash32 x := None))) \<and>
         expirationIndexAgrees
           (tx(FileContracts \<mapsto> fcs(Rep_hash32 x := None),
               prefix_fcex @ w \<mapsto> ex(Rep_hash32 x := None))))) \<and>
   (tx FileContracts = Some fcs \<and> fcs (Rep_hash32 x) = Some bs \<and>
      sliceBytes (Some bs) 48 56 = Some w \<and>
      tx (prefix_fcex @ w) = Some ex \<and> ex (Rep_hash32 x) = None \<longrightarrow>
      removeFileContract env tx x =
        Inl (PanicErr errNilItem, tx(FileContracts \<mapsto> fcs(Rep_hash32 x := None)))) \<and>
   (tx FileContracts = Some fcs \<and> fcs (Rep_hash32 x) = Some bs \<and>
      sliceBytes (Some bs) 48 56 = Some w \<and> tx (prefix_fcex @ w) = None \<longrightarrow>
      removeFileContract env tx x =
        Inl (NilDereference, tx(FileContracts \<mapsto> fcs(Rep_hash32 x := None)))) \<and>
   (DEBUG env \<and> tx FileContracts = Some fcs \<and> fcs (Rep_hash32 x) = Some bs \<longrightarrow>
      addFileContract env tx x fc = Inl (PanicStr ''repeat file contract'', tx)) \<and>
   (\<not> DEBUG env \<and> expirationIndexAgrees tx \<and> tx FileContracts = Some fcs \<and>
      fcs (Rep_hash32 x) = Some bs \<and> sliceBytes (Some bs) 48 56 = Some w \<and>
      w \<noteq> Marshal_BlockHeight (FileContract_WindowEnd env fc) \<and>
      sliceBytes (Some (Marshal_FileContract env fc)) 48 56 =
        Some (Marshal_BlockHeight (FileContract_WindowEnd env fc)) \<and>
      length (Marshal_FileContract env fc) \<le> MaxValueSize \<longrightarrow>
      (\<exists>tx'. addFileContract env tx x fc = Inr tx' \<and> \<not> expirationIndexAgrees tx'))"
proof (intro conjI impI)
  let ?m = "Marshal_FileContract env fc"
  let ?w = "Marshal_BlockHeight (FileContract_WindowEnd env fc)"
  assume a: "expirationIndexAgrees tx \<and> tx FileContracts = Some fcs \<and> fcs (Rep_hash32 x) = None \<and>
      sliceBytes (Some ?m) 48 56 = Some ?w \<and> length ?m \<le> MaxValueSize"
  define ex0 where "ex0 = (case tx (prefix_fcex @ ?w) of None \<Rightarrow> Map.empty | Some ex \<Rightarrow> ex)"
  define tx' where
    "tx' = tx(FileContracts \<mapsto> fcs(Rep_hash32 x \<mapsto> ?m), prefix_fcex @ ?w \<mapsto> ex0(Rep_hash32 x \<mapsto> []))"
  have run: "addFileContract env tx x fc = Inr tx'"
    using a addFileContract_eq [where tx = tx and fcs = fcs and env = env and x = x and fc = fc]
    by (simp add: tx'_def ex0_def)
  have inv: "expirationIndexAgrees tx'"
    using a expirationIndexAgrees_add [where tx = tx and fcs = fcs and x = x and m = ?m and w = ?w]
    by (simp add: tx'_def ex0_def)
  have p: "tx' FileContracts = Some (fcs(Rep_hash32 x \<mapsto> ?m))"
    by (simp add: tx'_def)
  have e: "tx' (prefix_fcex @ ?w) = Some (ex0(Rep_hash32 x \<mapsto> []))"
    by (simp add: tx'_def)
  show "\<exists>tx' fcs' ex'.
      addFileContract env tx x fc = Inr tx' \<and> expirationIndexAgrees tx' \<and>
      tx' FileContracts = Some fcs' \<and> fcs' (Rep_hash32 x) = Some ?m \<and>
      tx' (prefix_fcex @ ?w) = Some ex' \<and> ex' (Rep_hash32 x) = Some []"
    using run inv p e
    by (intro exI [of _ tx'] exI [of _ "fcs(Rep_hash32 x \<mapsto> ?m)"]
        exI [of _ "ex0(Rep_hash32 x \<mapsto> [])"]) simp
next
  assume a: "expirationIndexAgrees tx \<and> tx FileContracts = Some fcs \<and> fcs (Rep_hash32 x) = Some bs"
  then obtain w ex where w: "sliceBytes (Some bs) 48 56 = Some w" "tx (prefix_fcex @ w) = Some ex"
    "ex (Rep_hash32 x) \<noteq> None"
    using expirationIndexAgreesD1 [where tx = tx and fcs = fcs and y = x and bs = bs] by blast
  have run: "removeFileContract env tx x =
      Inr (tx(FileContracts \<mapsto> fcs(Rep_hash32 x := None), prefix_fcex @ w \<mapsto> ex(Rep_hash32 x := None)))"
    using a w removeFileContract_steps [where tx = tx and fcs = fcs and x = x and bs = bs and w = w
        and env = env]
    by simp
  have inv: "expirationIndexAgrees
      (tx(FileContracts \<mapsto> fcs(Rep_hash32 x := None), prefix_fcex @ w \<mapsto> ex(Rep_hash32 x := None)))"
    using a w expirationIndexAgrees_remove [where tx = tx and fcs = fcs and x = x and m = bs
        and w = w and ex = ex]
    by simp
  show "\<exists>w ex.
      sliceBytes (Some bs) 48 56 = Some w \<and> tx (prefix_fcex @ w) = Some ex \<and>
      removeFileContract env tx x =
        Inr (tx(FileContracts \<mapsto> fcs(Rep_hash32 x := None),
                prefix_fcex @ w \<mapsto> ex(Rep_hash32 x := None))) \<and>
      expirationIndexAgrees
        (tx(FileContracts \<mapsto> fcs(Rep_hash32 x := None),
            prefix_fcex @ w \<mapsto> ex(Rep_hash32 x := None)))"
    using w(1,2) run inv by (intro exI [of _ w] exI [of _ ex]) simp
next
  assume "tx FileContracts = Some fcs \<and> fcs (Rep_hash32 x) = Some bs \<and>
      sliceBytes (Some bs) 48 56 = Some w \<and>
      tx (prefix_fcex @ w) = Some ex \<and> ex (Rep_hash32 x) = None"
  then show "removeFileContract env tx x =
      Inl (PanicErr errNilItem, tx(FileContracts \<mapsto> fcs(Rep_hash32 x := None)))"
    using removeFileContract_steps [where tx = tx and fcs = fcs and x = x and bs = bs and w = w
        and env = env]
    by simp
next
  assume "tx FileContracts = Some fcs \<and> fcs (Rep_hash32 x) = Some bs \<and>
      sliceBytes (Some bs) 48 56 = Some w \<and> tx (prefix_fcex @ w) = None"
  then show "removeFileContract env tx x =
      Inl (NilDereference, tx(FileContracts \<mapsto> fcs(Rep_hash32 x := None)))"
    using removeFileContract_steps [where tx = tx and fcs = fcs and x = x and bs = bs and w = w
        and env = env]
    by simp
next
  assume "DEBUG env \<and> tx FileContracts = Some fcs \<and> fcs (Rep_hash32 x) = Some bs"
  then show "addFileContract env tx x fc = Inl (PanicStr ''repeat file contract'', tx)"
    by (simp add: addFileContract_def Bucket_Get_Some)
next
  assume "\<not> DEBUG env \<and> expirationIndexAgrees tx \<and> tx FileContracts = Some fcs \<and>
      fcs (Rep_hash32 x) = Some bs \<and> sliceBytes (Some bs) 48 56 = Some w \<and>
      w \<noteq> Marshal_BlockHeight (FileContract_WindowEnd env fc) \<and>
      sliceBytes (Some (Marshal_FileContract env fc)) 48 56 =
        Some (Marshal_BlockHeight (FileContract_WindowEnd env fc)) \<and>
      length (Marshal_FileContract env fc) \<le> MaxValueSize"
  then show "\<exists>tx'. addFileContract env tx x fc = Inr tx' \<and> \<not> expirationIndexAgrees tx'"
    using addFileContract_present_release [where env = env and tx = tx and fcs = fcs and x = x and bs = bs
        and w = w and fc = fc]
    by blast
qed

text \<open>
  The theorem at the examples: adding the contract to the store with no contract,
  removing it again, removing it from stores that lack its marker, and adding it a
  second time, with the sanity checks on and off.
\<close>

theorem expirationIndex_consistent_witness:
  "expirationIndexAgrees example_no_contracts \<and>
   example_no_contracts FileContracts = Some Map.empty \<and>
   sliceBytes (Some (Marshal_FileContract example_env 100)) 48 56 =
     Some (Marshal_BlockHeight (FileContract_WindowEnd example_env 100)) \<and>
   length (Marshal_FileContract example_env 100) \<le> MaxValueSize \<and>
   addFileContract example_env example_no_contracts (example_hash 1) 100 = Inr example_contracts \<and>
   expirationIndexAgrees example_contracts \<and>
   removeFileContract example_env example_contracts (example_hash 1) =
     Inr (example_contracts
           (FileContracts \<mapsto> Map.empty, prefix_fcex @ Marshal_BlockHeight 100 \<mapsto> Map.empty)) \<and>
   expirationIndexAgrees
     (example_contracts
       (FileContracts \<mapsto> Map.empty, prefix_fcex @ Marshal_BlockHeight 100 \<mapsto> Map.empty)) \<and>
   removeFileContract example_env example_unmarked (example_hash 1) =
     Inl (PanicErr errNilItem, example_unmarked(FileContracts \<mapsto> Map.empty)) \<and>
   removeFileContract example_env (example_unmarked(prefix_fcex @ Marshal_BlockHeight 100 := None))
       (example_hash 1) =
     Inl (NilDereference,
          (example_unmarked(prefix_fcex @ Marshal_BlockHeight 100 := None))
            (FileContracts \<mapsto> Map.empty)) \<and>
   DEBUG example_env \<and>
   addFileContract example_env example_contracts (example_hash 1) 200 =
     Inl (PanicStr ''repeat file contract'', example_contracts) \<and>
   \<not> DEBUG example_release \<and>
   Marshal_BlockHeight 100 \<noteq> Marshal_BlockHeight (FileContract_WindowEnd example_release 200) \<and>
   (\<exists>tx'. addFileContract example_release example_contracts (example_hash 1) 200 = Inr tx' \<and>
      \<not> expirationIndexAgrees tx')"
proof -
  let ?m = "Marshal_FileContract example_env 100"
  let ?E = "prefix_fcex @ Marshal_BlockHeight 100"
  let ?h = "Rep_hash32 (example_hash 1)"
  have inv0: "expirationIndexAgrees example_no_contracts"
    by (simp add: expirationIndexAgrees_def example_no_contracts_def)
  have b0: "example_no_contracts FileContracts = Some Map.empty"
    by (simp add: example_no_contracts_def)
  have sl: "sliceBytes (Some ?m) 48 56 = Some (Marshal_BlockHeight (FileContract_WindowEnd example_env 100))"
    by (rule example_contract_slice)
  have len: "length ?m \<le> MaxValueSize"
    by (simp add: MaxValueSize_def)
  have add: "addFileContract example_env example_no_contracts (example_hash 1) 100 = Inr example_contracts"
    using len
    by (subst addFileContract_eq [where fcs = Map.empty])
       (simp_all add: example_no_contracts_def example_contracts_def)
  from expirationIndex_consistent [of example_no_contracts Map.empty "example_hash 1" example_env 100]
    inv0 b0 sl len add
  have inv1: "expirationIndexAgrees example_contracts"
    by auto
  have b1: "example_contracts FileContracts = Some [?h \<mapsto> ?m]"
    by (simp add: example_contracts_def)
  have e1: "example_contracts ?E = Some [?h \<mapsto> []]"
    by (simp add: example_contracts_def)
  have sl': "sliceBytes (Some ?m) 48 56 = Some (Marshal_BlockHeight 100)"
    using sl by simp
  from expirationIndex_consistent
    [of example_contracts "[?h \<mapsto> ?m]" "example_hash 1" example_env 100 ?m]
    inv1 b1 e1 sl'
  have rem: "removeFileContract example_env example_contracts (example_hash 1) =
      Inr (example_contracts(FileContracts \<mapsto> Map.empty, ?E \<mapsto> Map.empty)) \<and>
    expirationIndexAgrees (example_contracts(FileContracts \<mapsto> Map.empty, ?E \<mapsto> Map.empty))"
    by auto
  have b2: "example_unmarked FileContracts = Some [?h \<mapsto> ?m]"
    by (simp add: example_unmarked_def)
  have e2: "example_unmarked ?E = Some Map.empty"
    by (simp add: example_unmarked_def)
  from expirationIndex_consistent
    [of example_unmarked "[?h \<mapsto> ?m]" "example_hash 1" example_env 100 ?m
      "Marshal_BlockHeight 100" Map.empty]
    b2 e2 sl'
  have fatal1: "removeFileContract example_env example_unmarked (example_hash 1) =
      Inl (PanicErr errNilItem, example_unmarked(FileContracts \<mapsto> Map.empty))"
    by simp
  have b3: "(example_unmarked(?E := None)) FileContracts = Some [?h \<mapsto> ?m]"
    by (simp add: example_unmarked_def)
  from expirationIndex_consistent
    [of "example_unmarked(?E := None)" "[?h \<mapsto> ?m]" "example_hash 1" example_env 100 ?m
      "Marshal_BlockHeight 100" Map.empty]
    b3 sl'
  have fatal2: "removeFileContract example_env (example_unmarked(?E := None)) (example_hash 1) =
      Inl (NilDereference, (example_unmarked(?E := None))(FileContracts \<mapsto> Map.empty))"
    by simp
  have dbg: "DEBUG example_env"
    by simp
  from expirationIndex_consistent
    [of example_contracts "[?h \<mapsto> ?m]" "example_hash 1" example_env 200 ?m]
    b1 dbg
  have fatal3: "addFileContract example_env example_contracts (example_hash 1) 200 =
      Inl (PanicStr ''repeat file contract'', example_contracts)"
    by simp
  have rel: "\<not> DEBUG example_release"
    by simp
  have at: "[?h \<mapsto> ?m] ?h = Some ?m"
    by simp
  have other: "Marshal_BlockHeight 100 \<noteq> Marshal_BlockHeight (FileContract_WindowEnd example_release 200)"
    by simp
  have sl2: "sliceBytes (Some (Marshal_FileContract example_release 200)) 48 56 =
      Some (Marshal_BlockHeight (FileContract_WindowEnd example_release 200))"
    using example_contract_slice [of 200] by simp
  have len2: "length (Marshal_FileContract example_release 200) \<le> MaxValueSize"
    by (simp add: MaxValueSize_def)
  from expirationIndex_consistent
    [of example_contracts "[?h \<mapsto> ?m]" "example_hash 1" example_release 200 ?m
      "Marshal_BlockHeight 100"]
    rel inv1 b1 at sl' other sl2 len2
  have stale: "\<exists>tx'. addFileContract example_release example_contracts (example_hash 1) 200 = Inr tx' \<and>
      \<not> expirationIndexAgrees tx'"
    by blast
  from inv0 b0 sl len add inv1 rem fatal1 fatal2 dbg fatal3 rel other stale show ?thesis by blast
qed

text \<open>
  With the sanity checks off, \<^verbatim>\<open>addFileContract\<close> of a stored identifier returns: the
  record is replaced and a second marker written, in the bucket of the new window
  end. The marker in the bucket of height 100 stays, while the stored record has its
  window end at height 200: the index no longer agrees with the bucket of contracts.
\<close>

theorem addFileContract_stale_counterexample:
  "\<not> DEBUG example_release \<and>
   expirationIndexAgrees example_contracts \<and>
   addFileContract example_release example_contracts (example_hash 1) 200 = Inr example_stale \<and>
   example_stale FileContracts =
     Some [Rep_hash32 (example_hash 1) \<mapsto> Marshal_FileContract example_env 200] \<and>
   sliceBytes (Some (Marshal_FileContract example_env 200)) 48 56 = Some (Marshal_BlockHeight 200) \<and>
   example_stale (prefix_fcex @ Marshal_BlockHeight 100) = Some [Rep_hash32 (example_hash 1) \<mapsto> []] \<and>
   \<not> expirationIndexAgrees example_stale"
proof -
  let ?h = "Rep_hash32 (example_hash 1)"
  have run: "addFileContract example_release example_contracts (example_hash 1) 200 = Inr example_stale"
    by (subst addFileContract_eq [where fcs = "[?h \<mapsto> Marshal_FileContract example_env 100]"])
       (auto simp add: example_contracts_def example_stale_def MaxValueSize_def)
  have p: "example_stale FileContracts = Some [?h \<mapsto> Marshal_FileContract example_env 200]"
    by (simp add: example_stale_def)
  have sl: "sliceBytes (Some (Marshal_FileContract example_env 200)) 48 56 = Some (Marshal_BlockHeight 200)"
    using example_contract_slice [of 200] by simp
  have m: "example_stale (prefix_fcex @ Marshal_BlockHeight 100) = Some [?h \<mapsto> []]"
    by (simp add: example_stale_def)
  have bad: "\<not> expirationIndexAgrees example_stale"
  proof
    assume "expirationIndexAgrees example_stale"
    from this m obtain fcs bs where "example_stale FileContracts = Some fcs"
      "fcs ?h = Some bs" "sliceBytes (Some bs) 48 56 = Some (Marshal_BlockHeight 100)"
      by (rule expirationIndexAgreesD2) simp
    with p sl show False by simp
  qed
  from run p sl m bad example_contracts_agrees show ?thesis by simp
qed

end
